theory Spec2Isabelle
  imports Complex_Main "HOL-Library.Word"
begin

unbundle bit_operations_syntax

section \<open>HLSL scalars, vectors and buffers\<close>

text \<open>
  \<^verbatim>\<open>uint\<close> is a 32-bit word. \<^verbatim>\<open>float\<close> and \<^verbatim>\<open>half\<close> values are modelled by the
  real numbers they denote. The functions of this section and the position and frustum
  computations compute on these reals exactly. The eigenvalues of the covariance kernel
  and the alpha of the pixel shader are computed in a rounded arithmetic, introduced
  below. Infinities and NaN are not values of the model: where the covariance kernel
  produces one, the model says so instead of giving a value. Vectors are tuples; a
  matrix is the tuple of its rows, so that \<^verbatim>\<open>m[i]\<close> is the i-th component of the
  tuple.
\<close>

type_synonym uint = "32 word"
type_synonym float2 = "real \<times> real"
type_synonym float3 = "real \<times> real \<times> real"
type_synonym float4 = "real \<times> real \<times> real \<times> real"
type_synonym float3x3 = "float3 \<times> float3 \<times> float3"
type_synonym float4x4 = "float4 \<times> float4 \<times> float4 \<times> float4"

text \<open>
  A shift by a \<^verbatim>\<open>uint\<close> amount uses the low five bits of the amount, as the
  shader instructions \<^verbatim>\<open>ishl\<close> and \<^verbatim>\<open>ushr\<close> do.
\<close>

definition hlsl_shl :: "uint \<Rightarrow> uint \<Rightarrow> uint" where
  "hlsl_shl x n = push_bit (unat n mod 32) x"

definition hlsl_shr :: "uint \<Rightarrow> uint \<Rightarrow> uint" where
  "hlsl_shr x n = drop_bit (unat n mod 32) x"

text \<open>
  A buffer is the list of its elements. A read past the end returns zero and a write
  past the end is dropped, as for a typed buffer view; \<open>xs[i := v]\<close> keeps \<open>xs\<close>
  when \<open>i\<close> is out of range.
\<close>

definition buf_read :: "'a \<Rightarrow> 'a list \<Rightarrow> uint \<Rightarrow> 'a" where
  "buf_read z xs i = (if unat i < length xs then xs ! unat i else z)"

definition buf_write :: "'a list \<Rightarrow> uint \<Rightarrow> 'a \<Rightarrow> 'a list" where
  "buf_write xs i v = xs[unat i := v]"

fun xyz :: "float4 \<Rightarrow> float3" where
  "xyz (x, y, z, w) = (x, y, z)"

fun dot2 :: "float2 \<Rightarrow> float2 \<Rightarrow> real" where
  "dot2 (a0, a1) (b0, b1) = a0 * b0 + a1 * b1"

fun dot3 :: "float3 \<Rightarrow> float3 \<Rightarrow> real" where
  "dot3 (a0, a1, a2) (b0, b1, b2) = a0 * b0 + a1 * b1 + a2 * b2"

text \<open>\<^verbatim>\<open>mul(v, m)\<close> with a row vector \<open>v\<close>: component \<open>j\<close> is \<open>\<Sum>i. v[i] * m[i][j]\<close>.\<close>

fun mul_v3_m3 :: "float3 \<Rightarrow> float3x3 \<Rightarrow> float3" where
  "mul_v3_m3 (x, y, z) ((a0, a1, a2), (b0, b1, b2), (c0, c1, c2)) =
     (x * a0 + y * b0 + z * c0, x * a1 + y * b1 + z * c1, x * a2 + y * b2 + z * c2)"

fun mul_v4_m4 :: "float4 \<Rightarrow> float4x4 \<Rightarrow> float4" where
  "mul_v4_m4 (x, y, z, w)
       ((a0, a1, a2, a3), (b0, b1, b2, b3), (c0, c1, c2, c3), (d0, d1, d2, d3)) =
     (x * a0 + y * b0 + z * c0 + w * d0, x * a1 + y * b1 + z * c1 + w * d1,
      x * a2 + y * b2 + z * c2 + w * d2, x * a3 + y * b3 + z * c3 + w * d3)"

text \<open>The cast \<^verbatim>\<open>(half3x3)m\<close> keeps the upper-left 3x3 block.\<close>

fun to_3x3 :: "float4x4 \<Rightarrow> float3x3" where
  "to_3x3 ((a0, a1, a2, a3), (b0, b1, b2, b3), (c0, c1, c2, c3), d) =
     ((a0, a1, a2), (b0, b1, b2), (c0, c1, c2))"

definition saturate :: "real \<Rightarrow> real" where
  "saturate x = min (max x 0) 1"

text \<open>
  \<^verbatim>\<open>uint(x)\<close> for a float: truncation towards zero, with negative values
  converted to 0 and values past the 32-bit range to the largest \<^verbatim>\<open>uint\<close>.
\<close>

definition uint_of_float :: "real \<Rightarrow> uint" where
  "uint_of_float x =
     (if x \<le> 0 then 0 else if 2 ^ 32 \<le> x then - 1 else word_of_nat (nat \<lfloor>x\<rfloor>))"

section \<open>Rounded arithmetic\<close>

text \<open>
  The operations of a floating-point format: each takes the reals its operands denote
  and returns the real its result denotes. HLSL leaves the width of \<^verbatim>\<open>half\<close> and the
  accuracy of \<^verbatim>\<open>sqrt\<close> and \<^verbatim>\<open>exp\<close> to the device, so the arithmetic is an argument
  \<open>ar\<close> of the functions that compute in it. The square root of a negative number
  and a quotient by zero are NaN or infinite in a float format and have no value here:
  a function that may come to them tests for these arguments first.
\<close>

record arith =
  f_add :: "real \<Rightarrow> real \<Rightarrow> real"
  f_sub :: "real \<Rightarrow> real \<Rightarrow> real"
  f_mul :: "real \<Rightarrow> real \<Rightarrow> real"
  f_div :: "real \<Rightarrow> real \<Rightarrow> real"
  f_sqrt :: "real \<Rightarrow> real"
  f_exp :: "real \<Rightarrow> real"

text \<open>
  IEEE 754 rounding of a real to \<open>p\<close> significant bits, to nearest and ties to even:
  \<open>pow2 k\<close> is \<open>2\<^sup>k\<close>, \<open>round_to_even\<close> rounds to an integer, and \<open>round_float p x\<close>
  rounds \<open>x\<close> to a multiple of the unit in the last place of its binade. The exponent
  is not bounded: there is no overflow to infinity and there are no subnormal numbers.
\<close>

definition pow2 :: "int \<Rightarrow> real" where
  "pow2 k = (if 0 \<le> k then 2 ^ nat k else 1 / 2 ^ nat (- k))"

definition round_to_even :: "real \<Rightarrow> int" where
  "round_to_even q =
     (let f = \<lfloor>q\<rfloor>
      in if q - real_of_int f < 1 / 2 then f
         else if 1 / 2 < q - real_of_int f then f + 1
         else if even f then f else f + 1)"

definition round_float :: "nat \<Rightarrow> real \<Rightarrow> real" where
  "round_float p x =
     (if x = 0 then 0
      else let e = \<lfloor>log 2 \<bar>x\<bar>\<rfloor>;
               ulp = pow2 (e - (int p - 1))
           in real_of_int (round_to_even (x / ulp)) * ulp)"

text \<open>
  The arithmetic in which every operation returns its exact result rounded to \<open>p\<close>
  bits. \<^verbatim>\<open>float\<close> is \<open>binary32\<close>, with 24 significant bits; \<open>binary16\<close>, with 11,
  is \<^verbatim>\<open>half\<close> on a device that has 16-bit floats.
\<close>

definition ieee :: "nat \<Rightarrow> arith" where
  "ieee p =
     \<lparr>f_add = (\<lambda>x y. round_float p (x + y)), f_sub = (\<lambda>x y. round_float p (x - y)),
      f_mul = (\<lambda>x y. round_float p (x * y)), f_div = (\<lambda>x y. round_float p (x / y)),
      f_sqrt = (\<lambda>x. round_float p (sqrt x)), f_exp = (\<lambda>x. round_float p (exp x))\<rparr>"

definition binary32 :: arith where
  "binary32 = ieee 24"

definition binary16 :: arith where
  "binary16 = ieee 11"

text \<open>\<^verbatim>\<open>dot(a, b)\<close> of two 2-vectors in the arithmetic \<open>ar\<close>.\<close>

fun f_dot2 :: "arith \<Rightarrow> float2 \<Rightarrow> float2 \<Rightarrow> real" where
  "f_dot2 ar (a0, a1) (b0, b1) = f_add ar (f_mul ar a0 b0) (f_mul ar a1 b1)"

section \<open>constants.hlsl\<close>

definition RADIUS_SIGMA :: real where
  "RADIUS_SIGMA = sqrt 8"

definition RADIUS_SIGMA_OVER_SQRT_2 :: real where
  "RADIUS_SIGMA_OVER_SQRT_2 = RADIUS_SIGMA / sqrt 2"

definition CUTOFF_RADIUS_SIGMA_SQUARED_OVER_2 :: real where
  "CUTOFF_RADIUS_SIGMA_SQUARED_OVER_2 = RADIUS_SIGMA_OVER_SQRT_2 * RADIUS_SIGMA_OVER_SQRT_2"

definition DISTANCE_PRECISION :: nat where
  "DISTANCE_PRECISION = 16"

definition DISTANCE_SCALE :: real where
  "DISTANCE_SCALE = real (2 ^ DISTANCE_PRECISION - 2)"

definition DISTANCE_NOT_VISIBLE :: uint where
  "DISTANCE_NOT_VISIBLE = 2 ^ DISTANCE_PRECISION - 1"

section \<open>unpacking.hlsl\<close>

text \<open>
  \<^verbatim>\<open>f16tof32\<close> converts the float16 stored in the low half of its argument. The
  model keeps that float as its binary16 bit pattern, the low 16 bits of the argument.
\<close>

type_synonym half_bits = "16 word"

definition f16tof32 :: "uint \<Rightarrow> half_bits" where
  "f16tof32 x = ucast x"

definition unpack_f16 :: "uint \<Rightarrow> uint \<Rightarrow> uint \<Rightarrow> uint \<Rightarrow> uint \<Rightarrow> half_bits" where
  "unpack_f16 s e m packed offset =
     (let shift = 15 - e - m;
          mask = hlsl_shl (hlsl_shl 1 (s + e + m) - 1) shift
      in if s = 1 \<and> offset = 0 then f16tof32 (hlsl_shl packed shift)
         else if offset < shift then f16tof32 (hlsl_shl packed (shift - offset) AND mask)
         else f16tof32 (hlsl_shr packed (offset - shift) AND mask))"

definition unpack_unorm :: "uint \<Rightarrow> uint \<Rightarrow> uint \<Rightarrow> real" where
  "unpack_unorm bits packed offset =
     (let Mask = hlsl_shl 1 bits - 1
      in if offset = 0 then real (unat (packed AND Mask))
         else real (unat (hlsl_shr packed offset AND Mask)))"

text \<open>
  The value of a binary16 pattern: sign bit 15, exponent bits 10..14 (bias 15),
  significand bits 0..9. The patterns with exponent 31 (infinities and NaN) denote no
  real number; the formula of the normal numbers is continued to them.
\<close>

definition half_value :: "half_bits \<Rightarrow> real" where
  "half_value h =
     (let sgn = (if bit h 15 then - 1 else 1 :: real);
          ex = unat (drop_bit 10 h AND 31);
          man = unat (h AND 1023)
      in if ex = 0 then sgn * real man / 2 ^ 24
         else sgn * (1024 + real man) * 2 ^ ex / 2 ^ 25)"

definition unpack_cov_mat :: "uint \<times> uint \<Rightarrow> float3x3" where
  "unpack_cov_mat packedCovMat =
     (let xx = half_value (unpack_f16 0 5 5 (snd packedCovMat) 22);
          xy = half_value (unpack_f16 1 5 5 (snd packedCovMat) 11);
          xz = half_value (unpack_f16 1 5 5 (snd packedCovMat) 0);
          yy = half_value (unpack_f16 0 5 5 (fst packedCovMat) 22);
          yz = half_value (unpack_f16 1 5 5 (fst packedCovMat) 11);
          zz = half_value (unpack_f16 0 5 6 (fst packedCovMat) 0)
      in ((xx, xy, xz), (xy, yy, yz), (xz, yz, zz)))"

fun unpack_pos :: "uint \<Rightarrow> float3 \<Rightarrow> float3 \<Rightarrow> float4" where
  "unpack_pos packed (sx, sy, sz) (ox, oy, oz) =
     (let x = unpack_unorm 11 packed 0;
          y = unpack_unorm 11 packed 11;
          z = unpack_unorm 10 packed 22
      in (x * sx + ox, y * sy + oy, z * sz + oz, 1))"

section \<open>Shader constants and buffers\<close>

text \<open>
  The constants and functions each shader lists as required, supplied by the host:
  one record holds them for all four shaders. \<open>world_to_clip\<close> is the required
  function of the vertex shader (with the view index, where there is one, already
  applied) and \<open>get_render_resolution\<close> the value the required function returns.
\<close>

record shader_constants =
  local_to_view :: float4x4
  local_to_clip :: float4x4
  local_to_world :: float4x4
  two_focal_length :: float2
  num_splats :: uint
  pos_scale_cm :: float3
  pos_min_cm :: float3
  world_to_clip :: "float3 \<Rightarrow> float4"
  get_render_resolution :: float2

record buffers =
  positions :: "uint list"
  covariances :: "(uint \<times> uint) list"
  transforms :: "float4 list"
  indices :: "uint list"
  distances :: "uint list"
  colors :: "float4 list"

section \<open>Visibility and sort-key kernel\<close>

fun outside_frustum :: "float4 \<Rightarrow> bool" where
  "outside_frustum (x, y, z, w) = (x < - w \<or> x > w \<or> y < - w \<or> y > w \<or> z > w)"

definition distance_pos_clip :: "shader_constants \<Rightarrow> buffers \<Rightarrow> uint \<Rightarrow> float4" where
  "distance_pos_clip c b tid =
     (let pos_local = unpack_pos (buf_read 0 (positions b) tid) (pos_scale_cm c) (pos_min_cm c)
      in mul_v4_m4 pos_local (local_to_clip c))"

fun splat_distance :: "float4 \<Rightarrow> uint" where
  "splat_distance (x, y, z, w) =
     (let inside_frustum = \<not> outside_frustum (x, y, z, w)
      in if inside_frustum then uint_of_float (saturate (z / w) * DISTANCE_SCALE)
         else DISTANCE_NOT_VISIBLE)"

text \<open>
  One invocation of the kernel. Inside the frustum \<open>w = 0\<close> forces \<open>z \<le> 0\<close>, where
  the shader's \<^verbatim>\<open>saturate(z / w)\<close> is 0 (the quotient is negative infinity or NaN),
  as is \<open>saturate (z / 0)\<close> here.
\<close>

definition main_distance :: "shader_constants \<Rightarrow> buffers \<Rightarrow> uint \<Rightarrow> buffers" where
  "main_distance c b tid =
     (if tid \<ge> num_splats c then b
      else let pos_clip = distance_pos_clip c b tid;
               index = tid;
               distance = splat_distance pos_clip
           in b\<lparr>indices := buf_write (indices b) tid index,
                distances := buf_write (distances b) tid distance\<rparr>)"

section \<open>Covariance projection kernel\<close>

definition transform_pos_view :: "shader_constants \<Rightarrow> buffers \<Rightarrow> uint \<Rightarrow> float3" where
  "transform_pos_view c b splat_id =
     (let pos_local =
            unpack_pos (buf_read 0 (positions b) splat_id) (pos_scale_cm c) (pos_min_cm c)
      in xyz (mul_v4_m4 pos_local (local_to_view c)))"

text \<open>
  The projected covariance: its three independent entries
  \<open>(sig_p_00, sig_p_01_10, sig_p_11)\<close>, from the view-space position, the view
  matrix \<open>W\<close> and the covariance matrix \<open>sig\<close>.
\<close>

fun sigma_prime :: "float3 \<Rightarrow> float3x3 \<Rightarrow> float3x3 \<Rightarrow> real \<times> real \<times> real" where
  "sigma_prime (pvx, pvy, pvz) ((W00, W01, W02), (W10, W11, W12), (W20, W21, W22)) sig =
     (let scale_x = - pvx / pvz;
          scale_y = - pvy / pvz;
          jw_0 = (W00 + scale_x * W02, W10 + scale_x * W12, W20 + scale_x * W22);
          jw_1 = (W01 + scale_y * W02, W11 + scale_y * W12, W21 + scale_y * W22);
          jw_sig_0 = mul_v3_m3 jw_0 sig;
          jw_sig_1 = mul_v3_m3 jw_1 sig;
          sig_p_00 = dot3 jw_sig_0 jw_0;
          sig_p_01_10 = dot3 jw_sig_0 jw_1;
          sig_p_11 = dot3 jw_sig_1 jw_1
      in (sig_p_00, sig_p_01_10, sig_p_11))"

text \<open>
  The eigenvalue step, in the arithmetic \<open>ar\<close>: the variables \<^verbatim>\<open>det\<close> and
  \<^verbatim>\<open>trace\<close>, the argument \<^verbatim>\<open>trace * trace - 4 * det\<close> of the square root, the
  variable \<^verbatim>\<open>sqrt_disc\<close> and the variable \<^verbatim>\<open>two_lmb\<close>, each operation rounded as it
  is written.
\<close>

fun sig_p_det :: "arith \<Rightarrow> real \<times> real \<times> real \<Rightarrow> real" where
  "sig_p_det ar (sig_p_00, sig_p_01_10, sig_p_11) =
     f_sub ar (f_mul ar sig_p_00 sig_p_11) (f_mul ar sig_p_01_10 sig_p_01_10)"

fun sig_p_trace :: "arith \<Rightarrow> real \<times> real \<times> real \<Rightarrow> real" where
  "sig_p_trace ar (sig_p_00, sig_p_01_10, sig_p_11) = f_add ar sig_p_00 sig_p_11"

definition sig_p_disc :: "arith \<Rightarrow> real \<times> real \<times> real \<Rightarrow> real" where
  "sig_p_disc ar sig_p =
     (let det = sig_p_det ar sig_p;
          trace = sig_p_trace ar sig_p
      in f_sub ar (f_mul ar trace trace) (f_mul ar 4 det))"

definition sig_p_sqrt_disc :: "arith \<Rightarrow> real \<times> real \<times> real \<Rightarrow> real" where
  "sig_p_sqrt_disc ar sig_p = f_sqrt ar (sig_p_disc ar sig_p)"

definition two_lmb :: "arith \<Rightarrow> real \<times> real \<times> real \<Rightarrow> float2" where
  "two_lmb ar sig_p =
     (let trace = sig_p_trace ar sig_p;
          sqrt_disc = sig_p_sqrt_disc ar sig_p
      in (f_add ar trace sqrt_disc, f_sub ar trace sqrt_disc))"

text \<open>\<^verbatim>\<open>normalize\<close> of the zero vector is NaN in both components: \<open>None\<close>.\<close>

fun normalize2 :: "float2 \<Rightarrow> float2 option" where
  "normalize2 (x, y) =
     (if x = 0 \<and> y = 0 then None
      else Some (x / sqrt (x * x + y * y), y / sqrt (x * x + y * y)))"

definition transform_sig_p :: "shader_constants \<Rightarrow> buffers \<Rightarrow> uint \<Rightarrow> real \<times> real \<times> real" where
  "transform_sig_p c b splat_id =
     (let pos_view = transform_pos_view c b splat_id;
          sig = unpack_cov_mat (buf_read (0, 0) (covariances b) splat_id);
          W = to_3x3 (local_to_view c)
      in sigma_prime pos_view W sig)"

text \<open>
  The value that the invocation for \<open>splat_id\<close> writes to \<open>transforms\<close>, with the
  eigenvalue step in \<^verbatim>\<open>float\<close> arithmetic. It is \<open>None\<close> when the kernel divides by
  \<open>pos_view.z = 0\<close>, takes the square root of a negative number or normalizes the zero
  vector: the value written then has a component that is NaN or infinite.
\<close>

definition transform_value :: "shader_constants \<Rightarrow> buffers \<Rightarrow> uint \<Rightarrow> float4 option" where
  "transform_value c b splat_id =
     (let pos_view = transform_pos_view c b splat_id;
          sig_p = transform_sig_p c b splat_id;
          lmb = two_lmb binary32 sig_p
      in if snd (snd pos_view) = 0 \<or> sig_p_disc binary32 sig_p < 0 \<or> fst lmb < 0 \<or> snd lmb < 0
         then None
         else case normalize2 (fst (snd sig_p), fst lmb / 2 - fst sig_p) of
           None \<Rightarrow> None
         | Some v_0 \<Rightarrow>
             let sqrt_two_sigma = (sqrt (fst lmb), sqrt (snd lmb));
                 scale = (fst (two_focal_length c) / snd (snd pos_view) * fst sqrt_two_sigma,
                          snd (two_focal_length c) / snd (snd pos_view) * snd sqrt_two_sigma)
             in Some (fst v_0 * fst scale, - snd v_0 * snd scale,
                      snd v_0 * fst scale, fst v_0 * snd scale))"

text \<open>
  One invocation of the kernel: the buffers afterwards, or \<open>None\<close> when the value
  written is not a vector of reals.
\<close>

definition main_transform :: "shader_constants \<Rightarrow> buffers \<Rightarrow> uint \<Rightarrow> buffers option" where
  "main_transform c b tid =
     (let splat_id = tid
      in if splat_id \<ge> num_splats c then Some b
         else case transform_value c b splat_id of
           None \<Rightarrow> None
         | Some t \<Rightarrow> Some (b\<lparr>transforms := buf_write (transforms b) splat_id t\<rparr>))"

section \<open>Quad expansion: the vertex shader\<close>

text \<open>
  The outputs of one invocation. An output the shader returns without writing is
  \<open>None\<close>.
\<close>

record vs_output =
  out_sig_div_sqrt_2 :: "float2 option"
  out_color :: "float4 option"
  out_position :: float4

definition corners :: "float2 list" where
  "corners =
     [(- RADIUS_SIGMA_OVER_SQRT_2, - RADIUS_SIGMA_OVER_SQRT_2),
      (RADIUS_SIGMA_OVER_SQRT_2, - RADIUS_SIGMA_OVER_SQRT_2),
      (- RADIUS_SIGMA_OVER_SQRT_2, RADIUS_SIGMA_OVER_SQRT_2),
      (RADIUS_SIGMA_OVER_SQRT_2, - RADIUS_SIGMA_OVER_SQRT_2),
      (- RADIUS_SIGMA_OVER_SQRT_2, RADIUS_SIGMA_OVER_SQRT_2),
      (RADIUS_SIGMA_OVER_SQRT_2, RADIUS_SIGMA_OVER_SQRT_2)]"

definition vs_splat_id :: "buffers \<Rightarrow> uint \<Rightarrow> uint" where
  "vs_splat_id b in_id = buf_read 0 (indices b) (in_id div 6)"

definition vs_pos_clip :: "shader_constants \<Rightarrow> buffers \<Rightarrow> uint \<Rightarrow> float4" where
  "vs_pos_clip c b in_id =
     (let splat_id = vs_splat_id b in_id;
          pos_local =
            xyz (unpack_pos (buf_read 0 (positions b) splat_id) (pos_scale_cm c) (pos_min_cm c));
          pos_world = mul_v3_m3 pos_local (to_3x3 (local_to_world c))
      in world_to_clip c pos_world)"

fun vs_expand :: "float4 \<Rightarrow> float4 \<Rightarrow> float2 \<Rightarrow> float2 \<Rightarrow> float4" where
  "vs_expand (px, py, pz, pw) (tx, ty, tz, tw) (cx, cy) (rx, ry) =
     (let offset = (tx * cx + ty * cy, tz * cx + tw * cy);
          offset = (fst offset / rx, snd offset / ry)
      in (px + fst offset * pw, py + snd offset * pw, pz, pw))"

definition main_vs :: "shader_constants \<Rightarrow> buffers \<Rightarrow> uint \<Rightarrow> vs_output" where
  "main_vs c b in_id =
     (let splat_id = vs_splat_id b in_id;
          pos_clip = vs_pos_clip c b in_id
      in if outside_frustum pos_clip
         then \<lparr>out_sig_div_sqrt_2 = None, out_color = None, out_position = (0, 0, 0, 0)\<rparr>
         else let t = buf_read (0, 0, 0, 0) (transforms b) splat_id;
                  corner = corners ! unat (in_id mod 6)
              in \<lparr>out_sig_div_sqrt_2 = Some corner,
                  out_color = Some (buf_read (0, 0, 0, 0) (colors b) splat_id),
                  out_position = vs_expand pos_clip t corner (get_render_resolution c)\<rparr>)"

section \<open>Gaussian evaluation: the pixel shader\<close>

fun rgb :: "float4 \<Rightarrow> float3" where
  "rgb (r, g, b, a) = (r, g, b)"

fun alpha :: "float4 \<Rightarrow> real" where
  "alpha (r, g, b, a) = a"

text \<open>
  The pixel shader in the arithmetic \<open>ar\<close> of its \<^verbatim>\<open>half\<close> values. The cutoff is a
  constant of the shader, 4 as a real number.
\<close>

fun main_ps :: "arith \<Rightarrow> float2 \<Rightarrow> float4 \<Rightarrow> float4" where
  "main_ps ar sig_div_sqrt_2 (r, g, b, a) =
     (let sig_sq_div_2 = f_dot2 ar sig_div_sqrt_2 sig_div_sqrt_2;
          alpha_gaussian =
            (if sig_sq_div_2 < CUTOFF_RADIUS_SIGMA_SQUARED_OVER_2
             then f_div ar a (f_exp ar sig_sq_div_2)
             else 0)
      in (r, g, b, alpha_gaussian))"

section \<open>Half-float extraction by shift and mask\<close>

text \<open>
  The two ways of extracting a field that are compared with \<open>unpack_f16\<close>: the single
  shift that moves bit \<open>offset\<close> of the packed word to bit \<open>15 - e - m\<close>, alone or
  followed by the mask of the \<open>s + e + m\<close> bits of the field.
\<close>

definition single_shift :: "uint \<Rightarrow> uint \<Rightarrow> uint \<Rightarrow> uint \<Rightarrow> uint" where
  "single_shift e m packed offset =
     (let shift = 15 - e - m
      in if offset < shift then hlsl_shl packed (shift - offset)
         else hlsl_shr packed (offset - shift))"

definition field_mask :: "uint \<Rightarrow> uint \<Rightarrow> uint \<Rightarrow> uint" where
  "field_mask s e m = hlsl_shl (hlsl_shl 1 (s + e + m) - 1) (15 - e - m)"

definition shift_only_extraction :: "uint \<Rightarrow> uint \<Rightarrow> uint \<Rightarrow> uint \<Rightarrow> half_bits" where
  "shift_only_extraction e m packed offset = f16tof32 (single_shift e m packed offset)"

definition masked_extraction :: "uint \<Rightarrow> uint \<Rightarrow> uint \<Rightarrow> uint \<Rightarrow> uint \<Rightarrow> half_bits" where
  "masked_extraction s e m packed offset =
     f16tof32 (single_shift e m packed offset AND field_mask s e m)"

text \<open>
  The canonical half bit pattern of a field: the \<open>s + e + m\<close> bits of the packed word
  from bit \<open>offset\<close> on, placed from bit \<open>15 - e - m\<close> on, and zero elsewhere.
\<close>

definition canonical_half_pattern :: "uint \<Rightarrow> uint \<Rightarrow> uint \<Rightarrow> uint \<Rightarrow> uint \<Rightarrow> half_bits" where
  "canonical_half_pattern s e m packed offset =
     ucast (push_bit (15 - (unat e + unat m))
       (take_bit (unat s + unat e + unat m) (drop_bit (unat offset) packed)))"

section \<open>Accuracy and order of a rounded arithmetic\<close>

text \<open>
  What the theorems on the eigenvalues and on the Gaussian ask of the arithmetic, at
  the operations that the code performs.

  \<open>eigen_ops_accurate u ar sig_p\<close>: each of the ten operations of the eigenvalue step
  on \<open>sig_p\<close> returns its exact result with a relative error of at most \<open>u\<close>. An
  IEEE operation does, with \<open>u = 2\<^sup>-\<^sup>p\<close>, unless it overflows or underflows.
\<close>

fun eigen_ops_accurate :: "real \<Rightarrow> arith \<Rightarrow> real \<times> real \<times> real \<Rightarrow> bool" where
  "eigen_ops_accurate u ar (sig_p_00, sig_p_01_10, sig_p_11) =
     (let p0 = f_mul ar sig_p_00 sig_p_11;
          p1 = f_mul ar sig_p_01_10 sig_p_01_10;
          det = f_sub ar p0 p1;
          trace = f_add ar sig_p_00 sig_p_11;
          tt = f_mul ar trace trace;
          fd = f_mul ar 4 det;
          disc = f_sub ar tt fd;
          sqrt_disc = f_sqrt ar disc
      in \<bar>p0 - sig_p_00 * sig_p_11\<bar> \<le> u * \<bar>sig_p_00 * sig_p_11\<bar> \<and>
         \<bar>p1 - sig_p_01_10 * sig_p_01_10\<bar> \<le> u * \<bar>sig_p_01_10 * sig_p_01_10\<bar> \<and>
         \<bar>det - (p0 - p1)\<bar> \<le> u * \<bar>p0 - p1\<bar> \<and>
         \<bar>trace - (sig_p_00 + sig_p_11)\<bar> \<le> u * \<bar>sig_p_00 + sig_p_11\<bar> \<and>
         \<bar>tt - trace * trace\<bar> \<le> u * \<bar>trace * trace\<bar> \<and>
         \<bar>fd - 4 * det\<bar> \<le> u * \<bar>4 * det\<bar> \<and>
         \<bar>disc - (tt - fd)\<bar> \<le> u * \<bar>tt - fd\<bar> \<and>
         \<bar>sqrt_disc - sqrt disc\<bar> \<le> u * sqrt disc \<and>
         \<bar>f_add ar trace sqrt_disc - (trace + sqrt_disc)\<bar> \<le> u * \<bar>trace + sqrt_disc\<bar> \<and>
         \<bar>f_sub ar trace sqrt_disc - (trace - sqrt_disc)\<bar> \<le> u * \<bar>trace - sqrt_disc\<bar>)"

text \<open>
  \<open>order_preserving ar\<close>: a sum and a product of zeros are zero and the dot product
  of a vector with itself is not negative; \<open>exp 0\<close> is 1 and \<open>exp\<close> does not
  decrease from 0 up to the cutoff; a quotient of a dividend that is not negative by a
  divisor from 1 on is not negative and does not increase with the divisor. IEEE
  operations rounded to nearest have these properties.
\<close>

definition order_preserving :: "arith \<Rightarrow> bool" where
  "order_preserving ar \<longleftrightarrow>
     f_mul ar 0 0 = 0 \<and> f_add ar 0 0 = 0 \<and> f_exp ar 0 = 1 \<and>
     (\<forall>v. 0 \<le> f_dot2 ar v v) \<and>
     (\<forall>x y. 0 \<le> x \<and> x \<le> y \<and> y < CUTOFF_RADIUS_SIGMA_SQUARED_OVER_2 \<longrightarrow>
        f_exp ar x \<le> f_exp ar y) \<and>
     (\<forall>a x. 0 \<le> a \<and> 1 \<le> x \<longrightarrow> 0 \<le> f_div ar a x) \<and>
     (\<forall>a x y. 0 \<le> a \<and> 1 \<le> x \<and> x \<le> y \<longrightarrow> f_div ar a y \<le> f_div ar a x)"

section \<open>The importer: splat_parsing.h\<close>

datatype Property =
  Ignore | X | Y | Z | RotationX | RotationY | RotationZ | RotationW
  | ScaleX | ScaleY | ScaleZ | DCRed | DCGreen | DCBlue | Opacity

datatype PropertyFormat = Unknown | I8 | I16 | I32 | U8 | U16 | U32 | F32 | F64

text \<open>\<^verbatim>\<open>size_t\<close> is a 64-bit word: products and sums wrap around.\<close>

type_synonym size_t = "64 word"

record Metadata =
  properties :: "Property \<rightharpoonup> PropertyFormat"
  metadata_num_splats :: size_t

section \<open>The importer: splat_logging\<close>

text \<open>
  What a call does besides returning: a library precondition is broken
  (\<^verbatim>\<open>remove_prefix\<close> past the end of a view, a read past the end of the buffer or
  of a string literal, a \<^verbatim>\<open>va_list\<close> used again after \<^verbatim>\<open>vsnprintf\<close> has read
  it), or \<^verbatim>\<open>at\<close> throws for a missing key.
\<close>

datatype fault = UndefinedBehaviour | OutOfRange

text \<open>
  The global \<^verbatim>\<open>send_log\<close> is the receiver stored by \<^verbatim>\<open>set_log_recv\<close>, or null.
  The functions of the importer take it as the argument \<open>send_log\<close>, which is true when
  there is a receiver. \<^verbatim>\<open>log\<close> returns at once when there is none. When there is
  one, it measures the message with \<^verbatim>\<open>vsnprintf(nullptr, 0, format, args)\<close>, builds
  \<^verbatim>\<open>std::string buffer("", size + 1)\<close>, which reads \<open>size + 1\<close> characters from a
  literal that has one, and passes the same \<^verbatim>\<open>args\<close> to \<^verbatim>\<open>vsnprintf\<close> again. No
  message of the importer is empty, so the read is past the end of the literal in every
  call; the messages with a \<^verbatim>\<open>%.*s\<close> also pass a \<^verbatim>\<open>size_t\<close> where an \<^verbatim>\<open>int\<close>
  is read. Such a call is undefined, and what the receiver is given is not modelled.
  \<open>continue\<close> is what the caller does after the call.
\<close>

datatype Level = ERROR | WARNING

definition log_message :: "bool \<Rightarrow> Level \<Rightarrow> fault + 'a \<Rightarrow> fault + 'a" where
  "log_message send_log level continue =
     (if \<not> send_log then continue else Inl UndefinedBehaviour)"

definition log_error :: "bool \<Rightarrow> fault + 'a \<Rightarrow> fault + 'a" where
  "log_error send_log continue = log_message send_log ERROR continue"

definition log_warn :: "bool \<Rightarrow> fault + 'a \<Rightarrow> fault + 'a" where
  "log_warn send_log continue = log_message send_log WARNING continue"

section \<open>The importer: splat_ply_parsing\<close>

datatype PlyFormat = Invalid | ASCII | BinaryBigEndian | BinaryLittleEndian

record PropertyDesc =
  desc_offset :: size_t
  desc_type :: PropertyFormat

text \<open>
  The members of \<^verbatim>\<open>SplatParserPly\<close>. The buffer is the list of its bytes; the header
  is read from it as text.
\<close>

text \<open>
  The members of the parser are \<open>format\<close>, \<open>layout\<close>, \<open>parser_num_splats\<close> (the
  member \<^verbatim>\<open>num_splats\<close>), \<open>splat_size\<close> and \<open>buffer\<close>; \<open>metadata_num_splats\<close> is
  \<^verbatim>\<open>Metadata::num_splats\<close>, and \<open>desc_offset\<close> and \<open>desc_type\<close> are the members
  \<^verbatim>\<open>offset\<close> and \<^verbatim>\<open>type\<close> of \<^verbatim>\<open>PropertyDesc\<close>.
\<close>

record SplatParserPly =
  format :: PlyFormat
  layout :: "Property \<rightharpoonup> PropertyDesc"
  parser_num_splats :: size_t
  splat_size :: size_t
  buffer :: string

definition format_map :: "string \<rightharpoonup> PlyFormat" where
  "format_map =
     [''ascii'' \<mapsto> ASCII, ''binary_big_endian'' \<mapsto> BinaryBigEndian,
      ''binary_little_endian'' \<mapsto> BinaryLittleEndian]"

definition property_map :: "string \<rightharpoonup> Property" where
  "property_map =
     [''x'' \<mapsto> X, ''y'' \<mapsto> Y, ''z'' \<mapsto> Z,
      ''f_dc_0'' \<mapsto> DCRed, ''f_dc_1'' \<mapsto> DCGreen, ''f_dc_2'' \<mapsto> DCBlue,
      ''opacity'' \<mapsto> Opacity,
      ''rot_0'' \<mapsto> RotationW, ''rot_1'' \<mapsto> RotationX, ''rot_2'' \<mapsto> RotationY,
      ''rot_3'' \<mapsto> RotationZ,
      ''scale_0'' \<mapsto> ScaleX, ''scale_1'' \<mapsto> ScaleY, ''scale_2'' \<mapsto> ScaleZ]"

definition type_map :: "string \<rightharpoonup> PropertyFormat" where
  "type_map = [''float'' \<mapsto> F32, ''float32'' \<mapsto> F32]"

definition type_size_map :: "PropertyFormat \<rightharpoonup> size_t" where
  "type_size_map = [F32 \<mapsto> 4]"

definition whitespace_chars :: "char \<Rightarrow> bool" where
  "whitespace_chars c = (c = CHR '' '' \<or> c = CHR 0x09)"

text \<open>
  \<open>pop_line text\<close> is the returned line and the view \<open>text\<close> afterwards. Without a
  line feed the whole view is returned; moving from a \<^verbatim>\<open>string_view\<close> copies it, so
  \<open>text\<close> stays as it was. A line of whitespace only gives \<open>None\<close>, also without
  advancing \<open>text\<close>.
\<close>

definition pop_line :: "string \<Rightarrow> string option \<times> string" where
  "pop_line text =
     (if CHR 0x0A \<notin> set text then (Some text, text)
      else let eol_idx = length (takeWhile (\<lambda>c. c \<noteq> CHR 0x0A) text);
               line_out = take eol_idx text;
               line_out = dropWhile whitespace_chars line_out
           in if line_out = [] then (None, text)
              else (Some (rev (dropWhile whitespace_chars (rev line_out))),
                    drop (eol_idx + 1) text))"

text \<open>
  \<open>pop_token line\<close> is the returned token and the view \<open>line\<close> afterwards. The last
  token of a line is returned with \<open>line\<close> left as it was. When only whitespace
  follows the token, \<^verbatim>\<open>find_first_not_of\<close> returns \<^verbatim>\<open>npos\<close> and
  \<^verbatim>\<open>remove_prefix(npos)\<close> is undefined.
\<close>

definition pop_token :: "string \<Rightarrow> fault + string option \<times> string" where
  "pop_token line =
     (if line = [] \<or> whitespace_chars (hd line) then Inr (None, line)
      else if list_all (\<lambda>c. \<not> whitespace_chars c) line then Inr (Some line, line)
      else let whitespace_idx = length (takeWhile (\<lambda>c. \<not> whitespace_chars c) line);
               token = take whitespace_idx line;
               rest = dropWhile whitespace_chars (drop whitespace_idx line)
           in if rest = [] then Inl UndefinedBehaviour else Inr (Some token, rest))"

text \<open>
  \<^verbatim>\<open>std::from_chars\<close> into a \<^verbatim>\<open>size_t\<close>: the longest prefix of decimal digits;
  \<open>None\<close> when there is no digit or the number does not fit, and the variable is
  then left unchanged.
\<close>

definition is_digit :: "char \<Rightarrow> bool" where
  "is_digit c = (48 \<le> (of_char c :: nat) \<and> (of_char c :: nat) \<le> 57)"

definition from_chars :: "string \<Rightarrow> size_t option" where
  "from_chars token =
     (let digits = takeWhile is_digit token;
          n = foldl (\<lambda>a c. 10 * a + (of_char c - 48)) (0 :: nat) digits
      in if digits = [] \<or> 2 ^ 64 \<le> n then None else Some (word_of_nat n))"

definition add_property ::
  "SplatParserPly \<Rightarrow> Property \<Rightarrow> PropertyFormat \<Rightarrow> fault + bool \<times> SplatParserPly" where
  "add_property p property type =
     (if property \<noteq> Ignore \<and> layout p property \<noteq> None then Inr (False, p)
      else let p = (if property \<noteq> Ignore
                    then p\<lparr>layout := (layout p)(property \<mapsto>
                           \<lparr>desc_offset = splat_size p, desc_type = type\<rparr>)\<rparr>
                    else p)
           in case type_size_map type of
                None \<Rightarrow> Inl OutOfRange
              | Some sz \<Rightarrow> Inr (True, p\<lparr>splat_size := splat_size p + sz\<rparr>))"

text \<open>
  The three kinds of header line that do work, after their first token. The result
  \<open>Inr (True, p)\<close> continues the loop with the parser \<open>p\<close>; \<open>Inr (False, p)\<close> is
  \<^verbatim>\<open>return false\<close>, which each time follows a call of \<^verbatim>\<open>log_error\<close>.
\<close>

definition header_element ::
  "bool \<Rightarrow> SplatParserPly \<Rightarrow> string \<Rightarrow> fault + bool \<times> SplatParserPly" where
  "header_element send_log p line =
     (if parser_num_splats p \<noteq> 0 then log_error send_log (Inr (False, p))
      else case pop_token line of
        Inl f \<Rightarrow> Inl f
      | Inr (None, line) \<Rightarrow> log_error send_log (Inr (False, p))
      | Inr (Some token, line) \<Rightarrow>
          if token \<noteq> ''vertex'' then log_error send_log (Inr (False, p))
          else case pop_token line of
            Inl f \<Rightarrow> Inl f
          | Inr (None, line) \<Rightarrow> log_error send_log (Inr (False, p))
          | Inr (Some token, line) \<Rightarrow>
              (case from_chars token of
                 None \<Rightarrow> log_error send_log (Inr (False, p))
               | Some n \<Rightarrow>
                   if n = 0 then log_error send_log (Inr (False, p\<lparr>parser_num_splats := n\<rparr>))
                   else Inr (True, p\<lparr>parser_num_splats := n\<rparr>)))"

definition header_property ::
  "bool \<Rightarrow> SplatParserPly \<Rightarrow> string \<Rightarrow> fault + bool \<times> SplatParserPly" where
  "header_property send_log p line =
     (if parser_num_splats p = 0 then log_error send_log (Inr (False, p))
      else case pop_token line of
        Inl f \<Rightarrow> Inl f
      | Inr (None, line) \<Rightarrow> log_error send_log (Inr (False, p))
      | Inr (Some token, line) \<Rightarrow>
          (case type_map token of
             None \<Rightarrow> log_error send_log (Inr (False, p))
           | Some type \<Rightarrow>
               (case pop_token line of
                  Inl f \<Rightarrow> Inl f
                | Inr (None, line) \<Rightarrow> log_error send_log (Inr (False, p))
                | Inr (Some token, line) \<Rightarrow>
                    (case property_map token of
                       Some prop \<Rightarrow>
                         (case add_property p prop type of
                            Inl f \<Rightarrow> Inl f
                          | Inr (False, p) \<Rightarrow> log_error send_log (Inr (False, p))
                          | Inr (True, p) \<Rightarrow> Inr (True, p))
                     | None \<Rightarrow>
                         (case add_property p Ignore type of
                            Inl f \<Rightarrow> Inl f
                          | Inr (added, p) \<Rightarrow> Inr (True, p))))))"

text \<open>
  One turn of the loop \<^verbatim>\<open>while (true)\<close> of \<^verbatim>\<open>parse_header\<close> on the parser \<open>p\<close>
  and the view \<open>text\<close>: \<open>Inl r\<close> leaves the loop with the result \<open>r\<close>,
  \<open>Inr (p, text)\<close> goes round again.
\<close>

definition header_line ::
  "bool \<Rightarrow> SplatParserPly \<Rightarrow> string \<Rightarrow>
     (fault + bool \<times> SplatParserPly) + SplatParserPly \<times> string" where
  "header_line send_log p text =
     (case pop_line text of
        (None, text) \<Rightarrow> Inl (log_error send_log (Inr (False, p)))
      | (Some line, text) \<Rightarrow>
          (case pop_token line of
             Inl f \<Rightarrow> Inl (Inl f)
           | Inr (None, line) \<Rightarrow> Inl (log_error send_log (Inr (False, p)))
           | Inr (Some token, line) \<Rightarrow>
               if token = ''comment'' then Inr (p, text)
               else if token = ''element'' then
                 (case header_element send_log p line of
                    Inl f \<Rightarrow> Inl (Inl f)
                  | Inr (True, p) \<Rightarrow> Inr (p, text)
                  | Inr (False, p) \<Rightarrow> Inl (Inr (False, p)))
               else if token = ''property'' then
                 (case header_property send_log p line of
                    Inl f \<Rightarrow> Inl (Inl f)
                  | Inr (True, p) \<Rightarrow> Inr (p, text)
                  | Inr (False, p) \<Rightarrow> Inl (Inr (False, p)))
               else if token = ''end_header'' then Inl (Inr (True, p\<lparr>buffer := text\<rparr>))
               else Inl (log_error send_log (Inr (False, p)))))"

text \<open>The loop itself; \<open>None\<close> is a loop that never ends.\<close>

partial_function (option) header_loop ::
  "bool \<Rightarrow> SplatParserPly \<Rightarrow> string \<Rightarrow> (fault + bool \<times> SplatParserPly) option" where
  "header_loop send_log p text =
     (case header_line send_log p text of
        Inl r \<Rightarrow> Some r
      | Inr (p', text') \<Rightarrow> header_loop send_log p' text')"

text \<open>
  The lines before the loop. A version other than \<open>1.0\<close> is reported with
  \<^verbatim>\<open>log_warn\<close> and the parse goes on.
\<close>

definition parse_header ::
  "bool \<Rightarrow> SplatParserPly \<Rightarrow> (fault + bool \<times> SplatParserPly) option" where
  "parse_header send_log p =
     (case pop_line (buffer p) of
        (None, text) \<Rightarrow> Some (log_error send_log (Inr (False, p)))
      | (Some line, text) \<Rightarrow>
          if line \<noteq> ''ply'' then Some (log_error send_log (Inr (False, p)))
          else case pop_line text of
            (None, text) \<Rightarrow> Some (log_error send_log (Inr (False, p)))
          | (Some line, text) \<Rightarrow>
              (case pop_token line of
                 Inl f \<Rightarrow> Some (Inl f)
               | Inr (None, line) \<Rightarrow> Some (log_error send_log (Inr (False, p)))
               | Inr (Some token, line) \<Rightarrow>
                   if token \<noteq> ''format'' then Some (log_error send_log (Inr (False, p)))
                   else case pop_token line of
                     Inl f \<Rightarrow> Some (Inl f)
                   | Inr (None, line) \<Rightarrow> Some (log_error send_log (Inr (False, p)))
                   | Inr (Some format_token, line) \<Rightarrow>
                       (case format_map format_token of
                          None \<Rightarrow> Some (log_error send_log (Inr (False, p)))
                        | Some fmt \<Rightarrow>
                            (case pop_token line of
                               Inl f \<Rightarrow> Some (Inl f)
                             | Inr (None, line) \<Rightarrow>
                                 Some (log_error send_log (Inr (False, p\<lparr>format := fmt\<rparr>)))
                             | Inr (Some token, line) \<Rightarrow>
                                 (case (if token \<noteq> ''1.0'' then log_warn send_log (Inr ())
                                        else Inr ()) of
                                    Inl f \<Rightarrow> Some (Inl f)
                                  | Inr u \<Rightarrow> header_loop send_log (p\<lparr>format := fmt\<rparr>) text)))))"

text \<open>
  \<^verbatim>\<open>emplace\<close> keeps the entry of a key that is already in the map: the entries of
  \<open>layout\<close> are added to \<open>metadata.properties\<close> under the keys it does not have.
\<close>

definition parse_metadata ::
  "bool \<Rightarrow> SplatParserPly \<Rightarrow> string \<Rightarrow> Metadata \<Rightarrow>
     (fault + bool \<times> SplatParserPly \<times> Metadata) option" where
  "parse_metadata send_log p ply_buffer metadata =
     (case parse_header send_log (p\<lparr>buffer := ply_buffer\<rparr>) of
        None \<Rightarrow> None
      | Some (Inl f) \<Rightarrow> Some (Inl f)
      | Some (Inr (False, p)) \<Rightarrow> Some (log_error send_log (Inr (False, p, metadata)))
      | Some (Inr (True, p)) \<Rightarrow>
          (let sz_rem = length (buffer p);
               sz_exp = parser_num_splats p * splat_size p
           in if sz_rem \<noteq> unat sz_exp
              then Some (log_error send_log (Inr (False, p, metadata)))
              else Some (Inr (True, p,
                     metadata\<lparr>properties :=
                                 (map_option desc_type \<circ> layout p) ++ properties metadata,
                               metadata_num_splats := parser_num_splats p\<rparr>))))"

text \<open>
  The variant of the values a property can have; the PLY parser only makes
  \<^verbatim>\<open>float\<close> values, kept here as their 32-bit patterns.
\<close>

datatype PropertyType =
  PT_int8 "8 word" | PT_int16 "16 word" | PT_int32 "32 word"
  | PT_uint8 "8 word" | PT_uint16 "16 word" | PT_uint32 "32 word"
  | PT_float "32 word" | PT_double "64 word"

text \<open>
  \<^verbatim>\<open>convert<float, E>\<close>: the four bytes at \<open>data\<close> read in the byte order \<open>E\<close>
  (\<open>big\<close> for \<^verbatim>\<open>std::endian::big\<close>). Fewer than four bytes left is a read past the
  end of the buffer.
\<close>

definition convert_float :: "bool \<Rightarrow> string \<Rightarrow> fault + 32 word" where
  "convert_float big data =
     (if length data < 4 then Inl UndefinedBehaviour
      else let bytes = (if big then take 4 data else rev (take 4 data))
           in Inr (foldl (\<lambda>w c. push_bit 8 w + of_char c) 0 bytes))"

definition read_binary ::
  "bool \<Rightarrow> bool \<Rightarrow> string \<Rightarrow> PropertyFormat \<Rightarrow> fault + PropertyType" where
  "read_binary send_log big data type =
     (case type of
        F32 \<Rightarrow> (case convert_float big data of Inl f \<Rightarrow> Inl f | Inr w \<Rightarrow> Inr (PT_float w))
      | _ \<Rightarrow> log_warn send_log (Inr (PT_float 0)))"

definition get_property_binary ::
  "bool \<Rightarrow> bool \<Rightarrow> Property \<Rightarrow> (Property \<rightharpoonup> PropertyDesc) \<Rightarrow> string \<Rightarrow>
     fault + PropertyType" where
  "get_property_binary send_log big property lay data =
     (case lay property of
        None \<Rightarrow> Inl OutOfRange
      | Some desc \<Rightarrow>
          read_binary send_log big (drop (unat (desc_offset desc)) data) (desc_type desc))"

text \<open>
  The caller's \<^verbatim>\<open>parse_splat\<close> acts on a state of the caller's; \<open>parse_data\<close>
  returns its result and that state. The address \<^verbatim>\<open>&buffer[0]\<close> is only formed
  before the switch; the bytes are read in the loop. The loop calls \<open>parse_splat i get\<close> for each
  \<open>i\<close> below \<open>num_splats\<close>, with \<open>get\<close> reading the record at
  \<open>i * splat_size\<close>.
\<close>

definition parse_data_loop ::
  "bool \<Rightarrow> bool \<Rightarrow> SplatParserPly \<Rightarrow>
     (size_t \<Rightarrow> (Property \<Rightarrow> fault + PropertyType) \<Rightarrow> 'st \<Rightarrow> 'st) \<Rightarrow> 'st \<Rightarrow> 'st" where
  "parse_data_loop send_log big p parse_splat st =
     fold (\<lambda>i. parse_splat (word_of_nat i)
             (\<lambda>property. get_property_binary send_log big property (layout p)
                (drop (i * unat (splat_size p)) (buffer p))))
       [0 ..< unat (parser_num_splats p)] st"

definition parse_data ::
  "bool \<Rightarrow> SplatParserPly \<Rightarrow>
     (size_t \<Rightarrow> (Property \<Rightarrow> fault + PropertyType) \<Rightarrow> 'st \<Rightarrow> 'st) \<Rightarrow> 'st \<Rightarrow>
     fault + bool \<times> 'st" where
  "parse_data send_log p parse_splat st =
     (case format p of
        ASCII \<Rightarrow> log_error send_log (Inr (False, st))
      | BinaryBigEndian \<Rightarrow> Inr (True, parse_data_loop send_log True p parse_splat st)
      | BinaryLittleEndian \<Rightarrow> Inr (True, parse_data_loop send_log False p parse_splat st)
      | Invalid \<Rightarrow> log_error send_log (Inr (False, st)))"

section \<open>The importer: splat_ply_conversion.cpp\<close>

definition required_properties :: "Property list" where
  "required_properties =
     [X, Y, Z, RotationX, RotationY, RotationZ, RotationW,
      ScaleX, ScaleY, ScaleZ, DCRed, DCGreen, DCBlue, Opacity]"

fun validate_loop :: "bool \<Rightarrow> Property list \<Rightarrow> Metadata \<Rightarrow> fault + bool" where
  "validate_loop send_log [] metadata = Inr True"
| "validate_loop send_log (property # rest) metadata =
     (if properties metadata property = None then log_error send_log (Inr False)
      else validate_loop send_log rest metadata)"

definition validate_metadata :: "bool \<Rightarrow> Metadata \<Rightarrow> fault + bool" where
  "validate_metadata send_log metadata = validate_loop send_log required_properties metadata"

section \<open>Lines and tokens of a header\<close>

text \<open>
  The first and the second word of a line, for stating what a header holds: a word is a
  longest run of characters other than space and tab.
\<close>

definition first_token :: "string \<Rightarrow> string" where
  "first_token l = takeWhile (\<lambda>c. \<not> whitespace_chars c) (dropWhile whitespace_chars l)"

definition second_token :: "string \<Rightarrow> string" where
  "second_token l =
     first_token (dropWhile (\<lambda>c. \<not> whitespace_chars c) (dropWhile whitespace_chars l))"

text \<open>The text of the lines \<open>ls\<close>, each ended by a line feed.\<close>

definition terminated :: "string list \<Rightarrow> string" where
  "terminated ls = concat (map (\<lambda>l. l @ [CHR 0x0A]) ls)"

text \<open>
  A line as \<open>pop_line\<close> returns it, without the whitespace at its ends, and the lines
  that have none there.
\<close>

definition trim :: "string \<Rightarrow> string" where
  "trim a = rev (dropWhile whitespace_chars (rev (dropWhile whitespace_chars a)))"

definition trimmed :: "string \<Rightarrow> bool" where
  "trimmed L = (L \<noteq> [] \<and> \<not> whitespace_chars (hd L) \<and> \<not> whitespace_chars (last L))"

abbreviation (input) ws :: "char \<Rightarrow> bool" where
  "ws \<equiv> whitespace_chars"

abbreviation (input) nws :: "char \<Rightarrow> bool" where
  "nws \<equiv> (\<lambda>c. \<not> whitespace_chars c)"

abbreviation (input) LF :: char where
  "LF \<equiv> CHR 0x0A"

section \<open>Properties of the shaders\<close>

subsection \<open>Helper facts\<close>

lemma cutoff_4: "CUTOFF_RADIUS_SIGMA_SQUARED_OVER_2 = 4"
  unfolding CUTOFF_RADIUS_SIGMA_SQUARED_OVER_2_def RADIUS_SIGMA_OVER_SQRT_2_def RADIUS_SIGMA_def
  by (simp add: real_sqrt_divide[symmetric] flip: real_sqrt_mult)

lemma sentinel_val: "DISTANCE_NOT_VISIBLE = 65535"
  by (simp add: DISTANCE_NOT_VISIBLE_def DISTANCE_PRECISION_def)

lemma outside_frustum_abs:
  "\<bar>x\<bar> > \<bar>w\<bar> \<or> \<bar>y\<bar> > \<bar>w\<bar> \<or> z > w \<Longrightarrow> outside_frustum (x, y, z, w)"
  by auto

lemma splat_distance_outside: "outside_frustum p \<Longrightarrow> splat_distance p = DISTANCE_NOT_VISIBLE"
  by (cases p) simp

lemma uint_of_float_le:
  assumes "0 \<le> x" "x \<le> 65534"
  shows "unat (uint_of_float x) \<le> 65534"
proof -
  have "nat \<lfloor>x\<rfloor> \<le> 65534" using assms by linarith
  moreover have "unat (word_of_nat (nat \<lfloor>x\<rfloor>) :: uint) \<le> nat \<lfloor>x\<rfloor>"
    by (simp add: unat_of_nat)
  ultimately show ?thesis using assms by (auto simp: uint_of_float_def)
qed

lemma splat_distance_inside: "\<not> outside_frustum p \<Longrightarrow> unat (splat_distance p) \<le> 2 ^ 16 - 2"
proof (cases p)
  case (fields x y z w)
  assume "\<not> outside_frustum p"
  have "0 \<le> saturate (z / w) * DISTANCE_SCALE" "saturate (z / w) * DISTANCE_SCALE \<le> 65534"
    by (auto simp: saturate_def DISTANCE_SCALE_def DISTANCE_PRECISION_def min_def max_def)
  from uint_of_float_le[OF this] \<open>\<not> outside_frustum p\<close> fields show ?thesis by simp
qed

lemma splat_distance_far: "splat_distance (0, 0, 1, 1) = 2 ^ 16 - 2"
proof -
  have "\<lfloor>65534 :: real\<rfloor> = 65534" by simp
  then show ?thesis
    by (simp add: saturate_def DISTANCE_SCALE_def DISTANCE_PRECISION_def uint_of_float_def)
qed

lemma distances_main_distance:
  "tid < num_splats c \<Longrightarrow>
   distances (main_distance c b tid) =
     (distances b)[unat tid := splat_distance (distance_pos_clip c b tid)]"
  by (auto simp: main_distance_def buf_write_def Let_def dest: leD)

lemma vs_pos_clip_div6: "k div 6 = in_id div 6 \<Longrightarrow> vs_pos_clip c b k = vs_pos_clip c b in_id"
  by (simp add: vs_pos_clip_def vs_splat_id_def)

lemma unpack_unorm_0: "unpack_unorm bits 0 offset = 0"
  by (simp add: unpack_unorm_def hlsl_shr_def Let_def)

text \<open>
  An example scene of one splat at the origin of its bounding box, with identity
  matrices but for the last row \<open>row\<close> of \<open>local_to_clip\<close>, which the splat's
  clip-space position then equals.
\<close>

lemma example_distance_pos_clip:
  "distance_pos_clip
      \<lparr>local_to_view = lv, local_to_clip = ((1, 0, 0, 0), (0, 1, 0, 0), (0, 0, 1, 0), row),
       local_to_world = lw, two_focal_length = tf, num_splats = n, pos_scale_cm = (1, 1, 1),
       pos_min_cm = (0, 0, 0), world_to_clip = wc, get_render_resolution = rr\<rparr>
      \<lparr>positions = [0], covariances = cv, transforms = tr,
       indices = ix, distances = ds, colors = cs\<rparr> 0 = row"
  by (cases row) (simp add: distance_pos_clip_def buf_read_def unpack_unorm_0)

lemma example_vs_pos_clip:
  "vs_pos_clip
      \<lparr>local_to_view = lv, local_to_clip = lc,
       local_to_world = lw, two_focal_length = tf, num_splats = n, pos_scale_cm = ps,
       pos_min_cm = pm, world_to_clip = (\<lambda>p. row), get_render_resolution = rr\<rparr> b k = row"
  by (simp add: vs_pos_clip_def)

subsection \<open>Rounding\<close>

text \<open>
  Rounding to \<open>p\<close> bits changes a number by at most the fraction \<open>2\<^sup>-\<^sup>p\<close> of it and
  keeps the order of the numbers that are not negative.
\<close>

lemma pow2_powr: "pow2 k = 2 powr real_of_int k"
  by (simp add: pow2_def powr_real_of_int field_simps)

lemma pow2_pos: "0 < pow2 k"
  by (simp add: pow2_powr)

lemma pow2_add: "pow2 (j + k) = pow2 j * pow2 k"
  by (simp add: pow2_powr powr_add)

lemma pow2_mono: "j \<le> k \<Longrightarrow> pow2 j \<le> pow2 k"
  by (simp add: pow2_powr)

lemma pow2_nat: "pow2 (int n) = 2 ^ n"
  by (simp add: pow2_def)

lemma round_to_even_error: "\<bar>real_of_int (round_to_even q) - q\<bar> \<le> 1 / 2"
  unfolding round_to_even_def Let_def by (auto simp: abs_le_iff)

lemma round_to_even_floor: "\<lfloor>q\<rfloor> \<le> round_to_even q"
  unfolding round_to_even_def Let_def by auto

lemma round_to_even_le: "q \<le> real_of_int n \<Longrightarrow> round_to_even q \<le> n"
  unfolding round_to_even_def Let_def
  by (auto simp: floor_le_iff)

lemma round_to_even_mono: "q \<le> r \<Longrightarrow> round_to_even q \<le> round_to_even r"
proof -
  assume qr: "q \<le> r"
  then have fl: "\<lfloor>q\<rfloor> \<le> \<lfloor>r\<rfloor>" by (rule floor_mono)
  show ?thesis
  proof (cases "\<lfloor>q\<rfloor> = \<lfloor>r\<rfloor>")
    case True
    with qr show ?thesis unfolding round_to_even_def Let_def by auto
  next
    case False
    with fl have "\<lfloor>q\<rfloor> + 1 \<le> \<lfloor>r\<rfloor>" by simp
    moreover have "round_to_even q \<le> \<lfloor>q\<rfloor> + 1" unfolding round_to_even_def Let_def by auto
    ultimately show ?thesis using round_to_even_floor[of r] by linarith
  qed
qed

lemma pow2_floor_log: assumes "x \<noteq> 0" shows "pow2 \<lfloor>log 2 \<bar>x\<bar>\<rfloor> \<le> \<bar>x\<bar>"
proof -
  have "real_of_int \<lfloor>log 2 \<bar>x\<bar>\<rfloor> \<le> log 2 \<bar>x\<bar>" by simp
  then have "2 powr real_of_int \<lfloor>log 2 \<bar>x\<bar>\<rfloor> \<le> 2 powr log 2 \<bar>x\<bar>"
    by (simp only: powr_le_cancel_iff) 
  also have "\<dots> = \<bar>x\<bar>" using assms by simp
  finally show ?thesis by (simp add: pow2_powr)
qed

lemma pow2_floor_log_upper: assumes "x \<noteq> 0" shows "\<bar>x\<bar> < pow2 (\<lfloor>log 2 \<bar>x\<bar>\<rfloor> + 1)"
proof -
  have "log 2 \<bar>x\<bar> < real_of_int (\<lfloor>log 2 \<bar>x\<bar>\<rfloor> + 1)" by linarith
  then have "2 powr log 2 \<bar>x\<bar> < 2 powr real_of_int (\<lfloor>log 2 \<bar>x\<bar>\<rfloor> + 1)"
    by (simp only: powr_less_cancel_iff) 
  moreover have "2 powr log 2 \<bar>x\<bar> = \<bar>x\<bar>" using assms by simp
  ultimately show ?thesis by (simp add: pow2_powr)
qed

lemma round_float_accurate: "\<bar>round_float p x - x\<bar> \<le> \<bar>x\<bar> / 2 ^ p"
proof (cases "x = 0")
  case True
  then show ?thesis by (simp add: round_float_def)
next
  case False
  define e where "e = \<lfloor>log 2 \<bar>x\<bar>\<rfloor>"
  define ulp where "ulp = pow2 (e - (int p - 1))"
  have ulp_pos: "0 < ulp" by (simp add: ulp_def pow2_pos)
  have f: "round_float p x = real_of_int (round_to_even (x / ulp)) * ulp"
    using False by (simp add: round_float_def Let_def e_def ulp_def)
  have "round_float p x - x = (real_of_int (round_to_even (x / ulp)) - x / ulp) * ulp"
    using ulp_pos by (simp add: f field_simps)
  then have "\<bar>round_float p x - x\<bar> = \<bar>real_of_int (round_to_even (x / ulp)) - x / ulp\<bar> * ulp"
    using ulp_pos by (simp add: abs_mult)
  also have "\<dots> \<le> 1 / 2 * ulp"
    using round_to_even_error[of "x / ulp"] ulp_pos by (intro mult_right_mono) simp_all
  also have "pow2 e = ulp * pow2 (int p - 1)"
    unfolding ulp_def pow2_add[symmetric] by simp
  then have "ulp = pow2 e / pow2 (int p - 1)" using pow2_pos[of "int p - 1"] by (simp add: field_simps)
  also have "2 * pow2 (int p - 1) = 2 ^ p"
    using pow2_add[of 1 "int p - 1"] by (simp add: pow2_nat) (simp add: pow2_def)
  then have "pow2 (int p - 1) = 2 ^ p / 2" by simp
  also have "1 / 2 * (pow2 e / (2 ^ p / 2)) \<le> 1 / 2 * (\<bar>x\<bar> / (2 ^ p / 2))"
    using pow2_floor_log[OF False] by (simp add: e_def divide_right_mono)
  finally show ?thesis by simp
qed

lemma round_float_eval:
  assumes "x \<noteq> 0" and "pow2 e \<le> \<bar>x\<bar>" and "\<bar>x\<bar> < pow2 (e + 1)"
  shows "round_float p x =
    real_of_int (round_to_even (x / pow2 (e - (int p - 1)))) * pow2 (e - (int p - 1))"
proof -
  have "\<lfloor>log 2 \<bar>x\<bar>\<rfloor> = e"
    using assms by (intro floor_unique) (simp_all add: le_log_iff log_less_iff pow2_powr)
  then show ?thesis using assms(1) by (simp add: round_float_def Let_def)
qed

lemma round_float_pos_bounds:
  assumes "0 < x" and "0 < p"
  shows "pow2 \<lfloor>log 2 x\<rfloor> \<le> round_float p x" and "round_float p x \<le> pow2 (\<lfloor>log 2 x\<rfloor> + 1)"
proof -
  define e where "e = \<lfloor>log 2 x\<rfloor>"
  define ulp where "ulp = pow2 (e - (int p - 1))"
  have ulp_pos: "0 < ulp" by (simp add: ulp_def pow2_pos)
  have f: "round_float p x = real_of_int (round_to_even (x / ulp)) * ulp"
    using assms by (simp add: round_float_def Let_def e_def ulp_def)
  have lo: "pow2 e \<le> x" using pow2_floor_log[of x] assms by (simp add: e_def)
  have hi: "x < pow2 (e + 1)" using pow2_floor_log_upper[of x] assms by (simp add: e_def)
  have pe: "pow2 e = pow2 (int p - 1) * ulp"
    unfolding ulp_def pow2_add[symmetric] by simp
  have pe1: "pow2 (e + 1) = pow2 (int p) * ulp"
    unfolding ulp_def pow2_add[symmetric] by simp
  have np: "pow2 (int p - 1) = real_of_int (2 ^ (p - 1))"
    using assms(2) by (simp add: pow2_def nat_diff_distrib)
  have np1: "pow2 (int p) = real_of_int (2 ^ p)"
    by (simp add: pow2_def)
  have "real_of_int (2 ^ (p - 1)) * ulp \<le> x" using lo unfolding pe np .
  then have "real_of_int (2 ^ (p - 1)) \<le> x / ulp"
    using ulp_pos by (simp add: field_simps)
  then have "2 ^ (p - 1) \<le> \<lfloor>x / ulp\<rfloor>" by (simp add: le_floor_iff)
  then have "2 ^ (p - 1) \<le> round_to_even (x / ulp)"
    using round_to_even_floor[of "x / ulp"] by linarith
  then have "real_of_int (2 ^ (p - 1)) \<le> real_of_int (round_to_even (x / ulp))"
    by (simp only: of_int_le_iff)
  then have "real_of_int (2 ^ (p - 1)) * ulp \<le> real_of_int (round_to_even (x / ulp)) * ulp"
    using ulp_pos by (simp only: mult_le_cancel_right_pos)
  then show "pow2 \<lfloor>log 2 x\<rfloor> \<le> round_float p x"
    by (simp add: f pe np e_def[symmetric])
  have "x < real_of_int (2 ^ p) * ulp" using hi unfolding pe1 np1 .
  then have "x / ulp \<le> real_of_int (2 ^ p)"
    using ulp_pos by (simp add: field_simps)
  then have "round_to_even (x / ulp) \<le> 2 ^ p" by (rule round_to_even_le)
  then have "real_of_int (round_to_even (x / ulp)) \<le> real_of_int (2 ^ p)"
    by (simp only: of_int_le_iff)
  then have "real_of_int (round_to_even (x / ulp)) * ulp \<le> real_of_int (2 ^ p) * ulp"
    using ulp_pos by (simp only: mult_le_cancel_right_pos)
  then show "round_float p x \<le> pow2 (\<lfloor>log 2 x\<rfloor> + 1)"
    by (simp add: f pe1 np1 e_def[symmetric])
qed

lemma round_float_mono_pos:
  assumes "0 < x" and "x \<le> y" and "0 < p"
  shows "round_float p x \<le> round_float p y"
proof -
  have y: "0 < y" using assms by simp
  have le: "\<lfloor>log 2 x\<rfloor> \<le> \<lfloor>log 2 y\<rfloor>"
    using assms by (intro floor_mono) simp
  show ?thesis
  proof (cases "\<lfloor>log 2 x\<rfloor> = \<lfloor>log 2 y\<rfloor>")
    case True
    define ulp where "ulp = pow2 (\<lfloor>log 2 y\<rfloor> - (int p - 1))"
    have ulp_pos: "0 < ulp" by (simp add: ulp_def pow2_pos)
    have "x / ulp \<le> y / ulp" using assms ulp_pos by (simp add: divide_right_mono)
    then have "round_to_even (x / ulp) \<le> round_to_even (y / ulp)" by (rule round_to_even_mono)
    then have "real_of_int (round_to_even (x / ulp)) * ulp \<le> real_of_int (round_to_even (y / ulp)) * ulp"
      using ulp_pos by simp
    then show ?thesis using assms y True by (simp add: round_float_def Let_def ulp_def)
  next
    case False
    with le have "\<lfloor>log 2 x\<rfloor> + 1 \<le> \<lfloor>log 2 y\<rfloor>" by simp
    then have "pow2 (\<lfloor>log 2 x\<rfloor> + 1) \<le> pow2 \<lfloor>log 2 y\<rfloor>" by (rule pow2_mono)
    with round_float_pos_bounds(2)[OF assms(1,3)] round_float_pos_bounds(1)[OF y assms(3)]
    show ?thesis by linarith
  qed
qed

lemma round_float_pos: "0 < x \<Longrightarrow> 0 < p \<Longrightarrow> 0 < round_float p x"
  using round_float_pos_bounds(1)[of x p] pow2_pos[of "\<lfloor>log 2 x\<rfloor>"] by linarith

lemma round_float_mono_nonneg:
  assumes "0 \<le> x" and "x \<le> y" and "0 < p"
  shows "round_float p x \<le> round_float p y"
proof (cases "x = 0")
  case True
  show ?thesis
  proof (cases "y = 0")
    case True
    with \<open>x = 0\<close> show ?thesis by simp
  next
    case False
    with assms True have "0 < y" by simp
    from round_float_pos[OF this assms(3)] True show ?thesis by (simp add: round_float_def)
  qed
next
  case False
  with assms have "0 < x" by simp
  then show ?thesis using assms by (intro round_float_mono_pos)
qed

text \<open>
  \<open>round_float_eval\<close> evaluates the rounding of a number whose binade is known. In
  the arithmetic \<open>ieee p\<close> every operation of the eigenvalue step is accurate to
  \<open>2\<^sup>-\<^sup>p\<close> and, once 1 is a value of the format, the order is kept as the Gaussian
  needs it.
\<close>

lemma ieee_eigen_ops_accurate:
  assumes "0 \<le> sig_p_disc (ieee p) sig_p"
  shows "eigen_ops_accurate (1 / 2 ^ p) (ieee p) sig_p"
proof -
  obtain sig_p_00 sig_p_01_10 sig_p_11 where sp: "sig_p = (sig_p_00, sig_p_01_10, sig_p_11)"
    by (cases sig_p)
  have r: "\<bar>round_float p z - z\<bar> \<le> 1 / 2 ^ p * \<bar>z\<bar>" for z
    using round_float_accurate[of p z] by simp
  have q: "\<bar>round_float p (sqrt x) - sqrt x\<bar> \<le> 1 / 2 ^ p * sqrt x" if "0 \<le> x" for x
    using r[of "sqrt x"] that by simp
  from assms have "0 \<le> round_float p
      (round_float p (round_float p (sig_p_00 + sig_p_11) * round_float p (sig_p_00 + sig_p_11)) -
       round_float p (4 * round_float p (round_float p (sig_p_00 * sig_p_11) -
                                          round_float p (sig_p_01_10 * sig_p_01_10))))"
    by (simp add: sp sig_p_disc_def ieee_def Let_def)
  from q[OF this] show ?thesis
    unfolding sp eigen_ops_accurate.simps Let_def ieee_def arith.simps
    by (intro conjI r)
qed

lemma ieee_order_preserving:
  assumes "0 < p" and "round_float p 1 = 1"
  shows "order_preserving (ieee p)"
proof -
  have z: "round_float p 0 = 0" by (simp add: round_float_def)
  have nn: "0 \<le> round_float p x" if "0 \<le> x" for x
    using round_float_mono_nonneg[of 0 x p] that assms(1) by (simp add: z)
  have "0 \<le> f_dot2 (ieee p) v v" for v
    by (cases v) (simp add: ieee_def nn)
  moreover have "0 \<le> round_float p (a / x)" if "0 \<le> a" "1 \<le> x" for a x
    using that by (intro nn) simp
  moreover have "round_float p (a / y) \<le> round_float p (a / x)"
    if "0 \<le> a" "1 \<le> x" "x \<le> y" for a x y
    using that assms(1) by (intro round_float_mono_nonneg) (simp_all add: frac_le)
  moreover have "round_float p (exp x) \<le> round_float p (exp y)" if "x \<le> y" for x y
    using that assms(1) by (intro round_float_mono_pos) simp_all
  ultimately show ?thesis
    unfolding order_preserving_def using assms(2) by (simp add: ieee_def z)
qed

text \<open>Some values of \<^verbatim>\<open>float\<close> and of a 16-bit \<^verbatim>\<open>half\<close>.\<close>

lemma float32_0: "round_float 24 0 = 0"
  by (simp add: round_float_def)

lemma float32_1: "round_float 24 1 = 1"
  using round_float_eval[of 1 0 24] by (simp add: round_to_even_def pow2_def)

lemma float32_2: "round_float 24 2 = 2"
  using round_float_eval[of 2 1 24] by (simp add: round_to_even_def pow2_def)

lemma float32_3: "round_float 24 3 = 3"
  using round_float_eval[of 3 1 24] by (simp add: round_to_even_def pow2_def)

lemma float32_4: "round_float 24 4 = 4"
  using round_float_eval[of 4 2 24] by (simp add: round_to_even_def pow2_def)

lemma float32_8: "round_float 24 8 = 8"
  using round_float_eval[of 8 3 24] by (simp add: round_to_even_def pow2_def)

lemma float32_9: "round_float 24 9 = 9"
  using round_float_eval[of 9 3 24] by (simp add: round_to_even_def pow2_def)

text \<open>
  Around 1 and 2: \<open>2\<^sup>-\<^sup>3\<^sup>0\<close> and \<open>2\<^sup>-\<^sup>2\<^sup>8\<close> are \<^verbatim>\<open>float\<close> values, \<open>1 + 2\<^sup>-\<^sup>3\<^sup>0\<close> and
  \<open>1 - 2\<^sup>-\<^sup>2\<^sup>8\<close> round to 1, \<open>1 + 2\<^sup>-\<^sup>2\<^sup>3\<close> is the \<^verbatim>\<open>float\<close> after 1, and
  \<open>2 + 2\<^sup>-\<^sup>2\<^sup>3\<close> lies halfway between 2 and the \<^verbatim>\<open>float\<close> after it.
\<close>

lemma float32_2_30: "round_float 24 (1 / 1073741824) = 1 / 1073741824"
  using round_float_eval[of "1 / 1073741824" "- 30" 24] by (simp add: round_to_even_def pow2_def)

lemma float32_2_28: "round_float 24 (1 / 268435456) = 1 / 268435456"
  using round_float_eval[of "1 / 268435456" "- 28" 24] by (simp add: round_to_even_def pow2_def)

lemma float32_1_plus: "round_float 24 (1073741825 / 1073741824) = 1"
  using round_float_eval[of "1073741825 / 1073741824" 0 24]
  by (simp add: round_to_even_def pow2_def)

lemma float32_1_minus: "round_float 24 (268435455 / 268435456) = 1"
  using round_float_eval[of "268435455 / 268435456" "- 1" 24]
  by (simp add: round_to_even_def pow2_def)

lemma float32_next_1: "round_float 24 (8388609 / 8388608) = 8388609 / 8388608"
  using round_float_eval[of "8388609 / 8388608" 0 24] by (simp add: round_to_even_def pow2_def)

lemma float32_tie_2: "round_float 24 (16777217 / 8388608) = 2"
  using round_float_eval[of "16777217 / 8388608" 1 24] by (simp add: round_to_even_def pow2_def)

lemma float32_4_plus: "round_float 24 (8388609 / 2097152) = 8388609 / 2097152"
  using round_float_eval[of "8388609 / 2097152" 2 24] by (simp add: round_to_even_def pow2_def)

lemma float32_neg_2_21: "round_float 24 (- (1 / 2097152)) = - (1 / 2097152)"
  using round_float_eval[of "- (1 / 2097152)" "- 21" 24] by (simp add: round_to_even_def pow2_def)

lemma float16_0: "round_float 11 0 = 0"
  by (simp add: round_float_def)

lemma float16_1: "round_float 11 1 = 1"
  using round_float_eval[of 1 0 11] by (simp add: round_to_even_def pow2_def)

lemma float16_half: "round_float 11 (1 / 2) = 1 / 2"
  using round_float_eval[of "1 / 2" "- 1" 11] by (simp add: round_to_even_def pow2_def)

lemma float16_4: "round_float 11 4 = 4"
  using round_float_eval[of 4 2 11] by (simp add: round_to_even_def pow2_def)

lemma float16_5: "round_float 11 5 = 5"
  using round_float_eval[of 5 2 11] by (simp add: round_to_even_def pow2_def)

lemma float16_8: "round_float 11 8 = 8"
  using round_float_eval[of 8 3 11] by (simp add: round_to_even_def pow2_def)

lemma float16_2_12: "round_float 11 (1 / 4096) = 1 / 4096"
  using round_float_eval[of "1 / 4096" "- 12" 11] by (simp add: round_to_even_def pow2_def)

lemma binary16_order_preserving: "order_preserving binary16"
  unfolding binary16_def by (rule ieee_order_preserving) (simp_all add: float16_1)

lemma binary32_order_preserving: "order_preserving binary32"
  unfolding binary32_def by (rule ieee_order_preserving) (simp_all add: float32_1)

text \<open>\<open>exp 2\<^sup>-\<^sup>1\<^sup>2\<close> is nearer to 1 than to the \<^verbatim>\<open>half\<close> after it, \<open>1 + 2\<^sup>-\<^sup>1\<^sup>0\<close>.\<close>

lemma float16_exp_small: "round_float 11 (exp (1 / 4096)) = 1"
proof -
  define x :: real where "x = exp (1 / 4096)"
  have lo: "1 < x" unfolding x_def by simp
  have "x \<le> 1 + 1 / 4096 + (1 / 4096)\<^sup>2"
    unfolding x_def by (rule exp_bound) simp_all
  then have hi: "x < 1 + 1 / 2048" by (simp add: power2_eq_square)
  have fl: "\<lfloor>x * 1024\<rfloor> = 1024" using lo hi by (intro floor_unique) simp_all
  have "round_to_even (x * 1024) = 1024"
    using lo hi by (simp add: round_to_even_def fl)
  moreover have "round_float 11 x = real_of_int (round_to_even (x / pow2 (0 - (int 11 - 1)))) *
      pow2 (0 - (int 11 - 1))"
    using lo hi by (intro round_float_eval) (simp_all add: pow2_def)
  ultimately show ?thesis unfolding x_def[symmetric] by (simp add: pow2_def)
qed

subsection \<open>Out-of-range invocations\<close>

text \<open>
  C7. An invocation whose splat index is not below \<open>num_splats\<close> leaves every
  buffer as it was, in the covariance-projection kernel and in the visibility and
  sort-key kernel: \<open>transforms\<close>, \<open>indices\<close> and \<open>distances\<close> are unchanged.
\<close>

theorem out_of_range_invocation_noop:
  "num_splats c \<le> tid \<Longrightarrow> main_transform c b tid = Some b \<and> main_distance c b tid = b"
  by (simp add: main_transform_def main_distance_def)

theorem out_of_range_invocation_noop_witness:
  "num_splats \<lparr>local_to_view = ((1, 0, 0, 0), (0, 1, 0, 0), (0, 0, 1, 0), (0, 0, 0, 1)),
       local_to_clip = ((1, 0, 0, 0), (0, 1, 0, 0), (0, 0, 1, 0), (0, 0, 0, 1)),
       local_to_world = ((1, 0, 0, 0), (0, 1, 0, 0), (0, 0, 1, 0), (0, 0, 0, 1)),
       two_focal_length = (1, 1), num_splats = 1, pos_scale_cm = (1, 1, 1),
       pos_min_cm = (0, 0, 0), world_to_clip = (\<lambda>p. (0, 0, 0, 1)),
       get_render_resolution = (1, 1)\<rparr> \<le> 5 \<and>
   main_transform \<lparr>local_to_view = ((1, 0, 0, 0), (0, 1, 0, 0), (0, 0, 1, 0), (0, 0, 0, 1)),
       local_to_clip = ((1, 0, 0, 0), (0, 1, 0, 0), (0, 0, 1, 0), (0, 0, 0, 1)),
       local_to_world = ((1, 0, 0, 0), (0, 1, 0, 0), (0, 0, 1, 0), (0, 0, 0, 1)),
       two_focal_length = (1, 1), num_splats = 1, pos_scale_cm = (1, 1, 1),
       pos_min_cm = (0, 0, 0), world_to_clip = (\<lambda>p. (0, 0, 0, 1)),
       get_render_resolution = (1, 1)\<rparr> \<lparr>positions = [0], covariances = [(0, 0)], transforms = [(0, 0, 0, 0)],
       indices = [0], distances = [0], colors = [(0, 0, 0, 0)]\<rparr> 5 = Some \<lparr>positions = [0], covariances = [(0, 0)], transforms = [(0, 0, 0, 0)],
       indices = [0], distances = [0], colors = [(0, 0, 0, 0)]\<rparr> \<and>
   main_distance \<lparr>local_to_view = ((1, 0, 0, 0), (0, 1, 0, 0), (0, 0, 1, 0), (0, 0, 0, 1)),
       local_to_clip = ((1, 0, 0, 0), (0, 1, 0, 0), (0, 0, 1, 0), (0, 0, 0, 1)),
       local_to_world = ((1, 0, 0, 0), (0, 1, 0, 0), (0, 0, 1, 0), (0, 0, 0, 1)),
       two_focal_length = (1, 1), num_splats = 1, pos_scale_cm = (1, 1, 1),
       pos_min_cm = (0, 0, 0), world_to_clip = (\<lambda>p. (0, 0, 0, 1)),
       get_render_resolution = (1, 1)\<rparr> \<lparr>positions = [0], covariances = [(0, 0)], transforms = [(0, 0, 0, 0)],
       indices = [0], distances = [0], colors = [(0, 0, 0, 0)]\<rparr> 5 = \<lparr>positions = [0], covariances = [(0, 0)], transforms = [(0, 0, 0, 0)],
       indices = [0], distances = [0], colors = [(0, 0, 0, 0)]\<rparr>"
  using out_of_range_invocation_noop
    [of "\<lparr>local_to_view = ((1, 0, 0, 0), (0, 1, 0, 0), (0, 0, 1, 0), (0, 0, 0, 1)),
       local_to_clip = ((1, 0, 0, 0), (0, 1, 0, 0), (0, 0, 1, 0), (0, 0, 0, 1)),
       local_to_world = ((1, 0, 0, 0), (0, 1, 0, 0), (0, 0, 1, 0), (0, 0, 0, 1)),
       two_focal_length = (1, 1), num_splats = 1, pos_scale_cm = (1, 1, 1),
       pos_min_cm = (0, 0, 0), world_to_clip = (\<lambda>p. (0, 0, 0, 1)),
       get_render_resolution = (1, 1)\<rparr>" 5 "\<lparr>positions = [0], covariances = [(0, 0)], transforms = [(0, 0, 0, 0)],
       indices = [0], distances = [0], colors = [(0, 0, 0, 0)]\<rparr>"]
  by simp

subsection \<open>Splats outside the frustum\<close>

text \<open>
  C1, as the code has it. Each stage computes a clip-space position of its own for a
  splat: the visibility kernel \<open>distance_pos_clip\<close>, the vertex shader
  \<open>vs_pos_clip\<close>. When the kernel's position \<open>(x, y, z, w)\<close> satisfies
  \<open>\<bar>x\<bar> > \<bar>w\<bar> \<or> \<bar>y\<bar> > \<bar>w\<bar> \<or> z > w\<close>, the kernel writes exactly
  \<open>DISTANCE_NOT_VISIBLE\<close> to the splat's slot of \<open>distances\<close>. When the vertex
  shader's position satisfies it, the vertex shader outputs the position
  \<open>(0, 0, 0, 0)\<close> in every invocation \<open>k\<close> of the splat's quad (the six vertex
  indices with the same \<open>k div 6\<close>).
\<close>

theorem culled_splat_sentinel_and_zero_position:
  assumes "\<bar>x\<bar> > \<bar>w\<bar> \<or> \<bar>y\<bar> > \<bar>w\<bar> \<or> z > w"
  shows "(tid < num_splats c \<and> distance_pos_clip c b tid = (x, y, z, w) \<longrightarrow>
            distances (main_distance c b tid) = (distances b)[unat tid := DISTANCE_NOT_VISIBLE]) \<and>
         (vs_pos_clip c b in_id = (x, y, z, w) \<longrightarrow>
            (\<forall>k. k div 6 = in_id div 6 \<longrightarrow> out_position (main_vs c b k) = (0, 0, 0, 0)))"
proof -
  from assms have out: "outside_frustum (x, y, z, w)" by (rule outside_frustum_abs)
  show ?thesis
  proof (intro conjI impI allI)
    assume "tid < num_splats c \<and> distance_pos_clip c b tid = (x, y, z, w)"
    with out show "distances (main_distance c b tid) = (distances b)[unat tid := DISTANCE_NOT_VISIBLE]"
      by (simp add: distances_main_distance splat_distance_outside del: outside_frustum.simps)
  next
    fix k
    assume pc: "vs_pos_clip c b in_id = (x, y, z, w)" and "k div 6 = in_id div 6"
    then have "vs_pos_clip c b k = (x, y, z, w)"
      using vs_pos_clip_div6 [of k in_id c b] by simp
    with out have "outside_frustum (vs_pos_clip c b k)"
      by (simp del: outside_frustum.simps)
    then show "out_position (main_vs c b k) = (0, 0, 0, 0)"
      by (simp add: main_vs_def Let_def)
  qed
qed

theorem culled_splat_sentinel_and_zero_position_witness:
  "\<bar>2 :: real\<bar> > \<bar>1\<bar> \<and>
   distances (main_distance \<lparr>local_to_view = ((1, 0, 0, 0), (0, 1, 0, 0), (0, 0, 1, 0), (0, 0, 0, 1)),
       local_to_clip = ((1, 0, 0, 0), (0, 1, 0, 0), (0, 0, 1, 0), (2, 0, 0, 1)),
       local_to_world = ((1, 0, 0, 0), (0, 1, 0, 0), (0, 0, 1, 0), (0, 0, 0, 1)),
       two_focal_length = (1, 1), num_splats = 1, pos_scale_cm = (1, 1, 1),
       pos_min_cm = (0, 0, 0), world_to_clip = (\<lambda>p. (2, 0, 0, 1)),
       get_render_resolution = (1, 1)\<rparr> \<lparr>positions = [0], covariances = [(0, 0)], transforms = [(0, 0, 0, 0)],
       indices = [0], distances = [0], colors = [(0, 0, 0, 0)]\<rparr> 0) = [DISTANCE_NOT_VISIBLE] \<and>
   out_position (main_vs \<lparr>local_to_view = ((1, 0, 0, 0), (0, 1, 0, 0), (0, 0, 1, 0), (0, 0, 0, 1)),
       local_to_clip = ((1, 0, 0, 0), (0, 1, 0, 0), (0, 0, 1, 0), (2, 0, 0, 1)),
       local_to_world = ((1, 0, 0, 0), (0, 1, 0, 0), (0, 0, 1, 0), (0, 0, 0, 1)),
       two_focal_length = (1, 1), num_splats = 1, pos_scale_cm = (1, 1, 1),
       pos_min_cm = (0, 0, 0), world_to_clip = (\<lambda>p. (2, 0, 0, 1)),
       get_render_resolution = (1, 1)\<rparr> \<lparr>positions = [0], covariances = [(0, 0)], transforms = [(0, 0, 0, 0)],
       indices = [0], distances = [0], colors = [(0, 0, 0, 0)]\<rparr> 4) = (0, 0, 0, 0)"
proof -
  have h: "\<bar>2 :: real\<bar> > \<bar>1\<bar> \<or> \<bar>0 :: real\<bar> > \<bar>1\<bar> \<or> (0 :: real) > 1" by simp
  have d: "(4 :: uint) div 6 = 0 div 6" by simp
  from culled_splat_sentinel_and_zero_position [OF h, of 0 "\<lparr>local_to_view = ((1, 0, 0, 0), (0, 1, 0, 0), (0, 0, 1, 0), (0, 0, 0, 1)),
       local_to_clip = ((1, 0, 0, 0), (0, 1, 0, 0), (0, 0, 1, 0), (2, 0, 0, 1)),
       local_to_world = ((1, 0, 0, 0), (0, 1, 0, 0), (0, 0, 1, 0), (0, 0, 0, 1)),
       two_focal_length = (1, 1), num_splats = 1, pos_scale_cm = (1, 1, 1),
       pos_min_cm = (0, 0, 0), world_to_clip = (\<lambda>p. (2, 0, 0, 1)),
       get_render_resolution = (1, 1)\<rparr>" "\<lparr>positions = [0], covariances = [(0, 0)], transforms = [(0, 0, 0, 0)],
       indices = [0], distances = [0], colors = [(0, 0, 0, 0)]\<rparr>" 0]
  show ?thesis
    using d by (simp add: example_distance_pos_clip example_vs_pos_clip)
qed

text \<open>
  With one clip-space position for both stages the claim fails. In the scene below
  \<open>local_to_world\<close> translates by \<open>(5, 0, 0)\<close>, \<open>world_to_clip\<close> maps a world
  position \<open>p\<close> to \<open>(p, 1)\<close>, and \<open>local_to_clip\<close> is their composite. The
  position of the splat as the kernel computes it is \<open>(5, 0, 0, 1)\<close>, with
  \<open>\<bar>x\<bar> > \<bar>w\<bar>\<close>, and the kernel writes the sentinel; the vertex shader drops the
  translation with its 3x3 cast, finds the splat inside the frustum and outputs the
  position \<open>(0, 0, 0, 1)\<close> in each of the six invocations of the quad.
\<close>

theorem sentinel_without_zero_position:
  "distance_pos_clip \<lparr>local_to_view = ((1, 0, 0, 0), (0, 1, 0, 0), (0, 0, 1, 0), (0, 0, 0, 1)),
       local_to_clip = ((1, 0, 0, 0), (0, 1, 0, 0), (0, 0, 1, 0), (5, 0, 0, 1)),
       local_to_world = ((1, 0, 0, 0), (0, 1, 0, 0), (0, 0, 1, 0), (5, 0, 0, 1)),
       two_focal_length = (1, 1), num_splats = 1, pos_scale_cm = (1, 1, 1),
       pos_min_cm = (0, 0, 0), world_to_clip = (\<lambda>(x, y, z). (x, y, z, 1)),
       get_render_resolution = (1, 1)\<rparr> \<lparr>positions = [0], covariances = [(0, 0)], transforms = [(0, 0, 0, 0)],
       indices = [0], distances = [0], colors = [(0, 0, 0, 0)]\<rparr> 0 = (5, 0, 0, 1) \<and>
   \<bar>5 :: real\<bar> > \<bar>1\<bar> \<and>
   distances (main_distance \<lparr>local_to_view = ((1, 0, 0, 0), (0, 1, 0, 0), (0, 0, 1, 0), (0, 0, 0, 1)),
       local_to_clip = ((1, 0, 0, 0), (0, 1, 0, 0), (0, 0, 1, 0), (5, 0, 0, 1)),
       local_to_world = ((1, 0, 0, 0), (0, 1, 0, 0), (0, 0, 1, 0), (5, 0, 0, 1)),
       two_focal_length = (1, 1), num_splats = 1, pos_scale_cm = (1, 1, 1),
       pos_min_cm = (0, 0, 0), world_to_clip = (\<lambda>(x, y, z). (x, y, z, 1)),
       get_render_resolution = (1, 1)\<rparr> \<lparr>positions = [0], covariances = [(0, 0)], transforms = [(0, 0, 0, 0)],
       indices = [0], distances = [0], colors = [(0, 0, 0, 0)]\<rparr> 0) = [DISTANCE_NOT_VISIBLE] \<and>
   out_position (main_vs \<lparr>local_to_view = ((1, 0, 0, 0), (0, 1, 0, 0), (0, 0, 1, 0), (0, 0, 0, 1)),
       local_to_clip = ((1, 0, 0, 0), (0, 1, 0, 0), (0, 0, 1, 0), (5, 0, 0, 1)),
       local_to_world = ((1, 0, 0, 0), (0, 1, 0, 0), (0, 0, 1, 0), (5, 0, 0, 1)),
       two_focal_length = (1, 1), num_splats = 1, pos_scale_cm = (1, 1, 1),
       pos_min_cm = (0, 0, 0), world_to_clip = (\<lambda>(x, y, z). (x, y, z, 1)),
       get_render_resolution = (1, 1)\<rparr> \<lparr>positions = [0], covariances = [(0, 0)], transforms = [(0, 0, 0, 0)],
       indices = [0], distances = [0], colors = [(0, 0, 0, 0)]\<rparr> 0) = (0, 0, 0, 1) \<and>
   out_position (main_vs \<lparr>local_to_view = ((1, 0, 0, 0), (0, 1, 0, 0), (0, 0, 1, 0), (0, 0, 0, 1)),
       local_to_clip = ((1, 0, 0, 0), (0, 1, 0, 0), (0, 0, 1, 0), (5, 0, 0, 1)),
       local_to_world = ((1, 0, 0, 0), (0, 1, 0, 0), (0, 0, 1, 0), (5, 0, 0, 1)),
       two_focal_length = (1, 1), num_splats = 1, pos_scale_cm = (1, 1, 1),
       pos_min_cm = (0, 0, 0), world_to_clip = (\<lambda>(x, y, z). (x, y, z, 1)),
       get_render_resolution = (1, 1)\<rparr> \<lparr>positions = [0], covariances = [(0, 0)], transforms = [(0, 0, 0, 0)],
       indices = [0], distances = [0], colors = [(0, 0, 0, 0)]\<rparr> 1) = (0, 0, 0, 1) \<and>
   out_position (main_vs \<lparr>local_to_view = ((1, 0, 0, 0), (0, 1, 0, 0), (0, 0, 1, 0), (0, 0, 0, 1)),
       local_to_clip = ((1, 0, 0, 0), (0, 1, 0, 0), (0, 0, 1, 0), (5, 0, 0, 1)),
       local_to_world = ((1, 0, 0, 0), (0, 1, 0, 0), (0, 0, 1, 0), (5, 0, 0, 1)),
       two_focal_length = (1, 1), num_splats = 1, pos_scale_cm = (1, 1, 1),
       pos_min_cm = (0, 0, 0), world_to_clip = (\<lambda>(x, y, z). (x, y, z, 1)),
       get_render_resolution = (1, 1)\<rparr> \<lparr>positions = [0], covariances = [(0, 0)], transforms = [(0, 0, 0, 0)],
       indices = [0], distances = [0], colors = [(0, 0, 0, 0)]\<rparr> 2) = (0, 0, 0, 1) \<and>
   out_position (main_vs \<lparr>local_to_view = ((1, 0, 0, 0), (0, 1, 0, 0), (0, 0, 1, 0), (0, 0, 0, 1)),
       local_to_clip = ((1, 0, 0, 0), (0, 1, 0, 0), (0, 0, 1, 0), (5, 0, 0, 1)),
       local_to_world = ((1, 0, 0, 0), (0, 1, 0, 0), (0, 0, 1, 0), (5, 0, 0, 1)),
       two_focal_length = (1, 1), num_splats = 1, pos_scale_cm = (1, 1, 1),
       pos_min_cm = (0, 0, 0), world_to_clip = (\<lambda>(x, y, z). (x, y, z, 1)),
       get_render_resolution = (1, 1)\<rparr> \<lparr>positions = [0], covariances = [(0, 0)], transforms = [(0, 0, 0, 0)],
       indices = [0], distances = [0], colors = [(0, 0, 0, 0)]\<rparr> 3) = (0, 0, 0, 1) \<and>
   out_position (main_vs \<lparr>local_to_view = ((1, 0, 0, 0), (0, 1, 0, 0), (0, 0, 1, 0), (0, 0, 0, 1)),
       local_to_clip = ((1, 0, 0, 0), (0, 1, 0, 0), (0, 0, 1, 0), (5, 0, 0, 1)),
       local_to_world = ((1, 0, 0, 0), (0, 1, 0, 0), (0, 0, 1, 0), (5, 0, 0, 1)),
       two_focal_length = (1, 1), num_splats = 1, pos_scale_cm = (1, 1, 1),
       pos_min_cm = (0, 0, 0), world_to_clip = (\<lambda>(x, y, z). (x, y, z, 1)),
       get_render_resolution = (1, 1)\<rparr> \<lparr>positions = [0], covariances = [(0, 0)], transforms = [(0, 0, 0, 0)],
       indices = [0], distances = [0], colors = [(0, 0, 0, 0)]\<rparr> 4) = (0, 0, 0, 1) \<and>
   out_position (main_vs \<lparr>local_to_view = ((1, 0, 0, 0), (0, 1, 0, 0), (0, 0, 1, 0), (0, 0, 0, 1)),
       local_to_clip = ((1, 0, 0, 0), (0, 1, 0, 0), (0, 0, 1, 0), (5, 0, 0, 1)),
       local_to_world = ((1, 0, 0, 0), (0, 1, 0, 0), (0, 0, 1, 0), (5, 0, 0, 1)),
       two_focal_length = (1, 1), num_splats = 1, pos_scale_cm = (1, 1, 1),
       pos_min_cm = (0, 0, 0), world_to_clip = (\<lambda>(x, y, z). (x, y, z, 1)),
       get_render_resolution = (1, 1)\<rparr> \<lparr>positions = [0], covariances = [(0, 0)], transforms = [(0, 0, 0, 0)],
       indices = [0], distances = [0], colors = [(0, 0, 0, 0)]\<rparr> 5) = (0, 0, 0, 1)"
proof -
  have v0: "vs_pos_clip \<lparr>local_to_view = ((1, 0, 0, 0), (0, 1, 0, 0), (0, 0, 1, 0), (0, 0, 0, 1)),
       local_to_clip = ((1, 0, 0, 0), (0, 1, 0, 0), (0, 0, 1, 0), (5, 0, 0, 1)),
       local_to_world = ((1, 0, 0, 0), (0, 1, 0, 0), (0, 0, 1, 0), (5, 0, 0, 1)),
       two_focal_length = (1, 1), num_splats = 1, pos_scale_cm = (1, 1, 1),
       pos_min_cm = (0, 0, 0), world_to_clip = (\<lambda>(x, y, z). (x, y, z, 1)),
       get_render_resolution = (1, 1)\<rparr> \<lparr>positions = [0], covariances = [(0, 0)], transforms = [(0, 0, 0, 0)],
       indices = [0], distances = [0], colors = [(0, 0, 0, 0)]\<rparr> 0 = (0, 0, 0, 1)"
    by (simp add: vs_pos_clip_def vs_splat_id_def buf_read_def unpack_unorm_0)
  have o0: "out_position (main_vs \<lparr>local_to_view = ((1, 0, 0, 0), (0, 1, 0, 0), (0, 0, 1, 0), (0, 0, 0, 1)),
       local_to_clip = ((1, 0, 0, 0), (0, 1, 0, 0), (0, 0, 1, 0), (5, 0, 0, 1)),
       local_to_world = ((1, 0, 0, 0), (0, 1, 0, 0), (0, 0, 1, 0), (5, 0, 0, 1)),
       two_focal_length = (1, 1), num_splats = 1, pos_scale_cm = (1, 1, 1),
       pos_min_cm = (0, 0, 0), world_to_clip = (\<lambda>(x, y, z). (x, y, z, 1)),
       get_render_resolution = (1, 1)\<rparr> \<lparr>positions = [0], covariances = [(0, 0)], transforms = [(0, 0, 0, 0)],
       indices = [0], distances = [0], colors = [(0, 0, 0, 0)]\<rparr> 0) = (0, 0, 0, 1)"
    by (simp add: main_vs_def v0 vs_splat_id_def buf_read_def Let_def corners_def)
  have v1: "vs_pos_clip \<lparr>local_to_view = ((1, 0, 0, 0), (0, 1, 0, 0), (0, 0, 1, 0), (0, 0, 0, 1)),
       local_to_clip = ((1, 0, 0, 0), (0, 1, 0, 0), (0, 0, 1, 0), (5, 0, 0, 1)),
       local_to_world = ((1, 0, 0, 0), (0, 1, 0, 0), (0, 0, 1, 0), (5, 0, 0, 1)),
       two_focal_length = (1, 1), num_splats = 1, pos_scale_cm = (1, 1, 1),
       pos_min_cm = (0, 0, 0), world_to_clip = (\<lambda>(x, y, z). (x, y, z, 1)),
       get_render_resolution = (1, 1)\<rparr> \<lparr>positions = [0], covariances = [(0, 0)], transforms = [(0, 0, 0, 0)],
       indices = [0], distances = [0], colors = [(0, 0, 0, 0)]\<rparr> 1 = (0, 0, 0, 1)"
    by (simp add: vs_pos_clip_def vs_splat_id_def buf_read_def unpack_unorm_0)
  have o1: "out_position (main_vs \<lparr>local_to_view = ((1, 0, 0, 0), (0, 1, 0, 0), (0, 0, 1, 0), (0, 0, 0, 1)),
       local_to_clip = ((1, 0, 0, 0), (0, 1, 0, 0), (0, 0, 1, 0), (5, 0, 0, 1)),
       local_to_world = ((1, 0, 0, 0), (0, 1, 0, 0), (0, 0, 1, 0), (5, 0, 0, 1)),
       two_focal_length = (1, 1), num_splats = 1, pos_scale_cm = (1, 1, 1),
       pos_min_cm = (0, 0, 0), world_to_clip = (\<lambda>(x, y, z). (x, y, z, 1)),
       get_render_resolution = (1, 1)\<rparr> \<lparr>positions = [0], covariances = [(0, 0)], transforms = [(0, 0, 0, 0)],
       indices = [0], distances = [0], colors = [(0, 0, 0, 0)]\<rparr> 1) = (0, 0, 0, 1)"
    by (simp add: main_vs_def v1 vs_splat_id_def buf_read_def Let_def corners_def)
  have v2: "vs_pos_clip \<lparr>local_to_view = ((1, 0, 0, 0), (0, 1, 0, 0), (0, 0, 1, 0), (0, 0, 0, 1)),
       local_to_clip = ((1, 0, 0, 0), (0, 1, 0, 0), (0, 0, 1, 0), (5, 0, 0, 1)),
       local_to_world = ((1, 0, 0, 0), (0, 1, 0, 0), (0, 0, 1, 0), (5, 0, 0, 1)),
       two_focal_length = (1, 1), num_splats = 1, pos_scale_cm = (1, 1, 1),
       pos_min_cm = (0, 0, 0), world_to_clip = (\<lambda>(x, y, z). (x, y, z, 1)),
       get_render_resolution = (1, 1)\<rparr> \<lparr>positions = [0], covariances = [(0, 0)], transforms = [(0, 0, 0, 0)],
       indices = [0], distances = [0], colors = [(0, 0, 0, 0)]\<rparr> 2 = (0, 0, 0, 1)"
    by (simp add: vs_pos_clip_def vs_splat_id_def buf_read_def unpack_unorm_0)
  have o2: "out_position (main_vs \<lparr>local_to_view = ((1, 0, 0, 0), (0, 1, 0, 0), (0, 0, 1, 0), (0, 0, 0, 1)),
       local_to_clip = ((1, 0, 0, 0), (0, 1, 0, 0), (0, 0, 1, 0), (5, 0, 0, 1)),
       local_to_world = ((1, 0, 0, 0), (0, 1, 0, 0), (0, 0, 1, 0), (5, 0, 0, 1)),
       two_focal_length = (1, 1), num_splats = 1, pos_scale_cm = (1, 1, 1),
       pos_min_cm = (0, 0, 0), world_to_clip = (\<lambda>(x, y, z). (x, y, z, 1)),
       get_render_resolution = (1, 1)\<rparr> \<lparr>positions = [0], covariances = [(0, 0)], transforms = [(0, 0, 0, 0)],
       indices = [0], distances = [0], colors = [(0, 0, 0, 0)]\<rparr> 2) = (0, 0, 0, 1)"
    by (simp add: main_vs_def v2 vs_splat_id_def buf_read_def Let_def corners_def)
  have v3: "vs_pos_clip \<lparr>local_to_view = ((1, 0, 0, 0), (0, 1, 0, 0), (0, 0, 1, 0), (0, 0, 0, 1)),
       local_to_clip = ((1, 0, 0, 0), (0, 1, 0, 0), (0, 0, 1, 0), (5, 0, 0, 1)),
       local_to_world = ((1, 0, 0, 0), (0, 1, 0, 0), (0, 0, 1, 0), (5, 0, 0, 1)),
       two_focal_length = (1, 1), num_splats = 1, pos_scale_cm = (1, 1, 1),
       pos_min_cm = (0, 0, 0), world_to_clip = (\<lambda>(x, y, z). (x, y, z, 1)),
       get_render_resolution = (1, 1)\<rparr> \<lparr>positions = [0], covariances = [(0, 0)], transforms = [(0, 0, 0, 0)],
       indices = [0], distances = [0], colors = [(0, 0, 0, 0)]\<rparr> 3 = (0, 0, 0, 1)"
    by (simp add: vs_pos_clip_def vs_splat_id_def buf_read_def unpack_unorm_0)
  have o3: "out_position (main_vs \<lparr>local_to_view = ((1, 0, 0, 0), (0, 1, 0, 0), (0, 0, 1, 0), (0, 0, 0, 1)),
       local_to_clip = ((1, 0, 0, 0), (0, 1, 0, 0), (0, 0, 1, 0), (5, 0, 0, 1)),
       local_to_world = ((1, 0, 0, 0), (0, 1, 0, 0), (0, 0, 1, 0), (5, 0, 0, 1)),
       two_focal_length = (1, 1), num_splats = 1, pos_scale_cm = (1, 1, 1),
       pos_min_cm = (0, 0, 0), world_to_clip = (\<lambda>(x, y, z). (x, y, z, 1)),
       get_render_resolution = (1, 1)\<rparr> \<lparr>positions = [0], covariances = [(0, 0)], transforms = [(0, 0, 0, 0)],
       indices = [0], distances = [0], colors = [(0, 0, 0, 0)]\<rparr> 3) = (0, 0, 0, 1)"
    by (simp add: main_vs_def v3 vs_splat_id_def buf_read_def Let_def corners_def)
  have v4: "vs_pos_clip \<lparr>local_to_view = ((1, 0, 0, 0), (0, 1, 0, 0), (0, 0, 1, 0), (0, 0, 0, 1)),
       local_to_clip = ((1, 0, 0, 0), (0, 1, 0, 0), (0, 0, 1, 0), (5, 0, 0, 1)),
       local_to_world = ((1, 0, 0, 0), (0, 1, 0, 0), (0, 0, 1, 0), (5, 0, 0, 1)),
       two_focal_length = (1, 1), num_splats = 1, pos_scale_cm = (1, 1, 1),
       pos_min_cm = (0, 0, 0), world_to_clip = (\<lambda>(x, y, z). (x, y, z, 1)),
       get_render_resolution = (1, 1)\<rparr> \<lparr>positions = [0], covariances = [(0, 0)], transforms = [(0, 0, 0, 0)],
       indices = [0], distances = [0], colors = [(0, 0, 0, 0)]\<rparr> 4 = (0, 0, 0, 1)"
    by (simp add: vs_pos_clip_def vs_splat_id_def buf_read_def unpack_unorm_0)
  have o4: "out_position (main_vs \<lparr>local_to_view = ((1, 0, 0, 0), (0, 1, 0, 0), (0, 0, 1, 0), (0, 0, 0, 1)),
       local_to_clip = ((1, 0, 0, 0), (0, 1, 0, 0), (0, 0, 1, 0), (5, 0, 0, 1)),
       local_to_world = ((1, 0, 0, 0), (0, 1, 0, 0), (0, 0, 1, 0), (5, 0, 0, 1)),
       two_focal_length = (1, 1), num_splats = 1, pos_scale_cm = (1, 1, 1),
       pos_min_cm = (0, 0, 0), world_to_clip = (\<lambda>(x, y, z). (x, y, z, 1)),
       get_render_resolution = (1, 1)\<rparr> \<lparr>positions = [0], covariances = [(0, 0)], transforms = [(0, 0, 0, 0)],
       indices = [0], distances = [0], colors = [(0, 0, 0, 0)]\<rparr> 4) = (0, 0, 0, 1)"
    by (simp add: main_vs_def v4 vs_splat_id_def buf_read_def Let_def corners_def)
  have v5: "vs_pos_clip \<lparr>local_to_view = ((1, 0, 0, 0), (0, 1, 0, 0), (0, 0, 1, 0), (0, 0, 0, 1)),
       local_to_clip = ((1, 0, 0, 0), (0, 1, 0, 0), (0, 0, 1, 0), (5, 0, 0, 1)),
       local_to_world = ((1, 0, 0, 0), (0, 1, 0, 0), (0, 0, 1, 0), (5, 0, 0, 1)),
       two_focal_length = (1, 1), num_splats = 1, pos_scale_cm = (1, 1, 1),
       pos_min_cm = (0, 0, 0), world_to_clip = (\<lambda>(x, y, z). (x, y, z, 1)),
       get_render_resolution = (1, 1)\<rparr> \<lparr>positions = [0], covariances = [(0, 0)], transforms = [(0, 0, 0, 0)],
       indices = [0], distances = [0], colors = [(0, 0, 0, 0)]\<rparr> 5 = (0, 0, 0, 1)"
    by (simp add: vs_pos_clip_def vs_splat_id_def buf_read_def unpack_unorm_0)
  have o5: "out_position (main_vs \<lparr>local_to_view = ((1, 0, 0, 0), (0, 1, 0, 0), (0, 0, 1, 0), (0, 0, 0, 1)),
       local_to_clip = ((1, 0, 0, 0), (0, 1, 0, 0), (0, 0, 1, 0), (5, 0, 0, 1)),
       local_to_world = ((1, 0, 0, 0), (0, 1, 0, 0), (0, 0, 1, 0), (5, 0, 0, 1)),
       two_focal_length = (1, 1), num_splats = 1, pos_scale_cm = (1, 1, 1),
       pos_min_cm = (0, 0, 0), world_to_clip = (\<lambda>(x, y, z). (x, y, z, 1)),
       get_render_resolution = (1, 1)\<rparr> \<lparr>positions = [0], covariances = [(0, 0)], transforms = [(0, 0, 0, 0)],
       indices = [0], distances = [0], colors = [(0, 0, 0, 0)]\<rparr> 5) = (0, 0, 0, 1)"
    by (simp add: main_vs_def v5 vs_splat_id_def buf_read_def Let_def corners_def)
  have d: "distances (main_distance \<lparr>local_to_view = ((1, 0, 0, 0), (0, 1, 0, 0), (0, 0, 1, 0), (0, 0, 0, 1)),
       local_to_clip = ((1, 0, 0, 0), (0, 1, 0, 0), (0, 0, 1, 0), (5, 0, 0, 1)),
       local_to_world = ((1, 0, 0, 0), (0, 1, 0, 0), (0, 0, 1, 0), (5, 0, 0, 1)),
       two_focal_length = (1, 1), num_splats = 1, pos_scale_cm = (1, 1, 1),
       pos_min_cm = (0, 0, 0), world_to_clip = (\<lambda>(x, y, z). (x, y, z, 1)),
       get_render_resolution = (1, 1)\<rparr> \<lparr>positions = [0], covariances = [(0, 0)], transforms = [(0, 0, 0, 0)],
       indices = [0], distances = [0], colors = [(0, 0, 0, 0)]\<rparr> 0) = [DISTANCE_NOT_VISIBLE]"
    by (simp add: distances_main_distance example_distance_pos_clip)
  show ?thesis
    using o0 o1 o2 o3 o4 o5 d by (simp add: example_distance_pos_clip)
qed

subsection \<open>Range of the sort key\<close>

text \<open>
  C2, as the code has it. For every splat index below \<open>num_splats\<close> the kernel
  writes a key \<open>k\<close> to the splat's slot of \<open>distances\<close>: the sentinel
  \<open>2 ^ 16 - 1\<close> when the splat is outside the frustum, and a quantized depth in
  the range \<open>[0, 2 ^ 16 - 2]\<close> when it is inside. The upper end \<open>2 ^ 16 - 2\<close> is
  \<open>DISTANCE_SCALE\<close>, reached where \<open>z = w\<close>.
\<close>

theorem sort_key_range:
  assumes "tid < num_splats c"
  shows "\<exists>k. distances (main_distance c b tid) = (distances b)[unat tid := k] \<and>
             (if outside_frustum (distance_pos_clip c b tid) then k = 2 ^ 16 - 1
              else unat k \<le> 2 ^ 16 - 2)"
proof (intro exI conjI)
  show "distances (main_distance c b tid) =
          (distances b)[unat tid := splat_distance (distance_pos_clip c b tid)]"
    using assms by (rule distances_main_distance)
  show "if outside_frustum (distance_pos_clip c b tid)
        then splat_distance (distance_pos_clip c b tid) = 2 ^ 16 - 1
        else unat (splat_distance (distance_pos_clip c b tid)) \<le> 2 ^ 16 - 2"
    using splat_distance_inside[of "distance_pos_clip c b tid"]
      splat_distance_outside[of "distance_pos_clip c b tid"]
    by (simp add: sentinel_val)
qed

theorem sort_key_range_witness:
  "0 < num_splats \<lparr>local_to_view = ((1, 0, 0, 0), (0, 1, 0, 0), (0, 0, 1, 0), (0, 0, 0, 1)),
       local_to_clip = ((1, 0, 0, 0), (0, 1, 0, 0), (0, 0, 1, 0), (0, 0, 1, 1)),
       local_to_world = ((1, 0, 0, 0), (0, 1, 0, 0), (0, 0, 1, 0), (0, 0, 0, 1)),
       two_focal_length = (1, 1), num_splats = 1, pos_scale_cm = (1, 1, 1),
       pos_min_cm = (0, 0, 0), world_to_clip = (\<lambda>p. (0, 0, 1, 1)),
       get_render_resolution = (1, 1)\<rparr> \<and>
   (\<exists>k. distances (main_distance \<lparr>local_to_view = ((1, 0, 0, 0), (0, 1, 0, 0), (0, 0, 1, 0), (0, 0, 0, 1)),
       local_to_clip = ((1, 0, 0, 0), (0, 1, 0, 0), (0, 0, 1, 0), (0, 0, 1, 1)),
       local_to_world = ((1, 0, 0, 0), (0, 1, 0, 0), (0, 0, 1, 0), (0, 0, 0, 1)),
       two_focal_length = (1, 1), num_splats = 1, pos_scale_cm = (1, 1, 1),
       pos_min_cm = (0, 0, 0), world_to_clip = (\<lambda>p. (0, 0, 1, 1)),
       get_render_resolution = (1, 1)\<rparr> \<lparr>positions = [0], covariances = [(0, 0)], transforms = [(0, 0, 0, 0)],
       indices = [0], distances = [0], colors = [(0, 0, 0, 0)]\<rparr> 0) = (distances \<lparr>positions = [0], covariances = [(0, 0)], transforms = [(0, 0, 0, 0)],
       indices = [0], distances = [0], colors = [(0, 0, 0, 0)]\<rparr>)[unat (0 :: uint) := k] \<and>
        (if outside_frustum (distance_pos_clip \<lparr>local_to_view = ((1, 0, 0, 0), (0, 1, 0, 0), (0, 0, 1, 0), (0, 0, 0, 1)),
       local_to_clip = ((1, 0, 0, 0), (0, 1, 0, 0), (0, 0, 1, 0), (0, 0, 1, 1)),
       local_to_world = ((1, 0, 0, 0), (0, 1, 0, 0), (0, 0, 1, 0), (0, 0, 0, 1)),
       two_focal_length = (1, 1), num_splats = 1, pos_scale_cm = (1, 1, 1),
       pos_min_cm = (0, 0, 0), world_to_clip = (\<lambda>p. (0, 0, 1, 1)),
       get_render_resolution = (1, 1)\<rparr> \<lparr>positions = [0], covariances = [(0, 0)], transforms = [(0, 0, 0, 0)],
       indices = [0], distances = [0], colors = [(0, 0, 0, 0)]\<rparr> 0) then k = 2 ^ 16 - 1
         else unat k \<le> 2 ^ 16 - 2))"
proof -
  have h: "0 < num_splats \<lparr>local_to_view = ((1, 0, 0, 0), (0, 1, 0, 0), (0, 0, 1, 0), (0, 0, 0, 1)),
       local_to_clip = ((1, 0, 0, 0), (0, 1, 0, 0), (0, 0, 1, 0), (0, 0, 1, 1)),
       local_to_world = ((1, 0, 0, 0), (0, 1, 0, 0), (0, 0, 1, 0), (0, 0, 0, 1)),
       two_focal_length = (1, 1), num_splats = 1, pos_scale_cm = (1, 1, 1),
       pos_min_cm = (0, 0, 0), world_to_clip = (\<lambda>p. (0, 0, 1, 1)),
       get_render_resolution = (1, 1)\<rparr>"
    by simp
  show ?thesis
    by (rule conjI [OF h sort_key_range [OF h]])
qed

text \<open>
  The key \<open>2 ^ 16 - 2\<close> is written for a splat inside the frustum with clip-space
  position \<open>(0, 0, 1, 1)\<close>: the claimed upper end \<open>2 ^ 16 - 3\<close> is exceeded.
\<close>

theorem sort_key_exceeds_claimed_range:
  "0 < num_splats \<lparr>local_to_view = ((1, 0, 0, 0), (0, 1, 0, 0), (0, 0, 1, 0), (0, 0, 0, 1)),
       local_to_clip = ((1, 0, 0, 0), (0, 1, 0, 0), (0, 0, 1, 0), (0, 0, 1, 1)),
       local_to_world = ((1, 0, 0, 0), (0, 1, 0, 0), (0, 0, 1, 0), (0, 0, 0, 1)),
       two_focal_length = (1, 1), num_splats = 1, pos_scale_cm = (1, 1, 1),
       pos_min_cm = (0, 0, 0), world_to_clip = (\<lambda>p. (0, 0, 1, 1)),
       get_render_resolution = (1, 1)\<rparr> \<and>
   \<not> outside_frustum (distance_pos_clip \<lparr>local_to_view = ((1, 0, 0, 0), (0, 1, 0, 0), (0, 0, 1, 0), (0, 0, 0, 1)),
       local_to_clip = ((1, 0, 0, 0), (0, 1, 0, 0), (0, 0, 1, 0), (0, 0, 1, 1)),
       local_to_world = ((1, 0, 0, 0), (0, 1, 0, 0), (0, 0, 1, 0), (0, 0, 0, 1)),
       two_focal_length = (1, 1), num_splats = 1, pos_scale_cm = (1, 1, 1),
       pos_min_cm = (0, 0, 0), world_to_clip = (\<lambda>p. (0, 0, 1, 1)),
       get_render_resolution = (1, 1)\<rparr> \<lparr>positions = [0], covariances = [(0, 0)], transforms = [(0, 0, 0, 0)],
       indices = [0], distances = [0], colors = [(0, 0, 0, 0)]\<rparr> 0) \<and>
   distances (main_distance \<lparr>local_to_view = ((1, 0, 0, 0), (0, 1, 0, 0), (0, 0, 1, 0), (0, 0, 0, 1)),
       local_to_clip = ((1, 0, 0, 0), (0, 1, 0, 0), (0, 0, 1, 0), (0, 0, 1, 1)),
       local_to_world = ((1, 0, 0, 0), (0, 1, 0, 0), (0, 0, 1, 0), (0, 0, 0, 1)),
       two_focal_length = (1, 1), num_splats = 1, pos_scale_cm = (1, 1, 1),
       pos_min_cm = (0, 0, 0), world_to_clip = (\<lambda>p. (0, 0, 1, 1)),
       get_render_resolution = (1, 1)\<rparr> \<lparr>positions = [0], covariances = [(0, 0)], transforms = [(0, 0, 0, 0)],
       indices = [0], distances = [0], colors = [(0, 0, 0, 0)]\<rparr> 0) = [2 ^ 16 - 2]"
  by (simp add: example_distance_pos_clip distances_main_distance splat_distance_far
      del: splat_distance.simps)

subsection \<open>Order of the sort keys\<close>

lemma saturate_mono: "x \<le> y \<Longrightarrow> saturate x \<le> saturate y"
  by (auto simp: saturate_def min_def max_def)

lemma saturate_range: "0 \<le> saturate x" "saturate x \<le> 1"
  by (auto simp: saturate_def min_def max_def)

lemma uint_of_float_mono:
  assumes "x \<le> y" "y < 2 ^ 32"
  shows "unat (uint_of_float x) \<le> unat (uint_of_float y)"
proof (cases "x \<le> 0")
  case True
  then show ?thesis by (simp add: uint_of_float_def)
next
  case False
  with assms have pos: "0 < x" "0 < y" by auto
  have fx: "nat \<lfloor>x\<rfloor> \<le> nat \<lfloor>y\<rfloor>" using assms(1) by (simp add: floor_mono nat_mono)
  have "\<lfloor>y\<rfloor> < 2 ^ 32" using assms(2) by (simp add: floor_less_iff)
  then have ny: "nat \<lfloor>y\<rfloor> < 2 ^ 32" using pos by (simp add: nat_less_iff)
  from ny fx have bx: "nat \<lfloor>x\<rfloor> < 2 ^ 32" by simp
  have "unat (word_of_nat (nat \<lfloor>x\<rfloor>) :: uint) = nat \<lfloor>x\<rfloor>"
       "unat (word_of_nat (nat \<lfloor>y\<rfloor>) :: uint) = nat \<lfloor>y\<rfloor>"
    using bx ny by (simp_all add: unat_of_nat)
  with fx pos assms show ?thesis by (simp add: uint_of_float_def)
qed

text \<open>
  The sort keys of splats inside the frustum do not decrease as \<open>z / w\<close> grows.
\<close>

theorem sort_key_monotone:
  assumes "\<not> outside_frustum (x, y, z, w)" and "\<not> outside_frustum (x', y', z', w')"
    and "z / w \<le> z' / w'"
  shows "splat_distance (x, y, z, w) \<le> splat_distance (x', y', z', w')"
proof -
  have "saturate (z / w) * DISTANCE_SCALE \<le> saturate (z' / w') * DISTANCE_SCALE"
    using saturate_mono[OF assms(3)]
    by (simp add: DISTANCE_SCALE_def DISTANCE_PRECISION_def)
  moreover have "saturate (z' / w') * DISTANCE_SCALE < 2 ^ 32"
    using saturate_range[of "z' / w'"]
    by (simp add: DISTANCE_SCALE_def DISTANCE_PRECISION_def)
  ultimately have "unat (uint_of_float (saturate (z / w) * DISTANCE_SCALE))
      \<le> unat (uint_of_float (saturate (z' / w') * DISTANCE_SCALE))"
    by (rule uint_of_float_mono)
  with assms(1,2) show ?thesis by (simp add: word_le_nat_alt)
qed

theorem sort_key_monotone_witness:
  "\<not> outside_frustum (0, 0, 1, 2) \<and> \<not> outside_frustum (0, 0, 1, 1) \<and>
   (1 :: real) / 2 \<le> 1 / 1 \<and>
   splat_distance (0, 0, 1, 2) \<le> splat_distance (0, 0, 1, 1)"
proof -
  have h: "\<not> outside_frustum (0, 0, 1, 2)" "\<not> outside_frustum (0, 0, 1, 1)"
    "(1 :: real) / 2 \<le> 1 / 1"
    by simp_all
  from sort_key_monotone [OF h] h show ?thesis by (simp del: splat_distance.simps)
qed

subsection \<open>Eigenvalues of the projected covariance\<close>

text \<open>
  The algebra of the rounding errors, for the values \<open>tt\<close> of \<^verbatim>\<open>trace * trace\<close>,
  \<open>fd\<close> of \<^verbatim>\<open>4 * det\<close>, \<open>D\<close> of their difference, \<open>s\<close> of its square root and
  \<open>l0\<close>, \<open>l1\<close> of the two components of \<^verbatim>\<open>two_lmb\<close>, each within the relative
  error \<open>u\<close> of its exact result.
\<close>

lemma eigen_product_bound:
  fixes u t d tt fd D s l0 l1 :: real
  assumes u0: "0 \<le> u" and u1: "u \<le> 1 / 16"
    and tt: "\<bar>tt - t * t\<bar> \<le> u * \<bar>t * t\<bar>"
    and fd: "\<bar>fd - 4 * d\<bar> \<le> u * \<bar>4 * d\<bar>"
    and D: "\<bar>D - (tt - fd)\<bar> \<le> u * \<bar>tt - fd\<bar>" and Dpos: "0 \<le> D"
    and s: "\<bar>s - sqrt D\<bar> \<le> u * sqrt D"
    and l0: "\<bar>l0 - (t + s)\<bar> \<le> u * \<bar>t + s\<bar>"
    and l1: "\<bar>l1 - (t - s)\<bar> \<le> u * \<bar>t - s\<bar>"
  shows "\<bar>l0 / 2 * (l1 / 2) - d\<bar> \<le> 2 * u * (t * t + 4 * \<bar>d\<bar>)"
proof -
  define T where "T = t * t + 4 * \<bar>d\<bar>"
  have T0: "0 \<le> T" by (simp add: T_def)
  have uT: "u * T \<le> T / 16" using mult_right_mono[OF u1 T0] by simp
  have uT0: "0 \<le> u * T" using u0 T0 by simp
  \<comment> \<open>the argument of the square root\<close>
  have a: "\<bar>tt - fd\<bar> \<le> T + 2 * (u * T)"
  proof -
    have "\<bar>tt - fd\<bar> \<le> \<bar>tt - t * t\<bar> + \<bar>fd - 4 * d\<bar> + (t * t + 4 * \<bar>d\<bar>)"
      using zero_le_square[of t] by linarith
    also have "\<dots> \<le> u * \<bar>t * t\<bar> + u * \<bar>4 * d\<bar> + (t * t + 4 * \<bar>d\<bar>)"
      using tt fd by simp
    also have "\<dots> \<le> T + 2 * (u * T)" using uT0 by (simp add: T_def algebra_simps abs_mult)
    finally show ?thesis .
  qed
  have a': "\<bar>tt - fd\<bar> \<le> 9 / 8 * T" using a uT T0 by linarith
  have b: "D \<le> \<bar>tt - fd\<bar> + u * \<bar>tt - fd\<bar>" using D by linarith
  have ua: "u * \<bar>tt - fd\<bar> \<le> 9 / 8 * (u * T)"
    using mult_left_mono[OF a' u0] by (simp add: algebra_simps)
  have b': "D \<le> 9 / 8 * T + 9 / 8 * (u * T)" using b a' ua by linarith
  have b'': "D \<le> 5 / 4 * T" using b' uT T0 by linarith
  have uD: "u * D \<le> 5 / 4 * (u * T)"
    using mult_left_mono[OF b'' u0] by (simp add: algebra_simps)
  \<comment> \<open>the square of the rounded root\<close>
  have c: "\<bar>s * s - D\<bar> \<le> 33 / 16 * (u * D)"
  proof -
    have sq: "sqrt D * sqrt D = D" using Dpos by simp
    have "s * s - D = (s - sqrt D) * (s - sqrt D) + 2 * sqrt D * (s - sqrt D)"
      using sq by (simp add: algebra_simps)
    then have "\<bar>s * s - D\<bar> \<le>
        \<bar>(s - sqrt D) * (s - sqrt D)\<bar> + \<bar>2 * sqrt D * (s - sqrt D)\<bar>"
      by linarith
    also have "\<dots> = \<bar>s - sqrt D\<bar> * \<bar>s - sqrt D\<bar> + 2 * sqrt D * \<bar>s - sqrt D\<bar>"
      using Dpos by (simp add: abs_mult)
    also have "\<dots> \<le> (u * sqrt D) * (u * sqrt D) + 2 * sqrt D * (u * sqrt D)"
      using s Dpos u0 by (intro add_mono mult_mono mult_left_mono) simp_all
    also have "\<dots> = u * (u * D) + 2 * (u * D)" using sq by (simp add: algebra_simps)
    also have "\<dots> \<le> 1 / 16 * (u * D) + 2 * (u * D)"
      using u0 u1 Dpos by (intro add_right_mono mult_right_mono) simp_all
    finally show ?thesis by (simp add: algebra_simps)
  qed
  \<comment> \<open>the discriminant against the determinant\<close>
  have e1: "\<bar>t * t - s * s - 4 * d\<bar> \<le> 5 * (u * T)"
  proof -
    have "t * t - s * s - 4 * d =
        - (tt - t * t) + (fd - 4 * d) - (D - (tt - fd)) - (s * s - D)" by simp
    then have "\<bar>t * t - s * s - 4 * d\<bar> \<le>
        \<bar>tt - t * t\<bar> + \<bar>fd - 4 * d\<bar> + \<bar>D - (tt - fd)\<bar> + \<bar>s * s - D\<bar>" by linarith
    also have "\<dots> \<le> u * \<bar>t * t\<bar> + u * \<bar>4 * d\<bar> + u * \<bar>tt - fd\<bar> + 33 / 16 * (u * D)"
      using tt fd D c by linarith
    also have "u * \<bar>t * t\<bar> + u * \<bar>4 * d\<bar> = u * T" by (simp add: T_def algebra_simps abs_mult)
    also have "u * T + u * \<bar>tt - fd\<bar> + 33 / 16 * (u * D) \<le>
        u * T + 9 / 8 * (u * T) + 33 / 16 * (5 / 4 * (u * T))"
      using ua uD by linarith
    also have "\<dots> \<le> 5 * (u * T)" using uT0 by linarith
    finally show ?thesis .
  qed
  have f: "\<bar>t * t - s * s\<bar> \<le> T + 5 * (u * T)"
  proof -
    have "\<bar>t * t - s * s\<bar> \<le> \<bar>t * t - s * s - 4 * d\<bar> + 4 * \<bar>d\<bar>" by linarith
    also have "\<dots> \<le> 5 * (u * T) + T"
      using e1 zero_le_square[of t] unfolding T_def by linarith
    finally show ?thesis by linarith
  qed
  have f': "\<bar>t * t - s * s\<bar> \<le> 21 / 16 * T" using f uT T0 by linarith
  \<comment> \<open>the product of the two rounded sums\<close>
  have g: "\<bar>l0 * l1 - (t * t - s * s)\<bar> \<le> 33 / 16 * (u * \<bar>t * t - s * s\<bar>)"
  proof -
    have ts: "\<bar>t + s\<bar> * \<bar>t - s\<bar> = \<bar>t * t - s * s\<bar>"
      by (simp add: abs_mult[symmetric] algebra_simps)
    have "l0 * l1 - (t * t - s * s) =
        (l0 - (t + s)) * (l1 - (t - s)) + (l0 - (t + s)) * (t - s) + (t + s) * (l1 - (t - s))"
      by (simp add: algebra_simps)
    then have "\<bar>l0 * l1 - (t * t - s * s)\<bar> \<le>
        \<bar>(l0 - (t + s)) * (l1 - (t - s))\<bar> + \<bar>(l0 - (t + s)) * (t - s)\<bar> +
        \<bar>(t + s) * (l1 - (t - s))\<bar>"
      by linarith
    also have "\<dots> =
        \<bar>l0 - (t + s)\<bar> * \<bar>l1 - (t - s)\<bar> + \<bar>l0 - (t + s)\<bar> * \<bar>t - s\<bar> + \<bar>t + s\<bar> * \<bar>l1 - (t - s)\<bar>"
      by (simp only: abs_mult)
    also have "\<dots> \<le> (u * \<bar>t + s\<bar>) * (u * \<bar>t - s\<bar>) + (u * \<bar>t + s\<bar>) * \<bar>t - s\<bar> +
        \<bar>t + s\<bar> * (u * \<bar>t - s\<bar>)"
      using l0 l1 u0 by (intro add_mono mult_mono mult_left_mono mult_right_mono) simp_all
    also have "\<dots> = u * (u * \<bar>t * t - s * s\<bar>) + 2 * (u * \<bar>t * t - s * s\<bar>)"
      using ts by (simp add: algebra_simps)
    also have "\<dots> \<le> 1 / 16 * (u * \<bar>t * t - s * s\<bar>) + 2 * (u * \<bar>t * t - s * s\<bar>)"
      using u0 u1 by (intro add_right_mono mult_right_mono) simp_all
    finally show ?thesis by (simp add: algebra_simps)
  qed
  have uf: "u * \<bar>t * t - s * s\<bar> \<le> 21 / 16 * (u * T)"
    using mult_left_mono[OF f' u0] by (simp add: algebra_simps)
  have "\<bar>l0 * l1 - 4 * d\<bar> \<le> \<bar>l0 * l1 - (t * t - s * s)\<bar> + \<bar>t * t - s * s - 4 * d\<bar>"
    by linarith
  also have "\<dots> \<le> 33 / 16 * (21 / 16 * (u * T)) + 5 * (u * T)"
    using g uf e1 by linarith
  also have "\<dots> \<le> 8 * (u * T)" using uT0 by linarith
  finally have B: "\<bar>l0 * l1 - 4 * d\<bar> \<le> 8 * (u * T)" .
  have "l0 / 2 * (l1 / 2) - d = (l0 * l1 - 4 * d) / 4" by simp
  then have E: "\<bar>l0 / 2 * (l1 / 2) - d\<bar> = \<bar>l0 * l1 - 4 * d\<bar> / 4"
    by (simp only: abs_divide)
  have "\<bar>l0 / 2 * (l1 / 2) - d\<bar> \<le> 2 * (u * T)" unfolding E using B by simp
  then show ?thesis by (simp add: T_def mult.assoc)
qed


lemma eigen_sum_bound:
  fixes u t s l0 l1 :: real
  assumes l0: "\<bar>l0 - (t + s)\<bar> \<le> u * \<bar>t + s\<bar>"
    and l1: "\<bar>l1 - (t - s)\<bar> \<le> u * \<bar>t - s\<bar>"
  shows "\<bar>l0 / 2 + l1 / 2 - t\<bar> \<le> u * max \<bar>t\<bar> \<bar>s\<bar>"
proof -
  have m: "\<bar>t + s\<bar> + \<bar>t - s\<bar> = 2 * max \<bar>t\<bar> \<bar>s\<bar>" by (simp add: max_def) linarith
  have "l0 / 2 + l1 / 2 - t = ((l0 - (t + s)) + (l1 - (t - s))) / 2" by simp
  then have "\<bar>l0 / 2 + l1 / 2 - t\<bar> = \<bar>(l0 - (t + s)) + (l1 - (t - s))\<bar> / 2"
    by (simp only: abs_divide)
  also have "\<dots> \<le> (\<bar>l0 - (t + s)\<bar> + \<bar>l1 - (t - s)\<bar>) / 2"
    by (intro divide_right_mono abs_triangle_ineq) simp
  also have "\<dots> \<le> (u * \<bar>t + s\<bar> + u * \<bar>t - s\<bar>) / 2" using l0 l1 by simp
  also have "\<dots> = u * max \<bar>t\<bar> \<bar>s\<bar>"
    using m by (simp add: distrib_left[symmetric] del: abs_add_abs)
  finally show ?thesis .
qed

lemma det_bound:
  fixes u a b p1 p2 d :: real
  assumes u0: "0 \<le> u" and u1: "u \<le> 1"
    and p1: "\<bar>p1 - a\<bar> \<le> u * \<bar>a\<bar>" and p2: "\<bar>p2 - b\<bar> \<le> u * \<bar>b\<bar>"
    and d: "\<bar>d - (p1 - p2)\<bar> \<le> u * \<bar>p1 - p2\<bar>"
  shows "\<bar>d - (a - b)\<bar> \<le> 3 * u * (\<bar>a\<bar> + \<bar>b\<bar>)"
proof -
  define S where "S = \<bar>a\<bar> + \<bar>b\<bar>"
  have S0: "0 \<le> S" by (simp add: S_def)
  have uS: "u * S \<le> S" using mult_right_mono[OF u1 S0] by simp
  have uab: "u * \<bar>a\<bar> + u * \<bar>b\<bar> = u * S" by (simp add: S_def algebra_simps)
  have "\<bar>p1 - p2\<bar> \<le> \<bar>p1 - a\<bar> + \<bar>p2 - b\<bar> + S" unfolding S_def by linarith
  also have "\<dots> \<le> u * S + S" using p1 p2 uab by linarith
  also have "\<dots> \<le> 2 * S" using uS by linarith
  finally have "u * \<bar>p1 - p2\<bar> \<le> u * (2 * S)" using u0 by (rule mult_left_mono)
  then have e: "\<bar>d - (p1 - p2)\<bar> \<le> 2 * (u * S)" using d by (simp add: algebra_simps)
  have "\<bar>d - (a - b)\<bar> \<le> \<bar>d - (p1 - p2)\<bar> + \<bar>p1 - a\<bar> + \<bar>p2 - b\<bar>" by linarith
  also have "\<dots> \<le> 2 * (u * S) + u * S" using e p1 p2 uab by linarith
  finally show ?thesis by (simp add: S_def algebra_simps)
qed

text \<open>
  C4, as the code has it. The kernel computes \<^verbatim>\<open>det\<close>, \<^verbatim>\<open>trace\<close>, \<^verbatim>\<open>sqrt_disc\<close>
  and \<^verbatim>\<open>two_lmb\<close> in \<^verbatim>\<open>float\<close>, rounding after each operation. Let each of
  these ten operations on the projected covariance be within the relative error
  \<open>u \<le> 1 / 16\<close> of its exact result (\<open>u = 2\<^sup>-\<^sup>2\<^sup>4\<close> for a \<^verbatim>\<open>float\<close> operation that
  neither overflows nor underflows), and let the discriminant
  \<^verbatim>\<open>trace * trace - 4 * det\<close> that the kernel computes be not negative.
  Then the two eigenvalues, half of each component of \<open>two_lmb\<close>, sum to the kernel's
  \<^verbatim>\<open>trace\<close> within \<open>u * max \<bar>trace\<bar> \<bar>sqrt_disc\<bar>\<close> and multiply to the kernel's
  \<^verbatim>\<open>det\<close> within \<open>2 * u * (trace\<^sup>2 + 4 * \<bar>det\<bar>)\<close>; the kernel's \<^verbatim>\<open>trace\<close> is
  within \<open>u * \<bar>sig_p_00 + sig_p_11\<bar>\<close> of \<open>sig_p_00 + sig_p_11\<close> and its \<^verbatim>\<open>det\<close>
  within \<open>3 * u * (\<bar>sig_p_00 * sig_p_11\<bar> + sig_p_01_10\<^sup>2)\<close> of
  \<open>sig_p_00 * sig_p_11 - sig_p_01_10\<^sup>2\<close>. With \<open>u = 0\<close> these are the equalities
  of exact arithmetic.
\<close>

theorem eigenvalues_sum_and_product_within_rounding:
  assumes "eigen_ops_accurate u ar (sig_p_00, sig_p_01_10, sig_p_11)"
    and "0 \<le> u" and "u \<le> 1 / 16"
    and "0 \<le> sig_p_disc ar (sig_p_00, sig_p_01_10, sig_p_11)"
  shows
   "\<bar>fst (two_lmb ar (sig_p_00, sig_p_01_10, sig_p_11)) / 2 +
       snd (two_lmb ar (sig_p_00, sig_p_01_10, sig_p_11)) / 2 -
       sig_p_trace ar (sig_p_00, sig_p_01_10, sig_p_11)\<bar> \<le>
      u * max \<bar>sig_p_trace ar (sig_p_00, sig_p_01_10, sig_p_11)\<bar>
              \<bar>sig_p_sqrt_disc ar (sig_p_00, sig_p_01_10, sig_p_11)\<bar> \<and>
    \<bar>sig_p_trace ar (sig_p_00, sig_p_01_10, sig_p_11) - (sig_p_00 + sig_p_11)\<bar> \<le>
      u * \<bar>sig_p_00 + sig_p_11\<bar> \<and>
    \<bar>(fst (two_lmb ar (sig_p_00, sig_p_01_10, sig_p_11)) / 2) *
       (snd (two_lmb ar (sig_p_00, sig_p_01_10, sig_p_11)) / 2) -
       sig_p_det ar (sig_p_00, sig_p_01_10, sig_p_11)\<bar> \<le>
      2 * u * ((sig_p_trace ar (sig_p_00, sig_p_01_10, sig_p_11))\<^sup>2 +
               4 * \<bar>sig_p_det ar (sig_p_00, sig_p_01_10, sig_p_11)\<bar>) \<and>
    \<bar>sig_p_det ar (sig_p_00, sig_p_01_10, sig_p_11) -
       (sig_p_00 * sig_p_11 - sig_p_01_10\<^sup>2)\<bar> \<le>
      3 * u * (\<bar>sig_p_00 * sig_p_11\<bar> + sig_p_01_10\<^sup>2)"
proof -
  let ?S = "(sig_p_00, sig_p_01_10, sig_p_11)"
  define p0 where "p0 = f_mul ar sig_p_00 sig_p_11"
  define p1 where "p1 = f_mul ar sig_p_01_10 sig_p_01_10"
  define t where "t = sig_p_trace ar ?S"
  define d where "d = sig_p_det ar ?S"
  define tt where "tt = f_mul ar t t"
  define fd where "fd = f_mul ar 4 d"
  define D where "D = sig_p_disc ar ?S"
  define s where "s = sig_p_sqrt_disc ar ?S"
  have u1: "u \<le> 1" using assms(3) by simp
  have d_eq: "d = f_sub ar p0 p1" by (simp add: d_def p0_def p1_def)
  have t_eq: "t = f_add ar sig_p_00 sig_p_11" by (simp add: t_def)
  have D_eq: "D = f_sub ar tt fd"
    by (simp add: D_def sig_p_disc_def tt_def fd_def t_def d_def Let_def)
  have s_eq: "s = f_sqrt ar D" by (simp add: s_def D_def sig_p_sqrt_disc_def)
  have Dpos: "0 \<le> D" using assms(4) by (simp add: D_def)
  have lmb: "two_lmb ar ?S = (f_add ar t s, f_sub ar t s)"
    by (simp add: two_lmb_def t_def s_def Let_def)
  from assms(1) have ops:
    "\<bar>p0 - sig_p_00 * sig_p_11\<bar> \<le> u * \<bar>sig_p_00 * sig_p_11\<bar>"
    "\<bar>p1 - sig_p_01_10 * sig_p_01_10\<bar> \<le> u * \<bar>sig_p_01_10 * sig_p_01_10\<bar>"
    "\<bar>d - (p0 - p1)\<bar> \<le> u * \<bar>p0 - p1\<bar>"
    "\<bar>t - (sig_p_00 + sig_p_11)\<bar> \<le> u * \<bar>sig_p_00 + sig_p_11\<bar>"
    "\<bar>tt - t * t\<bar> \<le> u * \<bar>t * t\<bar>"
    "\<bar>fd - 4 * d\<bar> \<le> u * \<bar>4 * d\<bar>"
    "\<bar>D - (tt - fd)\<bar> \<le> u * \<bar>tt - fd\<bar>"
    "\<bar>s - sqrt D\<bar> \<le> u * sqrt D"
    "\<bar>f_add ar t s - (t + s)\<bar> \<le> u * \<bar>t + s\<bar>"
    "\<bar>f_sub ar t s - (t - s)\<bar> \<le> u * \<bar>t - s\<bar>"
    unfolding eigen_ops_accurate.simps Let_def
      p0_def[symmetric] p1_def[symmetric] d_eq[symmetric] t_eq[symmetric] tt_def[symmetric]
      fd_def[symmetric] D_eq[symmetric] s_eq[symmetric]
    by blast+
  have sum: "\<bar>f_add ar t s / 2 + f_sub ar t s / 2 - t\<bar> \<le> u * max \<bar>t\<bar> \<bar>s\<bar>"
    using ops(9,10) by (rule eigen_sum_bound)
  have prod: "\<bar>f_add ar t s / 2 * (f_sub ar t s / 2) - d\<bar> \<le> 2 * u * (t * t + 4 * \<bar>d\<bar>)"
    using assms(2,3) ops(5,6,7) Dpos ops(8,9,10) by (rule eigen_product_bound)
  have det: "\<bar>d - (sig_p_00 * sig_p_11 - sig_p_01_10 * sig_p_01_10)\<bar> \<le>
      3 * u * (\<bar>sig_p_00 * sig_p_11\<bar> + \<bar>sig_p_01_10 * sig_p_01_10\<bar>)"
    using assms(2) u1 ops(1,2,3) by (rule det_bound)
  show ?thesis
    unfolding lmb t_def[symmetric] d_def[symmetric] s_def[symmetric]
    using sum ops(4) prod det by (simp add: power2_eq_square)
qed

text \<open>
  Three projected covariances in \<^verbatim>\<open>float\<close> arithmetic: a thin one with the
  eigenvalues 1 and \<open>2\<^sup>-\<^sup>3\<^sup>0\<close>, a nearly round one with the eigenvalues 1 and
  \<open>1 + 2\<^sup>-\<^sup>2\<^sup>3\<close>, and one with the eigenvalues 2 and 1.
\<close>

lemma example_thin:
  "sig_p_trace binary32 (1, 0, 1 / 2 ^ 30) = 1"
  "sig_p_det binary32 (1, 0, 1 / 2 ^ 30) = 1 / 2 ^ 30"
  "sig_p_disc binary32 (1, 0, 1 / 2 ^ 30) = 1"
  "sig_p_sqrt_disc binary32 (1, 0, 1 / 2 ^ 30) = 1"
  "two_lmb binary32 (1, 0, 1 / 2 ^ 30) = (2, 0)"
  by (simp_all add: two_lmb_def sig_p_sqrt_disc_def sig_p_disc_def binary32_def ieee_def Let_def
      float32_0 float32_1 float32_2 float32_2_30 float32_2_28 float32_1_plus float32_1_minus)

lemma example_close:
  "sig_p_disc binary32 (1, 0, 1 + 1 / 2 ^ 23) = - (1 / 2 ^ 21)"
  by (simp add: sig_p_disc_def binary32_def ieee_def Let_def
      float32_0 float32_4 float32_next_1 float32_tie_2 float32_4_plus float32_neg_2_21)

lemma example_round:
  "sig_p_trace binary32 (2, 0, 1) = 3"
  "sig_p_det binary32 (2, 0, 1) = 2"
  "sig_p_disc binary32 (2, 0, 1) = 1"
  "sig_p_sqrt_disc binary32 (2, 0, 1) = 1"
  "two_lmb binary32 (2, 0, 1) = (4, 2)"
  by (simp_all add: two_lmb_def sig_p_sqrt_disc_def sig_p_disc_def binary32_def ieee_def Let_def
      float32_0 float32_1 float32_2 float32_3 float32_4 float32_8 float32_9)

theorem eigenvalues_sum_and_product_within_rounding_witness:
  "eigen_ops_accurate (1 / 2 ^ 24) binary32 (1, 0, 1 / 2 ^ 30) \<and>
   eigen_ops_accurate (1 / 2 ^ 24) binary32 (2, 0, 1) \<and>
   0 \<le> sig_p_disc binary32 (1, 0, 1 / 2 ^ 30) \<and> 0 \<le> sig_p_disc binary32 (2, 0, 1) \<and>
   \<bar>fst (two_lmb binary32 (1, 0, 1 / 2 ^ 30)) / 2 * (snd (two_lmb binary32 (1, 0, 1 / 2 ^ 30)) / 2) -
      sig_p_det binary32 (1, 0, 1 / 2 ^ 30)\<bar> \<le>
     2 * (1 / 2 ^ 24) * ((sig_p_trace binary32 (1, 0, 1 / 2 ^ 30))\<^sup>2 +
                         4 * \<bar>sig_p_det binary32 (1, 0, 1 / 2 ^ 30)\<bar>) \<and>
   \<bar>fst (two_lmb binary32 (2, 0, 1)) / 2 + snd (two_lmb binary32 (2, 0, 1)) / 2 -
      sig_p_trace binary32 (2, 0, 1)\<bar> \<le>
     1 / 2 ^ 24 * max \<bar>sig_p_trace binary32 (2, 0, 1)\<bar> \<bar>sig_p_sqrt_disc binary32 (2, 0, 1)\<bar>"
proof -
  have u0: "(0 :: real) \<le> 1 / 2 ^ 24" by simp
  have u: "(1 / 2 ^ 24 :: real) \<le> 1 / 16" by simp
  have d1: "0 \<le> sig_p_disc binary32 (1, 0, 1 / 2 ^ 30)" unfolding example_thin by simp
  have d2: "0 \<le> sig_p_disc binary32 (2, 0, 1)" unfolding example_round by simp
  have a1: "eigen_ops_accurate (1 / 2 ^ 24) binary32 (1, 0, 1 / 2 ^ 30)"
    using d1 unfolding binary32_def by (rule ieee_eigen_ops_accurate)
  have a2: "eigen_ops_accurate (1 / 2 ^ 24) binary32 (2, 0, 1)"
    using d2 unfolding binary32_def by (rule ieee_eigen_ops_accurate)
  from eigenvalues_sum_and_product_within_rounding [OF a1 u0 u d1]
    eigenvalues_sum_and_product_within_rounding [OF a2 u0 u d2]
    a1 a2 d1 d2
  show ?thesis by blast
qed

text \<open>
  The claim as stated fails in \<^verbatim>\<open>float\<close> arithmetic. For the covariance with the
  entries \<open>(1, 0, 2\<^sup>-\<^sup>3\<^sup>0)\<close> the discriminant is positive, exactly and as computed,
  and the kernel's \<open>two_lmb\<close> is \<open>(2, 0)\<close>: the eigenvalues 1 and 0 sum to 1, not to
  \<open>1 + 2\<^sup>-\<^sup>3\<^sup>0\<close>, and multiply to 0, not to \<open>2\<^sup>-\<^sup>3\<^sup>0\<close>, which is also the kernel's
  \<^verbatim>\<open>det\<close>. For the entries \<open>(1, 0, 1 + 2\<^sup>-\<^sup>2\<^sup>3)\<close> the exact discriminant is positive
  and the computed one negative, so that the kernel's square root is NaN.
\<close>

theorem eigenvalues_not_exact_in_float32:
  "(0 :: real) < (1 + 1 / 2 ^ 30)\<^sup>2 - 4 * (1 * (1 / 2 ^ 30) - 0\<^sup>2) \<and>
   0 < sig_p_disc binary32 (1, 0, 1 / 2 ^ 30) \<and>
   two_lmb binary32 (1, 0, 1 / 2 ^ 30) = (2, 0) \<and>
   fst (two_lmb binary32 (1, 0, 1 / 2 ^ 30)) / 2 + snd (two_lmb binary32 (1, 0, 1 / 2 ^ 30)) / 2
     \<noteq> 1 + 1 / 2 ^ 30 \<and>
   fst (two_lmb binary32 (1, 0, 1 / 2 ^ 30)) / 2 * (snd (two_lmb binary32 (1, 0, 1 / 2 ^ 30)) / 2)
     \<noteq> 1 * (1 / 2 ^ 30) - 0\<^sup>2 \<and>
   fst (two_lmb binary32 (1, 0, 1 / 2 ^ 30)) / 2 * (snd (two_lmb binary32 (1, 0, 1 / 2 ^ 30)) / 2)
     \<noteq> sig_p_det binary32 (1, 0, 1 / 2 ^ 30) \<and>
   (0 :: real) < (1 + (1 + 1 / 2 ^ 23))\<^sup>2 - 4 * (1 * (1 + 1 / 2 ^ 23) - 0\<^sup>2) \<and>
   sig_p_disc binary32 (1, 0, 1 + 1 / 2 ^ 23) < 0"
  unfolding example_thin example_close by (simp add: power2_eq_square)

subsection \<open>A projected covariance that is diagonal\<close>

lemma half_value_one: "half_value 0x3C00 = 1"
  by (simp add: half_value_def Let_def bit_iff_odd drop_bit_eq_div)

lemma half_value_zero: "half_value 0 = 0"
  by (simp add: half_value_def)

text \<open>
  A scene of one splat on the view axis at the distance 1, seen through identity
  matrices, whose packed covariance has the only non-zero entry \<open>xx = 1\<close>: its
  projected covariance is \<open>(1, 0, 0)\<close>.
\<close>

lemma example_unpack_cov_mat:
  "unpack_cov_mat (0, 0x78000000) = ((1, 0, 0), (0, 0, 0), (0, 0, 0))"
  by (simp add: unpack_cov_mat_def unpack_f16_def hlsl_shl_def hlsl_shr_def f16tof32_def
      Let_def half_value_one half_value_zero)

lemma example_transform_pos_view:
  "transform_pos_view
      \<lparr>local_to_view = ((1, 0, 0, 0), (0, 1, 0, 0), (0, 0, 1, 0), (0, 0, 0, 1)),
       local_to_clip = lc, local_to_world = lw, two_focal_length = tf, num_splats = n,
       pos_scale_cm = (1, 1, 1), pos_min_cm = (0, 0, 1), world_to_clip = wc,
       get_render_resolution = rr\<rparr>
      \<lparr>positions = [0], covariances = cv, transforms = tr,
       indices = ix, distances = ds, colors = cs\<rparr> 0 = (0, 0, 1)"
  by (simp add: transform_pos_view_def buf_read_def unpack_unorm_0)

lemma example_transform_sig_p:
  "transform_sig_p
      \<lparr>local_to_view = ((1, 0, 0, 0), (0, 1, 0, 0), (0, 0, 1, 0), (0, 0, 0, 1)),
       local_to_clip = lc, local_to_world = lw, two_focal_length = tf, num_splats = n,
       pos_scale_cm = (1, 1, 1), pos_min_cm = (0, 0, 1), world_to_clip = wc,
       get_render_resolution = rr\<rparr>
      \<lparr>positions = [0], covariances = [(0, 0x78000000)], transforms = tr,
       indices = ix, distances = ds, colors = cs\<rparr> 0 = (1, 0, 0)"
  by (simp add: transform_sig_p_def example_transform_pos_view buf_read_def
      example_unpack_cov_mat)

lemma example_diagonal:
  "sig_p_disc binary32 (1, 0, 0) = 1"
  "two_lmb binary32 (1, 0, 0) = (2, 0)"
  by (simp_all add: two_lmb_def sig_p_sqrt_disc_def sig_p_disc_def binary32_def ieee_def Let_def
      float32_0 float32_1 float32_2)

text \<open>
  For this splat the eigenvector \<^verbatim>\<open>float2(sig_p_01_10, two_lmb.x / 2.f - sig_p_00)\<close>
  is the zero vector, as for every diagonal covariance with
  \<open>sig_p_00 \<ge> sig_p_11\<close>: \<^verbatim>\<open>normalize\<close> gives NaN and the kernel writes no vector
  of numbers to \<open>transforms\<close>.
\<close>

theorem diagonal_covariance_transform_is_not_a_number:
  "main_transform
      \<lparr>local_to_view = ((1, 0, 0, 0), (0, 1, 0, 0), (0, 0, 1, 0), (0, 0, 0, 1)),
       local_to_clip = ((1, 0, 0, 0), (0, 1, 0, 0), (0, 0, 1, 0), (0, 0, 0, 1)),
       local_to_world = ((1, 0, 0, 0), (0, 1, 0, 0), (0, 0, 1, 0), (0, 0, 0, 1)),
       two_focal_length = (1, 1), num_splats = 1, pos_scale_cm = (1, 1, 1),
       pos_min_cm = (0, 0, 1), world_to_clip = (\<lambda>p. (0, 0, 0, 1)),
       get_render_resolution = (1, 1)\<rparr>
      \<lparr>positions = [0], covariances = [(0, 0x78000000)], transforms = [(0, 0, 0, 0)],
       indices = [0], distances = [0], colors = [(0, 0, 0, 0)]\<rparr> 0 = None"
  by (simp add: main_transform_def transform_value_def example_transform_pos_view
      example_transform_sig_p example_diagonal)

subsection \<open>Gaussian evaluation\<close>

lemma alpha_main_ps:
  "alpha (main_ps ar v col) =
     (if f_dot2 ar v v < 4 then f_div ar (alpha col) (f_exp ar (f_dot2 ar v v)) else 0)"
  by (cases col) (simp add: cutoff_4)

lemma rgb_main_ps: "rgb (main_ps ar v col) = rgb col"
  by (cases col) (simp add: Let_def)

text \<open>
  C5, as the code has it. Let the arithmetic of the shader keep the order where the
  shader computes (\<open>order_preserving\<close>). The RGB channels pass through unchanged. The output alpha is
  0 whenever \<open>dot(sig_div_sqrt_2, sig_div_sqrt_2)\<close>, as the shader computes it, is
  at least the cutoff. It equals the base alpha when the distance vector is
  \<open>(0, 0)\<close>, for a base alpha that is a value of the format (dividing it by 1 returns
  it). For a base alpha that is not negative the output alpha does not increase as the
  computed squared distance grows.
\<close>

theorem gaussian_alpha:
  assumes "order_preserving ar"
  shows "rgb (main_ps ar v col) = rgb col \<and>
   (CUTOFF_RADIUS_SIGMA_SQUARED_OVER_2 \<le> f_dot2 ar v v \<longrightarrow> alpha (main_ps ar v col) = 0) \<and>
   (f_div ar (alpha col) 1 = alpha col \<longrightarrow> alpha (main_ps ar (0, 0) col) = alpha col) \<and>
   (0 \<le> alpha col \<and> f_dot2 ar v v \<le> f_dot2 ar w w \<longrightarrow>
      alpha (main_ps ar w col) \<le> alpha (main_ps ar v col))"
proof (intro conjI impI)
  have zero: "f_dot2 ar (0, 0) (0, 0) = 0"
    using assms unfolding order_preserving_def by simp
  have one: "f_exp ar 0 = 1"
    and dot: "\<And>v. 0 \<le> f_dot2 ar v v"
    and mono: "\<And>x y. 0 \<le> x \<Longrightarrow> x \<le> y \<Longrightarrow> y < 4 \<Longrightarrow> f_exp ar x \<le> f_exp ar y"
    and nonneg: "\<And>a x. 0 \<le> a \<Longrightarrow> 1 \<le> x \<Longrightarrow> 0 \<le> f_div ar a x"
    and anti: "\<And>a x y. 0 \<le> a \<Longrightarrow> 1 \<le> x \<Longrightarrow> x \<le> y \<Longrightarrow> f_div ar a y \<le> f_div ar a x"
    using assms unfolding order_preserving_def cutoff_4 by blast+
  have ge1: "1 \<le> f_exp ar (f_dot2 ar v v)" if "f_dot2 ar v v < 4" for v
    using mono[of 0 "f_dot2 ar v v"] dot[of v] that by (simp add: one)
  show "rgb (main_ps ar v col) = rgb col" by (rule rgb_main_ps)
  {
    assume "CUTOFF_RADIUS_SIGMA_SQUARED_OVER_2 \<le> f_dot2 ar v v"
    then show "alpha (main_ps ar v col) = 0" by (simp add: alpha_main_ps cutoff_4)
  }
  {
    assume "f_div ar (alpha col) 1 = alpha col"
    then show "alpha (main_ps ar (0, 0) col) = alpha col"
      unfolding alpha_main_ps zero one by simp
  }
  {
    assume h: "0 \<le> alpha col \<and> f_dot2 ar v v \<le> f_dot2 ar w w"
    show "alpha (main_ps ar w col) \<le> alpha (main_ps ar v col)"
    proof (cases "f_dot2 ar w w < 4")
      case True
      with h have v4: "f_dot2 ar v v < 4" by simp
      have "f_exp ar (f_dot2 ar v v) \<le> f_exp ar (f_dot2 ar w w)"
        using h True by (intro mono dot) simp_all
      then have "f_div ar (alpha col) (f_exp ar (f_dot2 ar w w)) \<le>
          f_div ar (alpha col) (f_exp ar (f_dot2 ar v v))"
        using h ge1[OF v4] by (intro anti) simp_all
      then show ?thesis using True v4 by (simp add: alpha_main_ps)
    next
      case False
      have "0 \<le> f_div ar (alpha col) (f_exp ar (f_dot2 ar v v))" if "f_dot2 ar v v < 4"
        using h ge1[OF that] by (intro nonneg) simp_all
      then show ?thesis using False by (simp add: alpha_main_ps)
    qed
  }
qed

lemma example_dots:
  "f_dot2 binary16 (0, 0) (0, 0) = 0"
  "f_dot2 binary16 (1, 0) (1, 0) = 1"
  "f_dot2 binary16 (2, 1) (2, 1) = 5"
  "f_dot2 binary16 (2, 2) (2, 2) = 8"
  "f_dot2 binary16 (1 / 64, 0) (1 / 64, 0) = 1 / 4096"
  by (simp_all add: binary16_def ieee_def float16_0 float16_1 float16_4 float16_5 float16_8
      float16_2_12)

theorem gaussian_alpha_witness:
  "order_preserving binary16 \<and>
   rgb (main_ps binary16 (2, 2) (1, 1 / 2, 0, 1 / 2)) = (1, 1 / 2, 0) \<and>
   alpha (main_ps binary16 (2, 2) (1, 1 / 2, 0, 1 / 2)) = 0 \<and>
   alpha (main_ps binary16 (0, 0) (1, 1 / 2, 0, 1 / 2)) = 1 / 2 \<and>
   alpha (main_ps binary16 (1, 0) (1, 1 / 2, 0, 1 / 2)) \<le>
     alpha (main_ps binary16 (0, 0) (1, 1 / 2, 0, 1 / 2))"
proof -
  have d: "f_div binary16 (alpha (1, 1 / 2, 0, 1 / 2)) 1 = alpha (1, 1 / 2, 0, 1 / 2)"
    by (simp add: binary16_def ieee_def float16_half)
  have c: "CUTOFF_RADIUS_SIGMA_SQUARED_OVER_2 \<le> f_dot2 binary16 (2, 2) (2, 2)"
    unfolding example_dots by (simp add: cutoff_4)
  have m: "0 \<le> alpha (1, 1 / 2, 0, 1 / 2 :: real) \<and>
      f_dot2 binary16 (0, 0) (0, 0) \<le> f_dot2 binary16 (1, 0) (1, 0)"
    unfolding example_dots by simp
  from gaussian_alpha [OF binary16_order_preserving, of "(2, 2)" "(1, 1 / 2, 0, 1 / 2)" "(2, 2)"]
    gaussian_alpha [OF binary16_order_preserving, of "(0, 0)" "(1, 1 / 2, 0, 1 / 2)" "(1, 0)"]
    d c m binary16_order_preserving
  show ?thesis by simp
qed

text \<open>
  Three pairs of inputs at which the claim as stated fails, in the arithmetic of a
  16-bit \<^verbatim>\<open>half\<close>. With the base alpha 0 the output alpha equals the base alpha at
  the distance vector \<open>(1, 0)\<close>. With the base alpha \<open>1 / 2\<close> it equals the base
  alpha at the distance vector \<open>(1 / 64, 0)\<close>, where \<^verbatim>\<open>exp\<close> of the squared
  distance rounds to 1. With the base alpha 1 it is the same 0 at the squared distances
  5 and 8, at \<open>(2, 1)\<close> on the edge and \<open>(2, 2)\<close> at the corner of the quad.
\<close>

theorem gaussian_alpha_not_as_claimed:
  "(1 :: real, 0 :: real) \<noteq> (0, 0) \<and>
   alpha (main_ps binary16 (1, 0) (1, 1, 1, 0)) = alpha (1, 1, 1, 0) \<and>
   (1 / 64 :: real, 0 :: real) \<noteq> (0, 0) \<and>
   alpha (main_ps binary16 (1 / 64, 0) (1, 1, 1, 1 / 2)) = alpha (1, 1, 1, 1 / 2) \<and>
   f_dot2 binary16 (2, 1) (2, 1) < f_dot2 binary16 (2, 2) (2, 2) \<and>
   alpha (main_ps binary16 (2, 1) (1, 1, 1, 1)) = alpha (main_ps binary16 (2, 2) (1, 1, 1, 1))"
proof -
  have a: "alpha (main_ps binary16 (1, 0) (1, 1, 1, 0)) = alpha (1, 1, 1, 0)"
    unfolding alpha_main_ps example_dots by (simp add: binary16_def ieee_def float16_0)
  have b: "alpha (main_ps binary16 (1 / 64, 0) (1, 1, 1, 1 / 2)) = alpha (1, 1, 1, 1 / 2)"
    unfolding alpha_main_ps example_dots
    by (simp add: binary16_def ieee_def float16_exp_small float16_half)
  have c: "alpha (main_ps binary16 (2, 1) (1, 1, 1, 1)) = alpha (main_ps binary16 (2, 2) (1, 1, 1, 1))"
    unfolding alpha_main_ps example_dots by simp
  show ?thesis using a b c unfolding example_dots by simp
qed

subsection \<open>The two frustum tests\<close>

lemma main_vs_culled_iff:
  "main_vs c b in_id =
     \<lparr>out_sig_div_sqrt_2 = None, out_color = None, out_position = (0, 0, 0, 0)\<rparr>
     \<longleftrightarrow> outside_frustum (vs_pos_clip c b in_id)"
  by (simp add: main_vs_def Let_def)

lemma splat_distance_sentinel_iff:
  "splat_distance p = DISTANCE_NOT_VISIBLE \<longleftrightarrow> outside_frustum p"
proof
  assume eq: "splat_distance p = DISTANCE_NOT_VISIBLE"
  show "outside_frustum p"
  proof (rule ccontr)
    assume "\<not> outside_frustum p"
    from splat_distance_inside [OF this] eq show False by (simp add: sentinel_val)
  qed
qed (rule splat_distance_outside)

text \<open>
  C6, as the code has it. The kernel transforms the unpacked position by
  \<open>local_to_clip\<close>; the vertex shader transforms it by the upper-left 3x3 block of
  \<open>local_to_world\<close> and then by the host's \<open>world_to_clip\<close>. Both apply the same
  frustum test, each to its own clip-space position. For a splat below \<open>num_splats\<close>
  with a slot in \<open>distances\<close> at which the two positions are equal, the vertex
  shader takes the degenerate exit (zero position, nothing else written) if and only if
  the kernel writes the sentinel key for that splat.
\<close>

theorem stages_classify_alike:
  assumes "tid < num_splats c" and "unat tid < length (distances b)"
    and "vs_splat_id b in_id = tid"
    and "vs_pos_clip c b in_id = distance_pos_clip c b tid"
  shows "main_vs c b in_id =
           \<lparr>out_sig_div_sqrt_2 = None, out_color = None, out_position = (0, 0, 0, 0)\<rparr>
         \<longleftrightarrow> distances (main_distance c b tid) ! unat tid = DISTANCE_NOT_VISIBLE"
  using assms
  by (simp add: main_vs_culled_iff distances_main_distance splat_distance_sentinel_iff
      del: splat_distance.simps)

theorem stages_classify_alike_witness:
  "main_vs \<lparr>local_to_view = ((1, 0, 0, 0), (0, 1, 0, 0), (0, 0, 1, 0), (0, 0, 0, 1)),
       local_to_clip = ((1, 0, 0, 0), (0, 1, 0, 0), (0, 0, 1, 0), (2, 0, 0, 1)),
       local_to_world = ((1, 0, 0, 0), (0, 1, 0, 0), (0, 0, 1, 0), (0, 0, 0, 1)),
       two_focal_length = (1, 1), num_splats = 1, pos_scale_cm = (1, 1, 1),
       pos_min_cm = (0, 0, 0), world_to_clip = (\<lambda>p. (2, 0, 0, 1)),
       get_render_resolution = (1, 1)\<rparr> \<lparr>positions = [0], covariances = [(0, 0)], transforms = [(0, 0, 0, 0)],
       indices = [0], distances = [0], colors = [(0, 0, 0, 0)]\<rparr> 4 =
      \<lparr>out_sig_div_sqrt_2 = None, out_color = None, out_position = (0, 0, 0, 0)\<rparr> \<and>
   distances (main_distance \<lparr>local_to_view = ((1, 0, 0, 0), (0, 1, 0, 0), (0, 0, 1, 0), (0, 0, 0, 1)),
       local_to_clip = ((1, 0, 0, 0), (0, 1, 0, 0), (0, 0, 1, 0), (2, 0, 0, 1)),
       local_to_world = ((1, 0, 0, 0), (0, 1, 0, 0), (0, 0, 1, 0), (0, 0, 0, 1)),
       two_focal_length = (1, 1), num_splats = 1, pos_scale_cm = (1, 1, 1),
       pos_min_cm = (0, 0, 0), world_to_clip = (\<lambda>p. (2, 0, 0, 1)),
       get_render_resolution = (1, 1)\<rparr> \<lparr>positions = [0], covariances = [(0, 0)], transforms = [(0, 0, 0, 0)],
       indices = [0], distances = [0], colors = [(0, 0, 0, 0)]\<rparr> 0) ! unat (0 :: uint) = DISTANCE_NOT_VISIBLE"
proof -
  have 1: "0 < num_splats \<lparr>local_to_view = ((1, 0, 0, 0), (0, 1, 0, 0), (0, 0, 1, 0), (0, 0, 0, 1)),
       local_to_clip = ((1, 0, 0, 0), (0, 1, 0, 0), (0, 0, 1, 0), (2, 0, 0, 1)),
       local_to_world = ((1, 0, 0, 0), (0, 1, 0, 0), (0, 0, 1, 0), (0, 0, 0, 1)),
       two_focal_length = (1, 1), num_splats = 1, pos_scale_cm = (1, 1, 1),
       pos_min_cm = (0, 0, 0), world_to_clip = (\<lambda>p. (2, 0, 0, 1)),
       get_render_resolution = (1, 1)\<rparr>"
    by simp
  have 2: "unat (0 :: uint) < length (distances \<lparr>positions = [0], covariances = [(0, 0)], transforms = [(0, 0, 0, 0)],
       indices = [0], distances = [0], colors = [(0, 0, 0, 0)]\<rparr>)"
    by simp
  have 3: "vs_splat_id \<lparr>positions = [0], covariances = [(0, 0)], transforms = [(0, 0, 0, 0)],
       indices = [0], distances = [0], colors = [(0, 0, 0, 0)]\<rparr> 4 = 0"
    by (simp add: vs_splat_id_def buf_read_def)
  have 4: "vs_pos_clip \<lparr>local_to_view = ((1, 0, 0, 0), (0, 1, 0, 0), (0, 0, 1, 0), (0, 0, 0, 1)),
       local_to_clip = ((1, 0, 0, 0), (0, 1, 0, 0), (0, 0, 1, 0), (2, 0, 0, 1)),
       local_to_world = ((1, 0, 0, 0), (0, 1, 0, 0), (0, 0, 1, 0), (0, 0, 0, 1)),
       two_focal_length = (1, 1), num_splats = 1, pos_scale_cm = (1, 1, 1),
       pos_min_cm = (0, 0, 0), world_to_clip = (\<lambda>p. (2, 0, 0, 1)),
       get_render_resolution = (1, 1)\<rparr> \<lparr>positions = [0], covariances = [(0, 0)], transforms = [(0, 0, 0, 0)],
       indices = [0], distances = [0], colors = [(0, 0, 0, 0)]\<rparr> 4 =
    distance_pos_clip \<lparr>local_to_view = ((1, 0, 0, 0), (0, 1, 0, 0), (0, 0, 1, 0), (0, 0, 0, 1)),
       local_to_clip = ((1, 0, 0, 0), (0, 1, 0, 0), (0, 0, 1, 0), (2, 0, 0, 1)),
       local_to_world = ((1, 0, 0, 0), (0, 1, 0, 0), (0, 0, 1, 0), (0, 0, 0, 1)),
       two_focal_length = (1, 1), num_splats = 1, pos_scale_cm = (1, 1, 1),
       pos_min_cm = (0, 0, 0), world_to_clip = (\<lambda>p. (2, 0, 0, 1)),
       get_render_resolution = (1, 1)\<rparr> \<lparr>positions = [0], covariances = [(0, 0)], transforms = [(0, 0, 0, 0)],
       indices = [0], distances = [0], colors = [(0, 0, 0, 0)]\<rparr> 0"
    by (simp add: example_distance_pos_clip example_vs_pos_clip)
  have 5: "distances (main_distance \<lparr>local_to_view = ((1, 0, 0, 0), (0, 1, 0, 0), (0, 0, 1, 0), (0, 0, 0, 1)),
       local_to_clip = ((1, 0, 0, 0), (0, 1, 0, 0), (0, 0, 1, 0), (2, 0, 0, 1)),
       local_to_world = ((1, 0, 0, 0), (0, 1, 0, 0), (0, 0, 1, 0), (0, 0, 0, 1)),
       two_focal_length = (1, 1), num_splats = 1, pos_scale_cm = (1, 1, 1),
       pos_min_cm = (0, 0, 0), world_to_clip = (\<lambda>p. (2, 0, 0, 1)),
       get_render_resolution = (1, 1)\<rparr> \<lparr>positions = [0], covariances = [(0, 0)], transforms = [(0, 0, 0, 0)],
       indices = [0], distances = [0], colors = [(0, 0, 0, 0)]\<rparr> 0) ! unat (0 :: uint) = DISTANCE_NOT_VISIBLE"
    by (simp add: distances_main_distance example_distance_pos_clip)
  from stages_classify_alike [OF 1 2 3 4] 5 show ?thesis
    by blast
qed

text \<open>
  A scene where the claim as stated fails: \<open>local_to_world\<close> translates by
  \<open>(5, 0, 0)\<close>, \<open>world_to_clip\<close> maps a world position \<open>p\<close> to \<open>(p, 1)\<close>, and
  \<open>local_to_clip\<close> is their composite. The kernel's clip-space position keeps the
  translation and is outside the frustum; the vertex shader's drops it with the 3x3 cast
  and is inside, so the sentinel key meets a vertex that is not degenerate.
\<close>

theorem stages_disagree_on_translation:
  "distance_pos_clip \<lparr>local_to_view = ((1, 0, 0, 0), (0, 1, 0, 0), (0, 0, 1, 0), (0, 0, 0, 1)),
       local_to_clip = ((1, 0, 0, 0), (0, 1, 0, 0), (0, 0, 1, 0), (5, 0, 0, 1)),
       local_to_world = ((1, 0, 0, 0), (0, 1, 0, 0), (0, 0, 1, 0), (5, 0, 0, 1)),
       two_focal_length = (1, 1), num_splats = 1, pos_scale_cm = (1, 1, 1),
       pos_min_cm = (0, 0, 0), world_to_clip = (\<lambda>(x, y, z). (x, y, z, 1)),
       get_render_resolution = (1, 1)\<rparr> \<lparr>positions = [0], covariances = [(0, 0)], transforms = [(0, 0, 0, 0)],
       indices = [0], distances = [0], colors = [(0, 0, 0, 0)]\<rparr> 0 = (5, 0, 0, 1) \<and>
   vs_pos_clip \<lparr>local_to_view = ((1, 0, 0, 0), (0, 1, 0, 0), (0, 0, 1, 0), (0, 0, 0, 1)),
       local_to_clip = ((1, 0, 0, 0), (0, 1, 0, 0), (0, 0, 1, 0), (5, 0, 0, 1)),
       local_to_world = ((1, 0, 0, 0), (0, 1, 0, 0), (0, 0, 1, 0), (5, 0, 0, 1)),
       two_focal_length = (1, 1), num_splats = 1, pos_scale_cm = (1, 1, 1),
       pos_min_cm = (0, 0, 0), world_to_clip = (\<lambda>(x, y, z). (x, y, z, 1)),
       get_render_resolution = (1, 1)\<rparr> \<lparr>positions = [0], covariances = [(0, 0)], transforms = [(0, 0, 0, 0)],
       indices = [0], distances = [0], colors = [(0, 0, 0, 0)]\<rparr> 0 = (0, 0, 0, 1) \<and>
   distances (main_distance \<lparr>local_to_view = ((1, 0, 0, 0), (0, 1, 0, 0), (0, 0, 1, 0), (0, 0, 0, 1)),
       local_to_clip = ((1, 0, 0, 0), (0, 1, 0, 0), (0, 0, 1, 0), (5, 0, 0, 1)),
       local_to_world = ((1, 0, 0, 0), (0, 1, 0, 0), (0, 0, 1, 0), (5, 0, 0, 1)),
       two_focal_length = (1, 1), num_splats = 1, pos_scale_cm = (1, 1, 1),
       pos_min_cm = (0, 0, 0), world_to_clip = (\<lambda>(x, y, z). (x, y, z, 1)),
       get_render_resolution = (1, 1)\<rparr> \<lparr>positions = [0], covariances = [(0, 0)], transforms = [(0, 0, 0, 0)],
       indices = [0], distances = [0], colors = [(0, 0, 0, 0)]\<rparr> 0) = [DISTANCE_NOT_VISIBLE] \<and>
   out_position (main_vs \<lparr>local_to_view = ((1, 0, 0, 0), (0, 1, 0, 0), (0, 0, 1, 0), (0, 0, 0, 1)),
       local_to_clip = ((1, 0, 0, 0), (0, 1, 0, 0), (0, 0, 1, 0), (5, 0, 0, 1)),
       local_to_world = ((1, 0, 0, 0), (0, 1, 0, 0), (0, 0, 1, 0), (5, 0, 0, 1)),
       two_focal_length = (1, 1), num_splats = 1, pos_scale_cm = (1, 1, 1),
       pos_min_cm = (0, 0, 0), world_to_clip = (\<lambda>(x, y, z). (x, y, z, 1)),
       get_render_resolution = (1, 1)\<rparr> \<lparr>positions = [0], covariances = [(0, 0)], transforms = [(0, 0, 0, 0)],
       indices = [0], distances = [0], colors = [(0, 0, 0, 0)]\<rparr> 0) = (0, 0, 0, 1)"
proof -
  have v: "vs_pos_clip \<lparr>local_to_view = ((1, 0, 0, 0), (0, 1, 0, 0), (0, 0, 1, 0), (0, 0, 0, 1)),
       local_to_clip = ((1, 0, 0, 0), (0, 1, 0, 0), (0, 0, 1, 0), (5, 0, 0, 1)),
       local_to_world = ((1, 0, 0, 0), (0, 1, 0, 0), (0, 0, 1, 0), (5, 0, 0, 1)),
       two_focal_length = (1, 1), num_splats = 1, pos_scale_cm = (1, 1, 1),
       pos_min_cm = (0, 0, 0), world_to_clip = (\<lambda>(x, y, z). (x, y, z, 1)),
       get_render_resolution = (1, 1)\<rparr> \<lparr>positions = [0], covariances = [(0, 0)], transforms = [(0, 0, 0, 0)],
       indices = [0], distances = [0], colors = [(0, 0, 0, 0)]\<rparr> 0 = (0, 0, 0, 1)"
    by (simp add: vs_pos_clip_def vs_splat_id_def buf_read_def unpack_unorm_0)
  have o: "out_position (main_vs \<lparr>local_to_view = ((1, 0, 0, 0), (0, 1, 0, 0), (0, 0, 1, 0), (0, 0, 0, 1)),
       local_to_clip = ((1, 0, 0, 0), (0, 1, 0, 0), (0, 0, 1, 0), (5, 0, 0, 1)),
       local_to_world = ((1, 0, 0, 0), (0, 1, 0, 0), (0, 0, 1, 0), (5, 0, 0, 1)),
       two_focal_length = (1, 1), num_splats = 1, pos_scale_cm = (1, 1, 1),
       pos_min_cm = (0, 0, 0), world_to_clip = (\<lambda>(x, y, z). (x, y, z, 1)),
       get_render_resolution = (1, 1)\<rparr> \<lparr>positions = [0], covariances = [(0, 0)], transforms = [(0, 0, 0, 0)],
       indices = [0], distances = [0], colors = [(0, 0, 0, 0)]\<rparr> 0) = (0, 0, 0, 1)"
    by (simp add: main_vs_def v vs_splat_id_def buf_read_def Let_def corners_def)
  have d: "distances (main_distance \<lparr>local_to_view = ((1, 0, 0, 0), (0, 1, 0, 0), (0, 0, 1, 0), (0, 0, 0, 1)),
       local_to_clip = ((1, 0, 0, 0), (0, 1, 0, 0), (0, 0, 1, 0), (5, 0, 0, 1)),
       local_to_world = ((1, 0, 0, 0), (0, 1, 0, 0), (0, 0, 1, 0), (5, 0, 0, 1)),
       two_focal_length = (1, 1), num_splats = 1, pos_scale_cm = (1, 1, 1),
       pos_min_cm = (0, 0, 0), world_to_clip = (\<lambda>(x, y, z). (x, y, z, 1)),
       get_render_resolution = (1, 1)\<rparr> \<lparr>positions = [0], covariances = [(0, 0)], transforms = [(0, 0, 0, 0)],
       indices = [0], distances = [0], colors = [(0, 0, 0, 0)]\<rparr> 0) = [DISTANCE_NOT_VISIBLE]"
    by (simp add: distances_main_distance example_distance_pos_clip)
  show ?thesis
    using v o d by (simp add: example_distance_pos_clip)
qed

subsection \<open>Half-float extraction\<close>

lemma unat_shift:
  fixes e m :: uint
  assumes "unat e + unat m \<le> 15"
  shows "unat (15 - e - m) = 15 - (unat e + unat m)"
proof -
  have e: "e \<le> 15" using assms by (simp add: word_le_nat_alt)
  then have 1: "unat (15 - e) = 15 - unat e" by (simp add: unat_sub)
  have "m \<le> 15 - e" using assms 1 by (simp add: word_le_nat_alt)
  then have "unat (15 - e - m) = unat (15 - e) - unat m" by (simp add: unat_sub)
  with 1 show ?thesis by simp
qed

lemma unat_field_width:
  fixes s e m :: uint
  assumes "unat s \<le> 1" "unat e + unat m \<le> 15"
  shows "unat (s + e + m) = unat s + unat e + unat m"
proof -
  have "unat (s + e) = unat s + unat e"
    using assms by (subst unat_add_lem[THEN iffD1]) auto
  moreover have "unat (s + e + m) = unat (s + e) + unat m"
    using assms calculation by (subst unat_add_lem[THEN iffD1]) auto
  ultimately show ?thesis by simp
qed

lemma field_mask_eq:
  fixes s e m :: uint
  assumes "unat s \<le> 1" "unat e + unat m \<le> 15"
  shows "field_mask s e m =
    push_bit (15 - (unat e + unat m)) (mask (unat s + unat e + unat m))"
proof -
  have "(unat s + unat e + unat m) mod 32 = unat s + unat e + unat m"
       "(15 - (unat e + unat m)) mod 32 = 15 - (unat e + unat m)" using assms by auto
  then show ?thesis
    by (simp add: field_mask_def hlsl_shl_def unat_shift[OF assms(2)] unat_field_width[OF assms]
        mask_eq_exp_minus_1)
qed

lemma single_shift_eq:
  fixes e m offset :: uint
  assumes "unat e + unat m \<le> 15" "unat offset < 32"
  shows "single_shift e m packed offset =
    (if unat offset < 15 - (unat e + unat m)
     then push_bit (15 - (unat e + unat m) - unat offset) packed
     else drop_bit (unat offset - (15 - (unat e + unat m))) packed)"
proof (cases "offset < 15 - e - m")
  case True
  then have lt: "unat offset < 15 - (unat e + unat m)"
    by (simp add: word_less_nat_alt unat_shift[OF assms(1)])
  from True have "unat (15 - e - m - offset) = unat (15 - e - m) - unat offset"
    by (simp add: unat_sub)
  then have "unat (15 - e - m - offset) = 15 - (unat e + unat m) - unat offset"
    by (simp add: unat_shift[OF assms(1)])
  moreover have "(15 - (unat e + unat m) - unat offset) mod 32 =
      15 - (unat e + unat m) - unat offset"
    by simp
  ultimately show ?thesis using True lt by (simp add: single_shift_def hlsl_shl_def)
next
  case False
  then have ge: "\<not> unat offset < 15 - (unat e + unat m)"
    by (simp add: word_less_nat_alt unat_shift[OF assms(1)])
  from False have "unat (offset - (15 - e - m)) = unat offset - unat (15 - e - m)"
    by (simp add: unat_sub)
  then have "unat (offset - (15 - e - m)) = unat offset - (15 - (unat e + unat m))"
    by (simp add: unat_shift[OF assms(1)])
  moreover have "(unat offset - (15 - (unat e + unat m))) mod 32 =
      unat offset - (15 - (unat e + unat m))"
    using assms(2) by simp
  ultimately show ?thesis using False ge by (simp add: single_shift_def hlsl_shr_def)
qed

lemma masked_extraction_canonical:
  fixes s e m offset :: uint
  assumes "unat s \<le> 1" "unat e + unat m \<le> 15" "unat offset < 32"
  shows "masked_extraction s e m packed offset = canonical_half_pattern s e m packed offset"
  unfolding masked_extraction_def canonical_half_pattern_def f16tof32_def
    field_mask_eq[OF assms(1,2)] single_shift_eq[OF assms(2,3)]
  by (rule bit_word_eqI) (use assms in \<open>auto simp: bit_simps ac_simps\<close>)

lemma mask_free_eq_masked:
  fixes e m :: uint
  assumes "unat e + unat m \<le> 15"
  shows "shift_only_extraction e m packed 0 = masked_extraction 1 e m packed 0"
proof -
  have s1: "unat (1 :: uint) \<le> 1" and o: "unat (0 :: uint) < 32" by simp_all
  show ?thesis
    unfolding shift_only_extraction_def masked_extraction_def f16tof32_def
      field_mask_eq[OF s1 assms] single_shift_eq[OF assms o]
    by (rule bit_word_eqI) (use assms in \<open>auto simp: bit_simps\<close>)
qed

lemma unpack_f16_cases:
  "unpack_f16 s e m packed offset =
     (if s = 1 \<and> offset = 0 then shift_only_extraction e m packed offset
      else masked_extraction s e m packed offset)"
proof (cases "s = 1 \<and> offset = 0")
  case True
  have "hlsl_shl packed (15 - e - m) = single_shift e m packed 0"
    by (cases "15 - e - m = 0") (simp_all add: single_shift_def hlsl_shl_def hlsl_shr_def word_gt_0)
  with True show ?thesis
    by (simp add: unpack_f16_def shift_only_extraction_def Let_def)
next
  case False
  then show ?thesis
    by (auto simp: unpack_f16_def masked_extraction_def single_shift_def field_mask_def Let_def)
qed

lemma mask_needed_unsigned:
  fixes e m :: uint
  assumes "unat e + unat m \<le> 15"
  shows "shift_only_extraction e m (push_bit (unat e + unat m) 1) 0 = 0x8000"
    and "masked_extraction 0 e m (push_bit (unat e + unat m) 1) 0 = 0"
proof -
  have o: "unat (0 :: uint) < 32" by simp
  have s: "single_shift e m (push_bit (unat e + unat m) 1) 0 = push_bit 15 1"
  proof (cases "unat e + unat m = 15")
    case True
    then show ?thesis by (simp add: single_shift_eq[OF assms o] del: push_bit_of_1)
  next
    case False
    with assms show ?thesis
      by (simp add: single_shift_eq[OF assms o] push_bit_push_bit del: push_bit_of_1)
  qed
  show "shift_only_extraction e m (push_bit (unat e + unat m) 1) 0 = 0x8000"
    unfolding shift_only_extraction_def s f16tof32_def by simp
  show "masked_extraction 0 e m (push_bit (unat e + unat m) 1) 0 = 0"
    unfolding masked_extraction_def s f16tof32_def field_mask_eq[OF _ assms, of 0, simplified]
    by (rule bit_word_eqI) (use assms in \<open>auto simp: bit_simps simp del: push_bit_of_1\<close>)
qed

text \<open>
  C3, as the code has it. For a field of \<open>s \<le> 1\<close> sign bits, \<open>e + m \<le> 15\<close> exponent
  and significand bits at an offset below 32, \<open>unpack_f16\<close> returns the canonical half
  bit pattern, as the masked extraction does. It is the single shift without a mask
  exactly when the field has a sign bit and starts at offset 0, and there the single
  shift gives the same pattern as the masked extraction; in every other case it is the
  masked extraction. For a field with no sign bit at offset 0 some packed word makes
  the single shift differ from the masked extraction.
\<close>

theorem unpack_f16_single_shift_iff_signed_at_0:
  assumes "unat s \<le> 1" and "unat e + unat m \<le> 15" and "unat offset < 32"
  shows "unpack_f16 s e m packed offset = canonical_half_pattern s e m packed offset \<and>
         masked_extraction s e m packed offset = canonical_half_pattern s e m packed offset \<and>
         (s = 1 \<and> offset = 0 \<longrightarrow>
            unpack_f16 s e m packed offset = shift_only_extraction e m packed offset \<and>
            shift_only_extraction e m packed offset = masked_extraction s e m packed offset) \<and>
         (\<not> (s = 1 \<and> offset = 0) \<longrightarrow>
            unpack_f16 s e m packed offset = masked_extraction s e m packed offset) \<and>
         (s = 0 \<and> offset = 0 \<longrightarrow>
            (\<exists>w. shift_only_extraction e m w offset \<noteq> masked_extraction s e m w offset))"
proof -
  have can: "masked_extraction s e m packed offset = canonical_half_pattern s e m packed offset"
    by (rule masked_extraction_canonical[OF assms])
  have free: "s = 1 \<and> offset = 0 \<Longrightarrow>
      shift_only_extraction e m packed offset = masked_extraction s e m packed offset"
    using mask_free_eq_masked[OF assms(2)] by simp
  have need: "s = 0 \<and> offset = 0 \<Longrightarrow>
      \<exists>w. shift_only_extraction e m w offset \<noteq> masked_extraction s e m w offset"
  proof -
    assume h: "s = 0 \<and> offset = 0"
    have "shift_only_extraction e m (push_bit (unat e + unat m) 1) 0 \<noteq>
          masked_extraction 0 e m (push_bit (unat e + unat m) 1) 0"
      unfolding mask_needed_unsigned[OF assms(2)] by simp
    with h show ?thesis by auto
  qed
  show ?thesis
    using can free need by (auto simp: unpack_f16_cases)
qed

theorem unpack_f16_single_shift_iff_signed_at_0_witness:
  "unat (1 :: uint) \<le> 1 \<and> unat (5 :: uint) + unat (5 :: uint) \<le> 15 \<and> unat (0 :: uint) < 32 \<and>
   unpack_f16 1 5 5 0xFFFFFFFF 0 = canonical_half_pattern 1 5 5 0xFFFFFFFF 0 \<and>
   unpack_f16 1 5 5 0xFFFFFFFF 0 = shift_only_extraction 5 5 0xFFFFFFFF 0 \<and>
   shift_only_extraction 5 5 0xFFFFFFFF 0 = masked_extraction 1 5 5 0xFFFFFFFF 0"
proof -
  have h: "unat (1 :: uint) \<le> 1" "unat (5 :: uint) + unat (5 :: uint) \<le> 15"
    "unat (0 :: uint) < 32"
    by simp_all
  from unpack_f16_single_shift_iff_signed_at_0 [OF h, of "0xFFFFFFFF"] h
  show ?thesis by simp
qed

text \<open>
  The claim as stated fails both ways. The field \<open>zz\<close> of the covariance has no sign
  bit and starts at offset 0: on the packed word \<open>0x800\<close>, whose bit 11 belongs to the
  next field, the single shift gives the pattern \<open>0x8000\<close>, while the masked extraction,
  the canonical pattern and \<open>unpack_f16\<close> give 0. The field \<open>xz\<close> has a sign bit and
  starts at offset 0: on the packed word of all ones the single shift gives the same
  pattern as the masked extraction.
\<close>

theorem single_shift_wrong_for_unsigned_at_0:
  "shift_only_extraction 5 6 0x800 0 = 0x8000 \<and>
   masked_extraction 0 5 6 0x800 0 = 0 \<and>
   canonical_half_pattern 0 5 6 0x800 0 = 0 \<and>
   unpack_f16 0 5 6 0x800 0 = 0 \<and>
   shift_only_extraction 5 5 0xFFFFFFFF 0 = masked_extraction 1 5 5 0xFFFFFFFF 0"
  by (simp add: shift_only_extraction_def masked_extraction_def canonical_half_pattern_def
      single_shift_def field_mask_def unpack_f16_def hlsl_shl_def hlsl_shr_def f16tof32_def
      Let_def)

section \<open>Properties of the importer\<close>

subsection \<open>Lines and tokens\<close>

lemma pop_line_complete:
  assumes "LF \<notin> set a"
  shows "pop_line (a @ LF # t) =
    (if dropWhile ws a = [] then (None, a @ LF # t) else (Some (trim a), t))"
proof -
  have "takeWhile (\<lambda>c. c \<noteq> LF) (a @ LF # t) = a"
    using assms by (induction a) auto
  then show ?thesis by (simp add: pop_line_def trim_def Let_def)
qed

lemma strip_split:
  "\<exists>W. D = rev (dropWhile P (rev D)) @ W \<and> (\<forall>c\<in>set W. P c)"
proof -
  have "rev D = takeWhile P (rev D) @ dropWhile P (rev D)" by simp
  then have "D = rev (dropWhile P (rev D)) @ rev (takeWhile P (rev D))"
    by (metis rev_append rev_rev_ident)
  moreover have "\<forall>c\<in>set (rev (takeWhile P (rev D))). P c"
    by (auto dest: set_takeWhileD)
  ultimately show ?thesis by blast
qed

lemma strip_last:
  "rev (dropWhile P (rev D)) \<noteq> [] \<Longrightarrow> \<not> P (last (rev (dropWhile P (rev D))))"
  by (simp add: last_rev hd_dropWhile)

lemma takeWhile_append_ws:
  assumes "\<forall>c\<in>set W. \<not> Q c"
  shows "takeWhile Q (T @ W) = takeWhile Q T"
proof (cases "\<forall>x\<in>set T. Q x")
  case True
  have w: "takeWhile Q W = []" using assms by (cases W) auto
  have "takeWhile Q (T @ W) = T @ takeWhile Q W" using True by (simp add: takeWhile_append2)
  also have "\<dots> = T" using w by simp
  also have "T = takeWhile Q T" using True by (simp add: takeWhile_eq_all_conv [THEN iffD2])
  finally show ?thesis .
next
  case False
  then obtain x where "x \<in> set T" "\<not> Q x" by blast
  then show ?thesis by (rule takeWhile_append1)
qed

lemma dropWhile_append_ws:
  assumes "\<forall>c\<in>set W. \<not> Q c"
  shows "dropWhile Q (T @ W) = dropWhile Q T @ W"
proof (cases "\<forall>x\<in>set T. Q x")
  case True
  then have "dropWhile Q T = []" by simp
  moreover have "dropWhile Q W = W" using assms by (cases W) auto
  ultimately show ?thesis using True by (simp add: dropWhile_append2)
next
  case False
  then obtain x where "x \<in> set T" "\<not> Q x" by blast
  then show ?thesis by (rule dropWhile_append1)
qed

lemma last_dropWhile: "dropWhile P xs \<noteq> [] \<Longrightarrow> last (dropWhile P xs) = last xs"
  by (induction xs) (auto split: if_splits)

lemma trim_facts:
  assumes "dropWhile ws a \<noteq> []"
  shows "trimmed (trim a)"
    and "\<exists>W. dropWhile ws a = trim a @ W \<and> (\<forall>c\<in>set W. ws c)"
proof -
  let ?D = "dropWhile ws a"
  obtain W where W: "?D = trim a @ W" "\<forall>c\<in>set W. ws c"
    using strip_split[of ?D ws] unfolding trim_def by blast
  show "\<exists>W. dropWhile ws a = trim a @ W \<and> (\<forall>c\<in>set W. ws c)" using W by blast
  have hdD: "\<not> ws (hd ?D)" using assms by (rule hd_dropWhile)
  have ne: "trim a \<noteq> []"
  proof
    assume "trim a = []"
    with W have "\<forall>c\<in>set ?D. ws c" by simp
    with assms hdD show False by (cases ?D) auto
  qed
  then have "hd (trim a) = hd ?D" using W by (metis hd_append2)
  moreover have "\<not> ws (last (trim a))" using ne unfolding trim_def by (rule strip_last)
  ultimately show "trimmed (trim a)" using ne hdD by (simp add: trimmed_def)
qed

lemma trimmed_dropWhile: "trimmed L \<Longrightarrow> dropWhile ws L = L"
  by (cases L) (auto simp: trimmed_def)

lemma first_token_trim:
  assumes "dropWhile ws a \<noteq> []"
  shows "first_token (trim a) = first_token a"
proof -
  obtain W where W: "dropWhile ws a = trim a @ W" "\<forall>c\<in>set W. ws c"
    using trim_facts(2)[OF assms] by blast
  have "first_token a = takeWhile nws (trim a @ W)" by (simp add: first_token_def W)
  also have "\<dots> = takeWhile nws (trim a)" using W(2) by (intro takeWhile_append_ws) auto
  finally show ?thesis
    by (simp add: first_token_def trimmed_dropWhile[OF trim_facts(1)[OF assms]])
qed

lemma second_token_trim:
  assumes "dropWhile ws a \<noteq> []"
  shows "second_token (trim a) = second_token a"
proof -
  obtain W where W: "dropWhile ws a = trim a @ W" "\<forall>c\<in>set W. ws c"
    using trim_facts(2)[OF assms] by blast
  let ?T = "trim a"
  let ?T' = "dropWhile nws ?T"
  have tr: "trimmed ?T" by (rule trim_facts(1)[OF assms])
  have "dropWhile nws (dropWhile ws a) = ?T' @ W"
    unfolding W(1) using W(2) by (intro dropWhile_append_ws) auto
  then have a: "second_token a = takeWhile nws (dropWhile ws (?T' @ W))"
    by (simp add: second_token_def first_token_def)
  have b: "second_token ?T = takeWhile nws (dropWhile ws ?T')"
    by (simp add: second_token_def first_token_def trimmed_dropWhile[OF tr])
  show ?thesis
  proof (cases "?T' = []")
    case True
    have w: "dropWhile ws W = []" using W(2) by (simp add: dropWhile_eq_Nil_conv)
    have "second_token a = takeWhile nws (dropWhile ws ([] @ W))"
      using a True by (simp only:)
    then have "second_token a = []" by (simp only: append_Nil w takeWhile.simps)
    moreover have "second_token ?T = takeWhile nws (dropWhile ws [])"
      using b True by (simp only:)
    then have "second_token ?T = []" by (simp only: dropWhile.simps takeWhile.simps)
    ultimately show ?thesis by (simp only:)
  next
    case False
    then have "last ?T' = last ?T" by (rule last_dropWhile)
    then have "\<not> ws (last ?T')" using tr by (simp add: trimmed_def)
    then obtain x where "x \<in> set ?T'" "\<not> ws x" using False last_in_set by blast
    then have "dropWhile ws (?T' @ W) = dropWhile ws ?T' @ W" by (rule dropWhile_append1)
    moreover have "takeWhile nws (dropWhile ws ?T' @ W) = takeWhile nws (dropWhile ws ?T')"
      using W(2) by (intro takeWhile_append_ws) auto
    ultimately show ?thesis using a b by (simp only:)
  qed
qed

lemma pop_token_trimmed:
  assumes "trimmed L"
  shows "\<exists>L'. pop_token L = Inr (Some (first_token L), L') \<and> trimmed L' \<and>
              (second_token L \<noteq> [] \<longrightarrow> first_token L' = second_token L)"
proof (cases "list_all nws L")
  case True
  then have "takeWhile nws L = L" by (simp add: list_all_iff takeWhile_eq_all_conv)
  then have 1: "first_token L = L" by (simp add: first_token_def trimmed_dropWhile[OF assms])
  have d: "dropWhile nws L = []" using True by (simp add: list_all_iff)
  have 2: "second_token L = []"
    unfolding second_token_def first_token_def trimmed_dropWhile[OF assms]
    by (simp only: d dropWhile.simps takeWhile.simps)
  have "pop_token L = Inr (Some L, L)"
    using assms True by (simp add: pop_token_def trimmed_def)
  with 1 2 assms show ?thesis by simp
next
  case False
  let ?T' = "dropWhile nws L"
  let ?R = "dropWhile ws ?T'"
  from False have ne: "?T' \<noteq> []" by (auto simp: list_all_iff)
  then have "last ?T' = last L" by (rule last_dropWhile)
  then have "\<not> ws (last ?T')" using assms by (simp add: trimmed_def)
  then have ex: "\<exists>x\<in>set ?T'. \<not> ws x" using ne last_in_set by blast
  then have Rne: "?R \<noteq> []" by (simp add: dropWhile_eq_Nil_conv)
  then have "last ?R = last ?T'" by (rule last_dropWhile)
  with \<open>\<not> ws (last ?T')\<close> Rne have trR: "trimmed ?R"
    by (simp add: trimmed_def hd_dropWhile)
  have "first_token ?R = second_token L"
    by (simp add: second_token_def first_token_def trimmed_dropWhile[OF assms] dropWhile_idem)
  moreover have "pop_token L = Inr (Some (first_token L), ?R)"
  proof -
    have tk: "take (length (takeWhile nws L)) L = takeWhile nws L"
      by (rule takeWhile_eq_take[symmetric])
    have dr: "drop (length (takeWhile nws L)) L = dropWhile nws L"
      by (rule dropWhile_eq_drop[symmetric])
    have ft: "first_token L = takeWhile nws L"
      by (simp add: first_token_def trimmed_dropWhile[OF assms])
    have c1: "\<not> (L = [] \<or> ws (hd L))" using assms by (simp add: trimmed_def)
    show ?thesis
      unfolding pop_token_def Let_def tk dr ft
      using c1 False Rne by (simp only: if_False if_True)
  qed
  ultimately show ?thesis using trR by blast
qed

lemma add_property_F32: "\<exists>b p'. add_property p prp F32 = Inr (b, p')"
  by (auto simp: add_property_def type_size_map_def Let_def)

lemma type_map_F32: "type_map t = Some ty \<Longrightarrow> ty = F32"
  by (auto simp: type_map_def split: if_splits)

text \<open>
  A line of the header either lets the loop go on or ends the parse through
  \<^verbatim>\<open>log_error\<close> and \<^verbatim>\<open>return false\<close>.
\<close>

lemma log_error_no_receiver [simp]: "log_error False continue = continue"
  by (simp add: log_error_def log_message_def)

lemma log_error_receiver [simp]: "log_error True continue = Inl UndefinedBehaviour"
  by (simp add: log_error_def log_message_def)

lemma log_warn_no_receiver [simp]: "log_warn False continue = continue"
  by (simp add: log_warn_def log_message_def)

lemma log_warn_receiver [simp]: "log_warn True continue = Inl UndefinedBehaviour"
  by (simp add: log_warn_def log_message_def)

lemma header_element_ok:
  assumes "trimmed L"
  shows "(\<exists>p'. header_element send_log p L = Inr (True, p')) \<or>
         (\<exists>p'. header_element send_log p L = log_error send_log (Inr (False, p')))"
proof -
  obtain L1 where t1: "pop_token L = Inr (Some (first_token L), L1)" "trimmed L1"
    using pop_token_trimmed[OF assms] by blast
  obtain L2 where t2: "pop_token L1 = Inr (Some (first_token L1), L2)"
    using pop_token_trimmed[OF t1(2)] by blast
  show ?thesis
    by (cases send_log) (auto simp: header_element_def t1 t2 split: option.split)
qed

lemma header_property_ok:
  assumes "trimmed L"
  shows "(\<exists>p'. header_property send_log p L = Inr (True, p')) \<or>
         (\<exists>p'. header_property send_log p L = log_error send_log (Inr (False, p')))"
proof -
  obtain L1 where t1: "pop_token L = Inr (Some (first_token L), L1)" "trimmed L1"
    using pop_token_trimmed[OF assms] by blast
  obtain L2 where t2: "pop_token L1 = Inr (Some (first_token L1), L2)"
    using pop_token_trimmed[OF t1(2)] by blast
  show ?thesis
  proof (cases "parser_num_splats p = 0")
    case True
    then show ?thesis by (cases send_log) (auto simp: header_property_def)
  next
    case False
    show ?thesis
    proof (cases "type_map (first_token L)")
      case None
      with False show ?thesis by (cases send_log) (auto simp: header_property_def t1)
    next
      case (Some ty)
      then have ty: "ty = F32" by (rule type_map_F32)
      obtain b p' where a: "add_property p Ignore F32 = Inr (b, p')"
        using add_property_F32 by blast
      show ?thesis
      proof (cases "property_map (first_token L1)")
        case None
        with False Some ty a show ?thesis by (auto simp: header_property_def t1 t2)
      next
        case (Some prp)
        obtain b' p'' where "add_property p prp F32 = Inr (b', p'')"
          using add_property_F32 by blast
        with False \<open>type_map (first_token L) = Some ty\<close> ty Some show ?thesis
          by (cases send_log; cases b') (auto simp: header_property_def t1 t2)
      qed
    qed
  qed
qed

lemma header_line_step:
  assumes "LF \<notin> set a" and "first_token a \<noteq> ''end_header''"
  shows "(\<exists>p'. header_line send_log p (a @ LF # t) = Inl (log_error send_log (Inr (False, p')))) \<or>
         (\<exists>p'. header_line send_log p (a @ LF # t) = Inr (p', t))"
proof (cases "dropWhile ws a = []")
  case True
  then show ?thesis by (auto simp: header_line_def pop_line_complete[OF assms(1)])
next
  case False
  have pl: "pop_line (a @ LF # t) = (Some (trim a), t)"
    using False by (simp add: pop_line_complete[OF assms(1)])
  obtain L1 where t1: "pop_token (trim a) = Inr (Some (first_token a), L1)" "trimmed L1"
    using pop_token_trimmed[OF trim_facts(1)[OF False]] first_token_trim[OF False] by auto
  consider p1 where "header_element send_log p L1 = Inr (True, p1)"
    | p1 where "header_element send_log p L1 = log_error send_log (Inr (False, p1))"
    using header_element_ok[OF t1(2), of send_log p] by blast
  then have e: "(\<exists>p'. (case header_element send_log p L1 of
                   Inl f \<Rightarrow> Inl (Inl f)
                 | Inr (True, p) \<Rightarrow> Inr (p, t)
                 | Inr (False, p) \<Rightarrow> Inl (Inr (False, p))) =
               Inl (log_error send_log (Inr (False, p')))) \<or>
           (\<exists>p'. (case header_element send_log p L1 of
                   Inl f \<Rightarrow> Inl (Inl f)
                 | Inr (True, p) \<Rightarrow> Inr (p, t)
                 | Inr (False, p) \<Rightarrow> Inl (Inr (False, p))) = Inr (p', t))"
    by cases (cases send_log; simp)+
  consider p2 where "header_property send_log p L1 = Inr (True, p2)"
    | p2 where "header_property send_log p L1 = log_error send_log (Inr (False, p2))"
    using header_property_ok[OF t1(2), of send_log p] by blast
  then have pr: "(\<exists>p'. (case header_property send_log p L1 of
                   Inl f \<Rightarrow> Inl (Inl f)
                 | Inr (True, p) \<Rightarrow> Inr (p, t)
                 | Inr (False, p) \<Rightarrow> Inl (Inr (False, p))) =
               Inl (log_error send_log (Inr (False, p')))) \<or>
           (\<exists>p'. (case header_property send_log p L1 of
                   Inl f \<Rightarrow> Inl (Inl f)
                 | Inr (True, p) \<Rightarrow> Inr (p, t)
                 | Inr (False, p) \<Rightarrow> Inl (Inr (False, p))) = Inr (p', t))"
    by cases (cases send_log; simp)+
  have hl: "header_line send_log p (a @ LF # t) =
      (if first_token a = ''comment'' then Inr (p, t)
       else if first_token a = ''element'' then
         (case header_element send_log p L1 of
            Inl f \<Rightarrow> Inl (Inl f)
          | Inr (True, p) \<Rightarrow> Inr (p, t)
          | Inr (False, p) \<Rightarrow> Inl (Inr (False, p)))
       else if first_token a = ''property'' then
         (case header_property send_log p L1 of
            Inl f \<Rightarrow> Inl (Inl f)
          | Inr (True, p) \<Rightarrow> Inr (p, t)
          | Inr (False, p) \<Rightarrow> Inl (Inr (False, p)))
       else Inl (log_error send_log (Inr (False, p))))"
    using assms(2) by (simp add: header_line_def pl t1)
  show ?thesis
    unfolding hl using e pr by (simp only: split: if_split) blast
qed

lemma header_line_bad:
  assumes "LF \<notin> set l" and "first_token l = ''property''"
    and "second_token l \<noteq> []" and "type_map (second_token l) = None"
  shows "\<exists>p'. header_line send_log p (l @ LF # t) = Inl (log_error send_log (Inr (False, p')))"
proof -
  have ne: "dropWhile ws l \<noteq> []"
  proof
    assume "dropWhile ws l = []"
    then have "first_token l = []" unfolding first_token_def by (simp only: takeWhile.simps)
    with assms(2) show False by simp
  qed
  have pl: "pop_line (l @ LF # t) = (Some (trim l), t)"
    using ne by (simp add: pop_line_complete[OF assms(1)])
  have s2: "second_token (trim l) \<noteq> []" using assms(3) by (simp add: second_token_trim[OF ne])
  obtain L1 where t1: "pop_token (trim l) = Inr (Some ''property'', L1)" "trimmed L1"
      "first_token L1 = second_token l"
    using pop_token_trimmed[OF trim_facts(1)[OF ne]] first_token_trim[OF ne]
      second_token_trim[OF ne] assms(2) s2 by auto
  obtain L2 where t2: "pop_token L1 = Inr (Some (second_token l), L2)"
    using pop_token_trimmed[OF t1(2)] t1(3) by auto
  have "header_property send_log p L1 = log_error send_log (Inr (False, p))"
    using assms(4) by (simp add: header_property_def t2)
  then have "header_line send_log p (l @ LF # t) = Inl (log_error send_log (Inr (False, p)))"
    by (cases send_log) (simp_all add: header_line_def pl t1)
  then show ?thesis by blast
qed

lemma header_loop_stop:
  "header_line send_log p text = Inl r \<Longrightarrow> header_loop send_log p text = Some r"
  by (subst header_loop.simps) simp

lemma header_loop_continue:
  "header_line send_log p text = Inr (p', text') \<Longrightarrow>
   header_loop send_log p text = header_loop send_log p' text'"
  by (subst header_loop.simps) simp

lemma header_loop_bad:
  assumes "list_all (\<lambda>a. LF \<notin> set a \<and> first_token a \<noteq> ''end_header'') pre"
    and "LF \<notin> set l" and "first_token l = ''property''"
    and "second_token l \<noteq> []" and "type_map (second_token l) = None"
  shows "\<exists>p'. header_loop send_log p (terminated pre @ l @ LF # rest) =
           Some (log_error send_log (Inr (False, p')))"
  using assms(1)
proof (induction pre arbitrary: p)
  case Nil
  obtain p' where
    "header_line send_log p (l @ LF # rest) = Inl (log_error send_log (Inr (False, p')))"
    using header_line_bad[OF assms(2-5)] by blast
  then show ?case by (auto simp: terminated_def dest: header_loop_stop)
next
  case (Cons a pre)
  let ?t = "terminated pre @ l @ LF # rest"
  have eq: "terminated (a # pre) @ l @ LF # rest = a @ LF # ?t"
    by (simp add: terminated_def)
  from Cons.prems have a: "LF \<notin> set a" "first_token a \<noteq> ''end_header''"
    and pre: "list_all (\<lambda>a. LF \<notin> set a \<and> first_token a \<noteq> ''end_header'') pre"
    by simp_all
  from header_line_step[OF a, of send_log p ?t] show ?case
  proof
    assume "\<exists>p'. header_line send_log p (a @ LF # ?t) =
                Inl (log_error send_log (Inr (False, p')))"
    then show ?thesis unfolding eq by (auto dest: header_loop_stop)
  next
    assume "\<exists>p'. header_line send_log p (a @ LF # ?t) = Inr (p', ?t)"
    then obtain p' where "header_line send_log p (a @ LF # ?t) = Inr (p', ?t)" by blast
    then have "header_loop send_log p (a @ LF # ?t) = header_loop send_log p' ?t"
      by (rule header_loop_continue)
    with Cons.IH[OF pre, of p'] show ?thesis unfolding eq by simp
  qed
qed

lemma first_token_ply: "first_token ''ply'' = ''ply''"
  by (simp add: first_token_def whitespace_chars_def)

lemma parse_header_bad:
  assumes "list_all (\<lambda>a. LF \<notin> set a \<and> first_token a \<noteq> ''end_header'') pre"
    and "LF \<notin> set l" and "first_token l = ''property''"
    and "second_token l \<noteq> []" and "type_map (second_token l) = None"
  shows "\<exists>p'. parse_header send_log (p\<lparr>buffer := terminated pre @ l @ LF # rest\<rparr>) =
           Some (log_error send_log (Inr (False, p')))"
proof -
  define buf where "buf = terminated pre @ l @ LF # rest"
  have ne: "dropWhile ws l \<noteq> []"
  proof
    assume "dropWhile ws l = []"
    then have "first_token l = []" unfolding first_token_def by (simp only: takeWhile.simps)
    with assms(3) show False by simp
  qed
  have pl: "pop_line (l @ LF # rest) = (Some (trim l), rest)"
    using ne by (simp add: pop_line_complete[OF assms(2)])
  have ft: "first_token (trim l) = ''property''"
    using first_token_trim[OF ne] assms(3) by simp
  then have not_ply: "trim l \<noteq> ''ply''" using first_token_ply by auto
  obtain L1 where tl: "pop_token (trim l) = Inr (Some ''property'', L1)"
    using pop_token_trimmed[OF trim_facts(1)[OF ne]] ft by auto
  have "\<exists>p'. parse_header send_log (p\<lparr>buffer := buf\<rparr>) =
          Some (log_error send_log (Inr (False, p')))"
  proof (cases pre)
    case Nil
    then have "buf = l @ LF # rest" by (simp add: buf_def terminated_def)
    then show ?thesis
      by (auto simp: parse_header_def pl not_ply)
  next
    case (Cons a pre1)
    with assms(1) have a: "LF \<notin> set a" by simp
    define t1 where "t1 = terminated pre1 @ l @ LF # rest"
    have eq1: "buf = a @ LF # t1"
      using Cons by (simp add: buf_def t1_def terminated_def)
    show ?thesis
    proof (cases "dropWhile ws a = [] \<or> trim a \<noteq> ''ply''")
      case True
      then show ?thesis
        by (auto simp: parse_header_def eq1 pop_line_complete[OF a])
    next
      case False
      then have pa: "pop_line (a @ LF # t1) = (Some ''ply'', t1)"
        by (simp add: pop_line_complete[OF a])
      show ?thesis
      proof (cases pre1)
        case Nil
        then have "t1 = l @ LF # rest" by (simp add: t1_def terminated_def)
        then have pt1: "pop_line t1 = (Some (trim l), rest)" using pl by simp
        show ?thesis
          by (auto simp: parse_header_def eq1 pa pt1 tl)
      next
        case (Cons b pre2)
        with assms(1) \<open>pre = a # pre1\<close> have b: "LF \<notin> set b"
          and pre2: "list_all (\<lambda>a. LF \<notin> set a \<and> first_token a \<noteq> ''end_header'') pre2"
          by simp_all
        define t2 where "t2 = terminated pre2 @ l @ LF # rest"
        have eq2: "t1 = b @ LF # t2" using Cons by (simp add: t1_def t2_def terminated_def)
        show ?thesis
        proof (cases "dropWhile ws b = []")
          case True
          then have pt1: "pop_line t1 = (None, t1)"
            by (simp add: eq2 pop_line_complete[OF b])
          show ?thesis
            by (auto simp: parse_header_def eq1 pa pt1)
        next
          case False
          then have pb: "pop_line t1 = (Some (trim b), t2)"
            by (simp add: eq2 pop_line_complete[OF b])
          obtain M1 where m1: "pop_token (trim b) = Inr (Some (first_token (trim b)), M1)" "trimmed M1"
            using pop_token_trimmed[OF trim_facts(1)[OF False]] by blast
          obtain M2 where m2: "pop_token M1 = Inr (Some (first_token M1), M2)" "trimmed M2"
            using pop_token_trimmed[OF m1(2)] by blast
          obtain M3 where m3: "pop_token M2 = Inr (Some (first_token M2), M3)"
            using pop_token_trimmed[OF m2(2)] by blast
          show ?thesis
          proof (cases "format_map (first_token M1)")
            case None
            then show ?thesis
              by (auto simp: parse_header_def eq1 pa pb m1 m2)
          next
            case (Some fmt)
            obtain p' where "header_loop send_log (p\<lparr>buffer := buf, format := fmt\<rparr>) t2
                 = Some (log_error send_log (Inr (False, p')))"
              unfolding t2_def using header_loop_bad[OF pre2 assms(2-5)] by blast
            with Some show ?thesis
              by (cases send_log) (auto simp: parse_header_def pa[folded eq1] pb m1 m2 m3)
          qed
        qed
      qed
    qed
  qed
  then show ?thesis unfolding buf_def .
qed

lemma from_chars_2_61: "from_chars ''2305843009213693952'' = Some (2 ^ 61)"
  by (simp add: from_chars_def is_digit_def)




subsection \<open>Metadata on failure\<close>




subsection \<open>Property types\<close>

text \<open>
  Let the buffer start with the lines \<open>pre\<close>, none of them an \<open>end_header\<close> line,
  followed by a line \<open>l\<close> whose first word is \<open>property\<close> and whose second word is a
  type name other than \<open>float\<close> and \<open>float32\<close>, each line ended by a line feed. Then
  \<open>parse_metadata\<close> gets as far as a \<^verbatim>\<open>log_error\<close> that precedes a
  \<^verbatim>\<open>return false\<close>, whatever follows the type name on the line and whatever follows
  the line: without a log receiver it returns false and leaves the metadata as it was,
  and with one the call of \<^verbatim>\<open>log_error\<close> is undefined.
\<close>

lemma other_property_type_rejected:
  assumes "list_all (\<lambda>a. CHR 0x0A \<notin> set a \<and> first_token a \<noteq> ''end_header'') pre"
    and "CHR 0x0A \<notin> set l" and "first_token l = ''property''"
    and "second_token l \<noteq> []" and "type_map (second_token l) = None"
  shows "\<exists>p'. parse_metadata send_log p (terminated pre @ l @ CHR 0x0A # rest) metadata =
           Some (log_error send_log (Inr (False, p', metadata)))"
proof -
  obtain p' where "parse_header send_log (p\<lparr>buffer := terminated pre @ l @ LF # rest\<rparr>) =
           Some (log_error send_log (Inr (False, p')))"
    using parse_header_bad[OF assms] by blast
  then show ?thesis by (cases send_log) (simp_all add: parse_metadata_def)
qed

text \<open>
  C10 fails on the code when a log receiver is installed. The header below declares a
  property \<open>red\<close> of type \<open>uchar\<close>. With no receiver \<open>parse_metadata\<close> returns false,
  as the claim says. With a receiver the parse reaches
  \<^verbatim>\<open>log_error("Invalid property type: %.*s.", line->size(), line->data())\<close>, whose
  \<^verbatim>\<open>log\<close> is undefined, and \<open>parse_metadata\<close> does not get to its
  \<^verbatim>\<open>return false\<close>.
\<close>

theorem other_property_type_log_undefined:
  "parse_metadata True
       \<lparr>format = Invalid, layout = Map.empty, parser_num_splats = 0, splat_size = 0,
        buffer = []\<rparr>
       (terminated [''ply'', ''format binary_little_endian 1.0'', ''element vertex 1'',
          ''property float x''] @ ''property uchar red'' @ CHR 0x0A # terminated [''end_header''])
       \<lparr>properties = Map.empty, metadata_num_splats = 0\<rparr> =
     Some (Inl UndefinedBehaviour) \<and>
   (\<exists>p'. parse_metadata False
       \<lparr>format = Invalid, layout = Map.empty, parser_num_splats = 0, splat_size = 0,
        buffer = []\<rparr>
       (terminated [''ply'', ''format binary_little_endian 1.0'', ''element vertex 1'',
          ''property float x''] @ ''property uchar red'' @ CHR 0x0A # terminated [''end_header''])
       \<lparr>properties = Map.empty, metadata_num_splats = 0\<rparr> =
     Some (Inr (False, p', \<lparr>properties = Map.empty, metadata_num_splats = 0\<rparr>)))"
proof -
  have 1: "list_all (\<lambda>a. CHR 0x0A \<notin> set a \<and> first_token a \<noteq> ''end_header'')
      [''ply'', ''format binary_little_endian 1.0'', ''element vertex 1'', ''property float x'']"
    by (simp add: first_token_def whitespace_chars_def)
  have 2: "CHR 0x0A \<notin> set ''property uchar red''" by simp
  have 3: "first_token ''property uchar red'' = ''property''"
    by (simp add: first_token_def whitespace_chars_def)
  have 4: "second_token ''property uchar red'' \<noteq> []"
    by (simp add: second_token_def first_token_def whitespace_chars_def)
  have 5: "type_map (second_token ''property uchar red'') = None"
    by (simp add: second_token_def first_token_def whitespace_chars_def type_map_def)
  show ?thesis
    using other_property_type_rejected [OF 1 2 3 4 5, of True]
      other_property_type_rejected [OF 1 2 3 4 5, of False]
    by simp
qed

subsection \<open>A header that ends in a comment\<close>

lemma header_line_comment: "header_line send_log p ''comment'' = Inr (p, ''comment'')"
  by (simp add: header_line_def pop_line_def pop_token_def whitespace_chars_def)

lemma header_loop_comment_aux:
  assumes "header_loop send_log p t = Some y"
  shows "t \<noteq> ''comment''"
proof (rule header_loop.raw_induct [of "\<lambda>send_log p t y. t \<noteq> ''comment''" send_log p t y])
  fix f s q u r
  assume ih: "\<And>s q u r. f s q u = Some r \<Longrightarrow> u \<noteq> ''comment''"
    and body: "(case header_line s q u of Inl r \<Rightarrow> Some r | Inr (p', text') \<Rightarrow> f s p' text') =
      Some r"
  show "u \<noteq> ''comment''"
  proof
    assume "u = ''comment''"
    with body have "f s q ''comment'' = Some r"
      by (simp add: header_line_comment)
    from ih[OF this] show False by simp
  qed
qed (rule assms)

lemma header_loop_comment: "header_loop send_log p ''comment'' = None"
  using header_loop_comment_aux[of send_log p "''comment''"]
  by (cases "header_loop send_log p ''comment''") auto

text \<open>
  \<open>parse_metadata\<close> does not return on a header whose last line is a comment with no
  line feed after it: \<open>pop_line\<close> returns the line without advancing the view, and the
  loop reads the same line again.
\<close>

theorem unterminated_comment_never_returns:
  "parse_metadata send_log p (terminated [''ply'', ''format ascii 1.0''] @ ''comment'') metadata =
     None"
  by (simp add: terminated_def parse_metadata_def parse_header_def pop_line_def pop_token_def
      whitespace_chars_def format_map_def Let_def header_loop_comment)

subsection \<open>The required properties\<close>

lemma validate_loop_iff:
  "validate_loop send_log ps metadata =
     (if list_all (\<lambda>q. properties metadata q \<noteq> None) ps then Inr True
      else log_error send_log (Inr False))"
  by (induction ps) auto

text \<open>
  \<open>validate_metadata\<close> returns true exactly when the metadata has each of the fourteen
  required properties; when one is absent it calls \<^verbatim>\<open>log_error\<close> and, with no log
  receiver, returns false.
\<close>

theorem validate_metadata_iff_all_required:
  "validate_metadata send_log metadata =
     (if list_all (\<lambda>q. properties metadata q \<noteq> None)
           [X, Y, Z, RotationX, RotationY, RotationZ, RotationW,
            ScaleX, ScaleY, ScaleZ, DCRed, DCGreen, DCBlue, Opacity]
      then Inr True else log_error send_log (Inr False))"
  by (simp only: validate_metadata_def validate_loop_iff required_properties_def)

subsection \<open>Failing fast\<close>

lemma validate_metadata_missing:
  "property \<in> set required_properties \<Longrightarrow> properties metadata property = None \<Longrightarrow>
   validate_metadata send_log metadata = log_error send_log (Inr False)"
  by (auto simp: validate_metadata_def validate_loop_iff list_all_iff)

lemma parse_data_ascii:
  "format p = ASCII \<Longrightarrow>
   parse_data send_log p parse_splat st = log_error send_log (Inr (False, st))"
  by (simp add: parse_data_def)

lemma parse_metadata_size_mismatch:
  "parse_header send_log (p\<lparr>buffer := ply_buffer\<rparr>) = Some (Inr (True, p')) \<Longrightarrow>
   length (buffer p') \<noteq> unat (parser_num_splats p' * splat_size p') \<Longrightarrow>
   parse_metadata send_log p ply_buffer metadata =
     Some (log_error send_log (Inr (False, p', metadata)))"
  by (simp add: parse_metadata_def)

text \<open>
  C8 fails on the code for the size of the data: \<open>num_splats * splat_size\<close> is computed
  in \<^verbatim>\<open>size_t\<close> and wraps around. The header below declares \<open>2 ^ 61\<close> splats of the
  fourteen required properties, 56 bytes each, and no data follows it. The product is
  \<open>7 * 2 ^ 64\<close>, which is 0 in 64 bits and so equal to the size of the rest of the
  buffer: \<open>parse_metadata\<close> returns true and \<open>validate_metadata\<close> accepts the
  metadata, although 0 bytes are not \<open>2 ^ 61 * 56\<close> bytes. No log function is called on
  the way, so this is so with and without a log receiver.
\<close>

theorem size_check_wraps_around:
  "(case parse_metadata send_log
      \<lparr>format = Invalid, layout = Map.empty, parser_num_splats = 0, splat_size = 0,
       buffer = []\<rparr>
      (terminated
        [''ply'', ''format binary_little_endian 1.0'', ''element vertex 2305843009213693952'',
         ''property float x'', ''property float y'', ''property float z'',
         ''property float f_dc_0'', ''property float f_dc_1'', ''property float f_dc_2'',
         ''property float opacity'',
         ''property float scale_0'', ''property float scale_1'', ''property float scale_2'',
         ''property float rot_0'', ''property float rot_1'', ''property float rot_2'',
         ''property float rot_3'', ''end_header''])
      \<lparr>properties = Map.empty, metadata_num_splats = 0\<rparr> of
      Some (Inr (ok, p, metadata)) \<Rightarrow>
        ok \<and> validate_metadata send_log metadata = Inr True \<and>
        metadata_num_splats metadata = 2 ^ 61 \<and>
        splat_size p = 56 \<and> length (buffer p) = 0 \<and>
        length (buffer p) \<noteq> unat (metadata_num_splats metadata) * unat (splat_size p)
    | _ \<Rightarrow> False)"
  apply (simp add: terminated_def parse_metadata_def parse_header_def pop_line_def pop_token_def
      whitespace_chars_def format_map_def Let_def)
  apply (subst header_loop.simps, simp add: header_line_def header_element_def
      header_property_def add_property_def pop_line_def pop_token_def whitespace_chars_def
      type_map_def property_map_def type_size_map_def Let_def from_chars_2_61)+
  apply (simp add: validate_metadata_def required_properties_def)
  done

end
